theory Spec2Isabelle
  imports Complex_Main "HOL-Library.Word"
begin

section \<open>Conventions of the embedding\<close>

text \<open>
  The theory embeds the adapters of the PrivacyKit SDK (\<^verbatim>\<open>adapters/shadowwire.ts\<close>,
  \<^verbatim>\<open>adapters/arcium.ts\<close>, \<^verbatim>\<open>adapters/privacycash.ts\<close>) and the helpers of
  \<^verbatim>\<open>utils/index.ts\<close> they call.

  \<^item> A JavaScript \<^verbatim>\<open>number\<close> is idealised as a \<open>real\<close>: arithmetic is exact. Where a
    number is computed from a value read from JSON it is a \<open>jsnumber\<close>, which also has
    \<^verbatim>\<open>NaN\<close> and the infinities.
  \<^item> A JavaScript string is a \<open>string\<close> whose characters are ASCII; on such strings
    \<^verbatim>\<open>length\<close>, \<^verbatim>\<open>slice\<close> and the UTF-8 encoding count one unit per character.
  \<^item> An element of a \<^verbatim>\<open>Uint8Array\<close> or \<^verbatim>\<open>Buffer\<close> is an \<open>8 word\<close>.
  \<^item> A thrown exception is the \<open>Inl\<close> branch of a sum, a returned value the \<open>Inr\<close> one.
\<close>

type_synonym byte = "8 word"
type_synonym number = real

section \<open>utils/index.ts\<close>

subsection \<open>bytesToHex and hexToBytes\<close>

definition hex_digit :: "nat \<Rightarrow> char" where
  "hex_digit d = ''0123456789abcdef'' ! d"

text \<open>\<^verbatim>\<open>b.toString(16)\<close> for \<open>b < 256\<close>: one or two lower-case digits.\<close>

definition toString16 :: "nat \<Rightarrow> string" where
  "toString16 n = (if n < 16 then [hex_digit n] else [hex_digit (n div 16), hex_digit (n mod 16)])"

definition padStart :: "nat \<Rightarrow> char \<Rightarrow> string \<Rightarrow> string" where
  "padStart n c s = replicate (n - length s) c @ s"

definition bytesToHex :: "byte list \<Rightarrow> string" where
  "bytesToHex bytes = concat (map (\<lambda>b. padStart 2 (CHR ''0'') (toString16 (unat b))) bytes)"

definition hex_val :: "char \<Rightarrow> nat option" where
  "hex_val c =
     (let n = (of_char c :: nat) in
      if 48 \<le> n \<and> n \<le> 57 then Some (n - 48)
      else if 97 \<le> n \<and> n \<le> 102 then Some (n - 87)
      else if 65 \<le> n \<and> n \<le> 70 then Some (n - 55)
      else None)"

definition is_hex :: "char \<Rightarrow> bool" where
  "is_hex c = (hex_val c \<noteq> None)"

text \<open>The ASCII characters that \<^verbatim>\<open>parseInt\<close> skips at the start of its argument.\<close>

definition is_js_whitespace :: "char \<Rightarrow> bool" where
  "is_js_whitespace c = ((of_char c :: nat) \<in> {9, 10, 11, 12, 13, 32})"

fun hex_value :: "nat \<Rightarrow> string \<Rightarrow> nat" where
  "hex_value acc [] = acc"
| "hex_value acc (c # cs) = hex_value (16 * acc + (case hex_val c of None \<Rightarrow> 0 | Some d \<Rightarrow> d)) cs"

text \<open>
  \<^verbatim>\<open>parseInt(s, 16)\<close>: leading white space is skipped, a sign is read, a \<^verbatim>\<open>0x\<close> prefix is
  dropped, and the longest prefix of hexadecimal digits is the value. \<open>None\<close> is
  \<^verbatim>\<open>NaN\<close>.
\<close>

definition parseInt16 :: "string \<Rightarrow> int option" where
  "parseInt16 s =
     (let s1 = dropWhile is_js_whitespace s;
          sgn = (if take 1 s1 = ''-'' then - 1 else 1 :: int);
          s2 = (if take 1 s1 = ''-'' \<or> take 1 s1 = ''+'' then drop 1 s1 else s1);
          s3 = (if take 2 s2 = ''0x'' \<or> take 2 s2 = ''0X'' then drop 2 s2 else s2);
          ds = takeWhile is_hex s3
      in if ds = [] then None else Some (sgn * int (hex_value 0 ds)))"

text \<open>Storing a number into a \<^verbatim>\<open>Uint8Array\<close>: \<^verbatim>\<open>NaN\<close> is stored as 0, an integer modulo 256.\<close>

definition to_uint8 :: "int option \<Rightarrow> byte" where
  "to_uint8 v = (case v of None \<Rightarrow> 0 | Some i \<Rightarrow> word_of_int i)"

text \<open>
  The loop of \<^verbatim>\<open>hexToBytes\<close>: the array has \<open>\<lfloor>length / 2\<rfloor>\<close> elements, and the
  write of a trailing single character falls outside it and is dropped.
\<close>

fun hex_pairs :: "string \<Rightarrow> byte list" where
  "hex_pairs (a # b # rest) = to_uint8 (parseInt16 [a, b]) # hex_pairs rest"
| "hex_pairs _ = []"

definition hexToBytes :: "string \<Rightarrow> byte list" where
  "hexToBytes hex =
     (let cleanHex = (if take 2 hex = ''0x'' then drop 2 hex else hex)
      in hex_pairs cleanHex)"

subsection \<open>retry\<close>

record 'e retry_options =
  maxRetries :: int
  baseDelayMs :: int
  maxDelayMs :: int
  shouldRetry :: "'e \<Rightarrow> bool"

definition default_retry_options :: "'e retry_options" where
  "default_retry_options =
     \<lparr>maxRetries = 3, baseDelayMs = 1000, maxDelayMs = 10000, shouldRetry = (\<lambda>_. True)\<rparr>"

text \<open>
  What \<^verbatim>\<open>retry\<close> does, in order: an invocation of \<^verbatim>\<open>fn\<close> with its outcome, or a
  \<^verbatim>\<open>sleep\<close> of so many milliseconds.
\<close>

datatype ('e, 'a) retry_event = Attempt "'e + 'a" | Sleep int

definition retry_delay :: "'e retry_options \<Rightarrow> nat \<Rightarrow> int" where
  "retry_delay opts attempt = min (baseDelayMs opts * 2 ^ attempt) (maxDelayMs opts)"

text \<open>
  The \<^verbatim>\<open>for\<close> loop of \<^verbatim>\<open>retry\<close>. \<^verbatim>\<open>fn\<close> is an action on a state \<open>'s\<close> that throws
  (\<open>Inl\<close>) or returns (\<open>Inr\<close>). The thrown value of \<^verbatim>\<open>retry\<close> is an \<open>'e option\<close>:
  \<open>None\<close> is the \<^verbatim>\<open>undefined\<close> that \<^verbatim>\<open>lastError\<close> holds when the loop body never ran.
\<close>

function retry_loop ::
  "'e retry_options \<Rightarrow> ('s \<Rightarrow> ('e + 'a) \<times> 's) \<Rightarrow> nat \<Rightarrow> 'e option \<Rightarrow> 's
     \<Rightarrow> ('e option + 'a) \<times> 's \<times> ('e, 'a) retry_event list" where
  "retry_loop opts fn attempt lastError s =
     (if int attempt \<le> maxRetries opts then
        (case fn s of
           (Inr v, s') \<Rightarrow> (Inr v, s', [Attempt (Inr v)])
         | (Inl e, s') \<Rightarrow>
             if int attempt = maxRetries opts \<or> \<not> shouldRetry opts e
             then (Inl (Some e), s', [Attempt (Inl e)])
             else (case retry_loop opts fn (Suc attempt) (Some e) s' of
                     (r, s'', tr) \<Rightarrow>
                       (r, s'', Attempt (Inl e) # Sleep (retry_delay opts attempt) # tr)))
      else (Inl lastError, s, []))"
  by pat_completeness auto
termination
  by (relation "measure (\<lambda>(opts, fn, attempt, lastError, s). nat (maxRetries opts + 1 - int attempt))")
     auto

definition retry ::
  "'e retry_options \<Rightarrow> ('s \<Rightarrow> ('e + 'a) \<times> 's) \<Rightarrow> 's
     \<Rightarrow> ('e option + 'a) \<times> 's \<times> ('e, 'a) retry_event list" where
  "retry opts fn s = retry_loop opts fn 0 None s"

text \<open>The outcomes of the attempts and the sleeps of a run, and what a run should look like.\<close>

fun attempts :: "('e, 'a) retry_event list \<Rightarrow> ('e + 'a) list" where
  "attempts [] = []"
| "attempts (Attempt r # tr) = r # attempts tr"
| "attempts (Sleep d # tr) = attempts tr"

fun sleeps :: "('e, 'a) retry_event list \<Rightarrow> int list" where
  "sleeps [] = []"
| "sleeps (Attempt r # tr) = sleeps tr"
| "sleeps (Sleep d # tr) = d # sleeps tr"

text \<open>One sleep between consecutive attempts, none before the first or after the last.\<close>

fun interleaved :: "(nat \<Rightarrow> int) \<Rightarrow> nat \<Rightarrow> ('e + 'a) list \<Rightarrow> ('e, 'a) retry_event list" where
  "interleaved delay k [] = []"
| "interleaved delay k [r] = [Attempt r]"
| "interleaved delay k (r # r' # rs) = Attempt r # Sleep (delay k) # interleaved delay (Suc k) (r' # rs)"

text \<open>The outcomes of \<open>n\<close> successive invocations of \<open>fn\<close> from state \<open>s\<close>, and the state after them.\<close>

fun fn_calls :: "('s \<Rightarrow> ('e + 'a) \<times> 's) \<Rightarrow> 's \<Rightarrow> nat \<Rightarrow> ('e + 'a) list \<times> 's" where
  "fn_calls fn s 0 = ([], s)"
| "fn_calls fn s (Suc n) =
     (case fn s of (r, s') \<Rightarrow> (case fn_calls fn s' n of (rs, s'') \<Rightarrow> (r # rs, s'')))"


section \<open>The JavaScript runtime: strings, numbers, JSON, Buffer\<close>

text \<open>
  The adapters call the runtime's \<^verbatim>\<open>String\<close>, \<^verbatim>\<open>Number\<close>, \<^verbatim>\<open>JSON\<close> and \<^verbatim>\<open>Buffer\<close>. They are
  not code of the SDK; the definitions below follow ECMAScript and the Node documentation
  on ASCII text.
\<close>

subsection \<open>Strings\<close>

definition upper_char :: "char \<Rightarrow> char" where
  "upper_char c =
     (case map_of (zip ''abcdefghijklmnopqrstuvwxyz'' ''ABCDEFGHIJKLMNOPQRSTUVWXYZ'') c of
        Some u \<Rightarrow> u
      | None \<Rightarrow> c)"

definition toUpperCase :: "string \<Rightarrow> string" where
  "toUpperCase s = map upper_char s"

definition startsWith :: "string \<Rightarrow> string \<Rightarrow> bool" where
  "startsWith s p = (take (length p) s = p)"

text \<open>\<^verbatim>\<open>hay.includes(needle)\<close>.\<close>

fun str_includes :: "string \<Rightarrow> string \<Rightarrow> bool" where
  "str_includes [] needle = (needle = [])"
| "str_includes (c # cs) needle = (startsWith (c # cs) needle \<or> str_includes cs needle)"

subsection \<open>Number to string\<close>

definition digit_char :: "nat \<Rightarrow> char" where
  "digit_char d = ''0123456789'' ! d"

function nat_to_string :: "nat \<Rightarrow> string" where
  "nat_to_string n =
     (if n < 10 then [digit_char n] else nat_to_string (n div 10) @ [digit_char (n mod 10)])"
  by pat_completeness auto
termination
  by (relation "measure id") auto

text \<open>The digits after the decimal point of \<open>f\<close>, \<open>0 \<le> f < 1\<close>, at most \<open>k\<close> of them.\<close>

fun frac_digits :: "nat \<Rightarrow> real \<Rightarrow> string" where
  "frac_digits 0 f = []"
| "frac_digits (Suc k) f =
     (if f = 0 then []
      else digit_char (nat \<lfloor>f * 10\<rfloor>) # frac_digits k (f * 10 - of_int \<lfloor>f * 10\<rfloor>))"

text \<open>
  A number of the SDK has at most 17 significant digits; in the range where JavaScript
  prints no exponent that is at most 23 digits after the point.
\<close>

definition decimal_string :: "real \<Rightarrow> string" where
  "decimal_string x =
     nat_to_string (nat \<lfloor>x\<rfloor>) @
     (if x = of_int \<lfloor>x\<rfloor> then [] else CHR ''.'' # frac_digits 30 (x - of_int \<lfloor>x\<rfloor>))"

fun small_exponent :: "nat \<Rightarrow> real \<Rightarrow> nat" where
  "small_exponent 0 x = 0"
| "small_exponent (Suc k) x = (if 1 \<le> x then 0 else Suc (small_exponent k (x * 10)))"

definition exponent_string :: "real \<Rightarrow> string" where
  "exponent_string x =
     (if 1 \<le> x then
        (let e = length (nat_to_string (nat \<lfloor>x\<rfloor>)) - 1
         in decimal_string (x / 10 ^ e) @ ''e+'' @ nat_to_string e)
      else
        (let e = small_exponent 400 x
         in decimal_string (x * 10 ^ e) @ ''e-'' @ nat_to_string e))"

text \<open>
  \<^verbatim>\<open>Number.prototype.toString\<close>: plain decimal notation for \<open>0\<close> and for
  \<open>10\<^sup>-\<^sup>6 \<le> |x| < 10\<^sup>2\<^sup>1\<close>, exponent notation otherwise.
\<close>

definition positive_to_string :: "real \<Rightarrow> string" where
  "positive_to_string x =
     (if x = 0 \<or> (1 / 10 ^ 6 \<le> x \<and> x < 10 ^ 21) then decimal_string x else exponent_string x)"

definition number_to_string :: "number \<Rightarrow> string" where
  "number_to_string x =
     (if x < 0 then CHR ''-'' # positive_to_string (- x) else positive_to_string x)"


subsection \<open>JSON.stringify\<close>

text \<open>
  A JSON value. An object is the list of its members in the order of the text; of a
  repeated key the last member counts.
\<close>

datatype json =
    JNull
  | JBool bool
  | JNum number
  | JStr string
  | JArray "json list"
  | JObject "(string \<times> json) list"

definition backslash :: char where
  "backslash = CHR 0x5C"

definition dquote :: char where
  "dquote = CHR 0x22"

text \<open>\<^verbatim>\<open>QuoteJSONString\<close>: the escape of one character.\<close>

definition json_escape :: "char \<Rightarrow> string" where
  "json_escape c =
     (let n = (of_char c :: nat) in
      if n = 0x22 then [backslash, dquote]
      else if n = 0x5C then [backslash, backslash]
      else if n = 8 then [backslash, CHR ''b'']
      else if n = 12 then [backslash, CHR ''f'']
      else if n = 10 then [backslash, CHR ''n'']
      else if n = 13 then [backslash, CHR ''r'']
      else if n = 9 then [backslash, CHR ''t'']
      else if n < 32 then [backslash, CHR ''u'', CHR ''0'', CHR ''0'', hex_digit (n div 16), hex_digit (n mod 16)]
      else [c])"

definition json_quote :: "string \<Rightarrow> string" where
  "json_quote s = dquote # concat (map json_escape s) @ [dquote]"

fun JSON_stringify :: "json \<Rightarrow> string"
  and elements_to_json :: "json list \<Rightarrow> string"
  and members_to_json :: "(string \<times> json) list \<Rightarrow> string" where
  "JSON_stringify JNull = ''null''"
| "JSON_stringify (JBool b) = (if b then ''true'' else ''false'')"
| "JSON_stringify (JNum x) = number_to_string x"
| "JSON_stringify (JStr s) = json_quote s"
| "JSON_stringify (JArray xs) = ''['' @ elements_to_json xs @ '']''"
| "JSON_stringify (JObject ms) = ''{'' @ members_to_json ms @ ''}''"
| "elements_to_json [] = []"
| "elements_to_json [x] = JSON_stringify x"
| "elements_to_json (x # y # ys) = JSON_stringify x @ '','' @ elements_to_json (y # ys)"
| "members_to_json [] = []"
| "members_to_json [(k, v)] = json_quote k @ '':'' @ JSON_stringify v"
| "members_to_json ((k, v) # m # ms) =
     json_quote k @ '':'' @ JSON_stringify v @ '','' @ members_to_json (m # ms)"

subsection \<open>JSON.parse\<close>

text \<open>
  The text is cut into tokens, and the tokens are read by a parser with a stack of the
  arrays and objects that are open. \<open>None\<close> is the \<^verbatim>\<open>SyntaxError\<close>. A \<^verbatim>\<open>\u\<close> escape
  outside ASCII has no character in the model and is not accepted.
\<close>

datatype token = TPunct char | TString string | TWord string

datatype lex_mode =
    Idle
  | InString string
  | InEscape string
  | InUnicode string string
  | InWord string

definition is_json_whitespace :: "char \<Rightarrow> bool" where
  "is_json_whitespace c = ((of_char c :: nat) \<in> {9, 10, 13, 32})"

definition is_digit :: "char \<Rightarrow> bool" where
  "is_digit c = (48 \<le> (of_char c :: nat) \<and> (of_char c :: nat) \<le> 57)"

definition is_word_char :: "char \<Rightarrow> bool" where
  "is_word_char c =
     (let n = (of_char c :: nat) in
      (48 \<le> n \<and> n \<le> 57) \<or> (97 \<le> n \<and> n \<le> 122) \<or> (65 \<le> n \<and> n \<le> 90) \<or>
      c = CHR ''+'' \<or> c = CHR ''-'' \<or> c = CHR ''.'')"

definition unescape :: "char \<Rightarrow> char option" where
  "unescape c =
     (if c = dquote then Some dquote
      else if c = backslash then Some backslash
      else if c = CHR ''/'' then Some CHR ''/''
      else if c = CHR ''b'' then Some (CHR 0x08)
      else if c = CHR ''f'' then Some (CHR 0x0C)
      else if c = CHR ''n'' then Some (CHR 0x0A)
      else if c = CHR ''r'' then Some (CHR 0x0D)
      else if c = CHR ''t'' then Some (CHR 0x09)
      else None)"

definition idle_step :: "char \<Rightarrow> (token list \<times> lex_mode) option" where
  "idle_step c =
     (if is_json_whitespace c then Some ([], Idle)
      else if c = CHR ''{'' \<or> c = CHR ''}'' \<or> c = CHR ''['' \<or> c = CHR '']'' \<or> c = CHR '':''
              \<or> c = CHR '','' then Some ([TPunct c], Idle)
      else if c = dquote then Some ([], InString [])
      else if is_word_char c then Some ([], InWord [c])
      else None)"

fun lex_step :: "lex_mode \<Rightarrow> char \<Rightarrow> (token list \<times> lex_mode) option" where
  "lex_step Idle c = idle_step c"
| "lex_step (InString acc) c =
     (if c = dquote then Some ([TString acc], Idle)
      else if c = backslash then Some ([], InEscape acc)
      else if (of_char c :: nat) < 32 then None
      else Some ([], InString (acc @ [c])))"
| "lex_step (InEscape acc) c =
     (if c = CHR ''u'' then Some ([], InUnicode acc [])
      else (case unescape c of None \<Rightarrow> None | Some d \<Rightarrow> Some ([], InString (acc @ [d]))))"
| "lex_step (InUnicode acc hs) c =
     (if \<not> is_hex c then None
      else if length hs < 3 then Some ([], InUnicode acc (hs @ [c]))
      else (let n = hex_value 0 (hs @ [c])
            in if n < 128 then Some ([], InString (acc @ [char_of n])) else None))"
| "lex_step (InWord w) c =
     (if is_word_char c then Some ([], InWord (w @ [c]))
      else (case idle_step c of None \<Rightarrow> None | Some (ts, m) \<Rightarrow> Some (TWord w # ts, m)))"

fun lex :: "lex_mode \<Rightarrow> string \<Rightarrow> token list option" where
  "lex m [] = (case m of Idle \<Rightarrow> Some [] | InWord w \<Rightarrow> Some [TWord w] | _ \<Rightarrow> None)"
| "lex m (c # cs) =
     (case lex_step m c of
        None \<Rightarrow> None
      | Some (ts, m') \<Rightarrow> (case lex m' cs of None \<Rightarrow> None | Some ts' \<Rightarrow> Some (ts @ ts')))"

definition digit_val :: "char \<Rightarrow> nat" where
  "digit_val c = of_char c - 48"

fun digits_value :: "nat \<Rightarrow> string \<Rightarrow> nat" where
  "digits_value acc [] = acc"
| "digits_value acc (c # cs) = digits_value (10 * acc + digit_val c) cs"

fun frac_value :: "string \<Rightarrow> real" where
  "frac_value [] = 0"
| "frac_value (c # cs) = (real (digit_val c) + frac_value cs) / 10"

text \<open>
  A JSON number: an optional minus, an integer part without a leading zero, an optional
  fraction and an optional exponent.
\<close>

definition parse_exponent :: "string \<Rightarrow> int option" where
  "parse_exponent s =
     (if s = [] then Some 0
      else if hd s = CHR ''e'' \<or> hd s = CHR ''E'' then
        (let s1 = tl s;
             neg = (take 1 s1 = ''-'');
             ds = (if take 1 s1 = ''-'' \<or> take 1 s1 = ''+'' then drop 1 s1 else s1)
         in if ds \<noteq> [] \<and> list_all is_digit ds
            then Some (if neg then - int (digits_value 0 ds) else int (digits_value 0 ds))
            else None)
      else None)"

definition scale10 :: "real \<Rightarrow> int \<Rightarrow> real" where
  "scale10 x e = (if 0 \<le> e then x * 10 ^ nat e else x / 10 ^ nat (- e))"

definition parse_number :: "string \<Rightarrow> real option" where
  "parse_number s =
     (let neg = (take 1 s = ''-'');
          s1 = (if neg then drop 1 s else s);
          ip = takeWhile is_digit s1;
          r1 = dropWhile is_digit s1;
          has_frac = (take 1 r1 = ''.'');
          fp = (if has_frac then takeWhile is_digit (drop 1 r1) else []);
          r2 = (if has_frac then dropWhile is_digit (drop 1 r1) else r1)
      in if ip = [] \<or> (1 < length ip \<and> hd ip = CHR ''0'') \<or> (has_frac \<and> fp = []) then None
         else (case parse_exponent r2 of
                 None \<Rightarrow> None
               | Some e \<Rightarrow>
                   (let m = scale10 (real (digits_value 0 ip) + frac_value fp) e
                    in Some (if neg then - m else m))))"

definition word_to_json :: "string \<Rightarrow> json option" where
  "word_to_json w =
     (if w = ''null'' then Some JNull
      else if w = ''true'' then Some (JBool True)
      else if w = ''false'' then Some (JBool False)
      else map_option JNum (parse_number w))"

text \<open>
  An open array with the elements read so far, or an open object with the members read so
  far and the key whose value is being read; both lists are in reverse order.
\<close>

datatype frame = InArray "json list" | InObject "(string \<times> json) list" string

text \<open>
  What the parser expects next: a value; a value or the end of an array just opened; a
  key, or also the end of an object just opened; the colon after a key; or, after a value
  is complete, what the innermost open array or object allows.
\<close>

datatype parser =
    ExpectValue "frame list"
  | ExpectValueOrClose "frame list"
  | ExpectKey bool "(string \<times> json) list" "frame list"
  | ExpectColon "(string \<times> json) list" string "frame list"
  | Completed json "frame list"

fun parse_value_token :: "frame list \<Rightarrow> token \<Rightarrow> parser option" where
  "parse_value_token st (TString s) = Some (Completed (JStr s) st)"
| "parse_value_token st (TWord w) = map_option (\<lambda>v. Completed v st) (word_to_json w)"
| "parse_value_token st (TPunct c) =
     (if c = CHR ''['' then Some (ExpectValueOrClose st)
      else if c = CHR ''{'' then Some (ExpectKey True [] st)
      else None)"

fun parse_step :: "parser \<Rightarrow> token \<Rightarrow> parser option" where
  "parse_step (ExpectValue st) t = parse_value_token st t"
| "parse_step (ExpectValueOrClose st) t =
     (if t = TPunct CHR '']'' then Some (Completed (JArray []) st)
      else parse_value_token (InArray [] # st) t)"
| "parse_step (ExpectKey first ms st) t =
     (case t of
        TString k \<Rightarrow> Some (ExpectColon ms k st)
      | TPunct c \<Rightarrow> if c = CHR ''}'' \<and> first then Some (Completed (JObject []) st) else None
      | TWord w \<Rightarrow> None)"
| "parse_step (ExpectColon ms k st) t =
     (if t = TPunct CHR '':'' then Some (ExpectValue (InObject ms k # st)) else None)"
| "parse_step (Completed v []) t = None"
| "parse_step (Completed v (InArray xs # st)) t =
     (if t = TPunct CHR '','' then Some (ExpectValue (InArray (v # xs) # st))
      else if t = TPunct CHR '']'' then Some (Completed (JArray (rev (v # xs))) st)
      else None)"
| "parse_step (Completed v (InObject ms k # st)) t =
     (if t = TPunct CHR '','' then Some (ExpectKey False ((k, v) # ms) st)
      else if t = TPunct CHR ''}'' then Some (Completed (JObject (rev ((k, v) # ms))) st)
      else None)"

fun parse_run :: "parser \<Rightarrow> token list \<Rightarrow> parser option" where
  "parse_run p [] = Some p"
| "parse_run p (t # ts) = (case parse_step p t of None \<Rightarrow> None | Some p' \<Rightarrow> parse_run p' ts)"

definition parse_tokens :: "token list \<Rightarrow> json option" where
  "parse_tokens ts =
     (case parse_run (ExpectValue []) ts of Some (Completed v []) \<Rightarrow> Some v | _ \<Rightarrow> None)"

definition JSON_parse :: "string \<Rightarrow> json option" where
  "JSON_parse s = (case lex Idle s of None \<Rightarrow> None | Some ts \<Rightarrow> parse_tokens ts)"

subsection \<open>Values read from JSON, used as strings and numbers\<close>

text \<open>
  A field of a parsed object is any JSON value, or \<^verbatim>\<open>undefined\<close> (\<open>None\<close>) when the
  member is missing. Where the adapters put such a field into a template literal, use it
  as a property key or multiply it, the runtime converts it.
\<close>

text \<open>
  \<^verbatim>\<open>ToString\<close>. An array is the texts of its elements joined by commas, with the empty
  text for \<^verbatim>\<open>null\<close>. An object is \<^verbatim>\<open>[object Object]\<close>, unless it has a member
  \<^verbatim>\<open>toString\<close>: that member hides \<^verbatim>\<open>Object.prototype.toString\<close> and is no function, and
  the conversion throws a \<^verbatim>\<open>TypeError\<close> (\<open>None\<close>).
\<close>

fun js_to_string :: "json \<Rightarrow> string option"
  and js_join :: "json list \<Rightarrow> string option" where
  "js_to_string JNull = Some ''null''"
| "js_to_string (JBool b) = Some (if b then ''true'' else ''false'')"
| "js_to_string (JNum x) = Some (number_to_string x)"
| "js_to_string (JStr s) = Some s"
| "js_to_string (JArray xs) = js_join xs"
| "js_to_string (JObject ms) =
     (if ''toString'' \<in> fst ` set ms then None else Some ''[object Object]'')"
| "js_join [] = Some []"
| "js_join [x] = (if x = JNull then Some [] else js_to_string x)"
| "js_join (x # y # ys) =
     (case (if x = JNull then Some [] else js_to_string x) of
        None \<Rightarrow> None
      | Some a \<Rightarrow> (case js_join (y # ys) of None \<Rightarrow> None | Some b \<Rightarrow> Some (a @ '','' @ b)))"

definition js_string :: "json option \<Rightarrow> string option" where
  "js_string v = (case v of None \<Rightarrow> Some ''undefined'' | Some j \<Rightarrow> js_to_string j)"

text \<open>
  A number that need not be finite: the result of \<^verbatim>\<open>ToNumber\<close> and of arithmetic on it.
\<close>

datatype jsnumber = Finite number | NaN | PosInfinity | NegInfinity

fun js_negate :: "jsnumber \<Rightarrow> jsnumber" where
  "js_negate (Finite a) = Finite (- a)"
| "js_negate NaN = NaN"
| "js_negate PosInfinity = NegInfinity"
| "js_negate NegInfinity = PosInfinity"

text \<open>\<^verbatim>\<open>x * y\<close> and \<^verbatim>\<open>x + y\<close> on numbers.\<close>

fun js_times :: "jsnumber \<Rightarrow> jsnumber \<Rightarrow> jsnumber" where
  "js_times (Finite a) (Finite b) = Finite (a * b)"
| "js_times NaN y = NaN"
| "js_times x NaN = NaN"
| "js_times (Finite a) y = (if a = 0 then NaN else if 0 < a then y else js_negate y)"
| "js_times x (Finite b) = (if b = 0 then NaN else if 0 < b then x else js_negate x)"
| "js_times PosInfinity y = y"
| "js_times NegInfinity y = js_negate y"

fun js_plus :: "jsnumber \<Rightarrow> jsnumber \<Rightarrow> jsnumber" where
  "js_plus (Finite a) (Finite b) = Finite (a + b)"
| "js_plus NaN y = NaN"
| "js_plus x NaN = NaN"
| "js_plus (Finite a) y = y"
| "js_plus x (Finite b) = x"
| "js_plus x y = (if x = y then x else NaN)"

text \<open>
  \<^verbatim>\<open>StringToNumber\<close>: white space is trimmed; the empty text is 0; then \<^verbatim>\<open>Infinity\<close> or
  a decimal literal, with an optional sign, or an unsigned literal in base 16, 8 or 2;
  anything else is \<^verbatim>\<open>NaN\<close>.
\<close>

definition js_trim :: "string \<Rightarrow> string" where
  "js_trim s = rev (dropWhile is_js_whitespace (rev (dropWhile is_js_whitespace s)))"

definition unsigned_decimal :: "string \<Rightarrow> jsnumber" where
  "unsigned_decimal s =
     (if s = ''Infinity'' then PosInfinity
      else
        (let ip = takeWhile is_digit s;
             r1 = dropWhile is_digit s;
             has_frac = (take 1 r1 = ''.'');
             fp = (if has_frac then takeWhile is_digit (drop 1 r1) else []);
             r2 = (if has_frac then dropWhile is_digit (drop 1 r1) else r1)
         in if ip = [] \<and> fp = [] then NaN
            else (case parse_exponent r2 of
                    None \<Rightarrow> NaN
                  | Some e \<Rightarrow> Finite (scale10 (real (digits_value 0 ip) + frac_value fp) e))))"

fun radix_value :: "nat \<Rightarrow> nat \<Rightarrow> string \<Rightarrow> nat" where
  "radix_value b acc [] = acc"
| "radix_value b acc (c # cs) =
     radix_value b (b * acc + (case hex_val c of None \<Rightarrow> 0 | Some d \<Rightarrow> d)) cs"

definition radix_literal :: "nat \<Rightarrow> string \<Rightarrow> jsnumber" where
  "radix_literal b ds =
     (if ds \<noteq> [] \<and> list_all (\<lambda>c. case hex_val c of None \<Rightarrow> False | Some d \<Rightarrow> d < b) ds
      then Finite (real (radix_value b 0 ds))
      else NaN)"

definition string_to_number :: "string \<Rightarrow> jsnumber" where
  "string_to_number s =
     (let t = js_trim s in
      if t = [] then Finite 0
      else if take 2 t = ''0x'' \<or> take 2 t = ''0X'' then radix_literal 16 (drop 2 t)
      else if take 2 t = ''0o'' \<or> take 2 t = ''0O'' then radix_literal 8 (drop 2 t)
      else if take 2 t = ''0b'' \<or> take 2 t = ''0B'' then radix_literal 2 (drop 2 t)
      else if take 1 t = ''-'' then js_negate (unsigned_decimal (drop 1 t))
      else if take 1 t = ''+'' then unsigned_decimal (drop 1 t)
      else unsigned_decimal t)"

text \<open>
  \<^verbatim>\<open>ToNumber\<close>. An array is converted through its text; an object is \<^verbatim>\<open>NaN\<close>, or throws
  as \<^verbatim>\<open>ToString\<close> does.
\<close>

definition js_number :: "json option \<Rightarrow> jsnumber option" where
  "js_number v =
     (case v of
        None \<Rightarrow> Some NaN
      | Some JNull \<Rightarrow> Some (Finite 0)
      | Some (JBool b) \<Rightarrow> Some (Finite (if b then 1 else 0))
      | Some (JNum x) \<Rightarrow> Some (Finite x)
      | Some (JStr s) \<Rightarrow> Some (string_to_number s)
      | Some (JArray xs) \<Rightarrow> map_option string_to_number (js_join xs)
      | Some (JObject ms) \<Rightarrow> (if ''toString'' \<in> fst ` set ms then None else Some NaN))"

subsection \<open>Buffer: UTF-8 and base64\<close>

text \<open>\<^verbatim>\<open>Buffer.from(s)\<close> and \<^verbatim>\<open>buf.toString()\<close> on ASCII text.\<close>

definition utf8_encode :: "string \<Rightarrow> byte list" where
  "utf8_encode s = map (\<lambda>c. of_nat (of_char c)) s"

definition utf8_decode :: "byte list \<Rightarrow> string" where
  "utf8_decode bs = map (\<lambda>b. char_of (unat b)) bs"

definition base64_alphabet :: string where
  "base64_alphabet = ''ABCDEFGHIJKLMNOPQRSTUVWXYZabcdefghijklmnopqrstuvwxyz0123456789+/''"

definition base64_char :: "nat \<Rightarrow> char" where
  "base64_char n = base64_alphabet ! n"

text \<open>\<^verbatim>\<open>buf.toString('base64')\<close>: the standard alphabet, padded with \<^verbatim>\<open>=\<close>.\<close>

fun base64_encode :: "byte list \<Rightarrow> string" where
  "base64_encode [] = []"
| "base64_encode [a] =
     [base64_char (unat a div 4), base64_char ((unat a mod 4) * 16), CHR ''='', CHR ''='']"
| "base64_encode [a, b] =
     [base64_char (unat a div 4), base64_char ((unat a mod 4) * 16 + unat b div 16),
      base64_char ((unat b mod 16) * 4), CHR ''='']"
| "base64_encode (a # b # c # rest) =
     [base64_char (unat a div 4), base64_char ((unat a mod 4) * 16 + unat b div 16),
      base64_char ((unat b mod 16) * 4 + unat c div 64), base64_char (unat c mod 64)]
     @ base64_encode rest"

text \<open>
  \<^verbatim>\<open>Buffer.from(s, 'base64')\<close>: the standard and the URL-safe alphabet are both accepted,
  a character of neither is skipped, and decoding stops at the first \<^verbatim>\<open>=\<close>.
\<close>

definition unbase64 :: "char \<Rightarrow> nat option" where
  "unbase64 c =
     (let n = (of_char c :: nat) in
      if 65 \<le> n \<and> n \<le> 90 then Some (n - 65)
      else if 97 \<le> n \<and> n \<le> 122 then Some (n - 71)
      else if 48 \<le> n \<and> n \<le> 57 then Some (n + 4)
      else if c = CHR ''+'' \<or> c = CHR ''-'' then Some 62
      else if c = CHR ''/'' \<or> c = CHR ''_'' then Some 63
      else None)"

fun decode_sextets :: "nat list \<Rightarrow> byte list" where
  "decode_sextets (a # b # c # d # rest) =
     [of_nat (a * 4 + b div 16), of_nat ((b mod 16) * 16 + c div 4), of_nat ((c mod 4) * 64 + d)]
     @ decode_sextets rest"
| "decode_sextets [a, b, c] = [of_nat (a * 4 + b div 16), of_nat ((b mod 16) * 16 + c div 4)]"
| "decode_sextets [a, b] = [of_nat (a * 4 + b div 16)]"
| "decode_sextets _ = []"

definition base64_decode :: "string \<Rightarrow> byte list" where
  "base64_decode s =
     decode_sextets (List.map_filter unbase64 (takeWhile (\<lambda>c. c \<noteq> CHR ''='') s))"


section \<open>types\<close>

text \<open>
  The request and result interfaces of \<^verbatim>\<open>types/index.ts\<close>, as the API reference declares
  them. An optional field is an \<open>option\<close>. The fields of a request carry the prefix
  \<open>req_\<close>, those of a result the prefix \<open>res_\<close>.
\<close>

datatype PrivacyProvider = SHADOWWIRE | ARCIUM | NOIR | PRIVACY_CASH | INCO

datatype PrivacyLevel = AMOUNT_HIDDEN | SENDER_HIDDEN | FULL_ENCRYPTED | ZK_PROVEN | COMPLIANT_POOL

text \<open>A \<^verbatim>\<open>PublicKey\<close> of web3.js, kept as its base-58 text.\<close>

datatype PublicKey = PublicKey string

fun toBase58 :: "PublicKey \<Rightarrow> string" where
  "toBase58 (PublicKey s) = s"

text \<open>\<^verbatim>\<open>string | PublicKey\<close>.\<close>

datatype address = AddressString string | AddressKey PublicKey

datatype operation = Op_transfer | Op_deposit | Op_withdraw | Op_prove

record TransferRequest =
  req_recipient :: address
  req_amount :: number
  req_token :: string
  req_privacy :: PrivacyLevel
  req_customProof :: "byte list option"

record DepositRequest =
  dreq_amount :: number
  dreq_token :: string

record WithdrawRequest =
  wreq_amount :: number
  wreq_token :: string
  wreq_recipient :: address
  wreq_commitment :: "string option"

record EstimateRequest =
  ereq_operation :: operation
  ereq_amount :: "number option"
  ereq_token :: "string option"
  ereq_privacy :: "PrivacyLevel option"

record TransferResult =
  res_signature :: string
  res_provider :: PrivacyProvider
  res_privacyLevel :: PrivacyLevel
  res_fee :: jsnumber
  res_anonymitySet :: "number option"

record DepositResult =
  dres_signature :: string
  dres_provider :: PrivacyProvider
  dres_commitment :: "string option"
  dres_fee :: number

record WithdrawResult =
  wres_signature :: string
  wres_provider :: PrivacyProvider
  wres_fee :: jsnumber

record EstimateResult =
  est_fee :: number
  est_tokenFee :: "number option"
  est_provider :: PrivacyProvider
  est_latencyMs :: number
  est_anonymitySet :: "number option"
  est_warnings :: "string list"

section \<open>utils/errors.ts\<close>

text \<open>
  The error classes the API reference lists, the built-in errors of the runtime, a value
  thrown by a collaborator (the wallet, the RPC node, \<^verbatim>\<open>fetch\<close>), and \<^verbatim>\<open>undefined\<close>.
\<close>

datatype sdk_error =
    ProviderNotAvailableError PrivacyProvider
  | WalletNotConnectedError
  | AmountBelowMinimumError number number string PrivacyProvider
  | InsufficientBalanceError number number string
  | RecipientNotFoundError string
  | TransactionError string
  | NetworkError string
  | Error string
  | SyntaxError
  | TypeError
  | RangeError
  | External string
  | Undefined
  | Wrapped string sdk_error

text \<open>
  Modelled from the spec: \<^verbatim>\<open>utils/errors.ts\<close> is not among the sources. \<^verbatim>\<open>wrapError(error,
  message)\<close> wraps an unknown error with a human message.
\<close>

definition wrapError :: "sdk_error \<Rightarrow> string \<Rightarrow> sdk_error" where
  "wrapError error message = Wrapped message error"

section \<open>Actions on a state\<close>

text \<open>
  An \<^verbatim>\<open>async\<close> method is an action on a state: it returns a value or throws, and leaves
  a new state.
\<close>

type_synonym ('s, 'a) action = "'s \<Rightarrow> (sdk_error + 'a) \<times> 's"

definition ok :: "'a \<Rightarrow> ('s, 'a) action" where
  "ok a s = (Inr a, s)"

definition throw :: "sdk_error \<Rightarrow> ('s, 'a) action" where
  "throw e s = (Inl e, s)"

definition bind :: "('s, 'a) action \<Rightarrow> ('a \<Rightarrow> ('s, 'b) action) \<Rightarrow> ('s, 'b) action" where
  "bind m f s = (case m s of (Inl e, s') \<Rightarrow> (Inl e, s') | (Inr a, s') \<Rightarrow> f a s')"

text \<open>\<^verbatim>\<open>try { m } catch (error) { h(error) }\<close>.\<close>

definition try_catch :: "('s, 'a) action \<Rightarrow> (sdk_error \<Rightarrow> ('s, 'a) action) \<Rightarrow> ('s, 'a) action" where
  "try_catch m h s = (case m s of (Inl e, s') \<Rightarrow> h e s' | (Inr a, s') \<Rightarrow> (Inr a, s'))"

section \<open>Collaborators: wallet, chain, HTTP\<close>

record AccountMeta =
  pubkey :: PublicKey
  isSigner :: bool
  isWritable :: bool

record TransactionInstruction =
  programId :: PublicKey
  keys :: "AccountMeta list"
  data :: "byte list"

record Blockhash =
  blockhash :: string
  lastValidBlockHeight :: nat

record Transaction =
  instructions :: "TransactionInstruction list"
  recentBlockhash :: string
  feePayer :: PublicKey

record HttpRequest =
  http_method :: string
  http_url :: string
  http_body :: "(string \<times> json) list option"

text \<open>The JSON body of a ShadowWire response, with the fields the adapter reads.\<close>

record ApiBody =
  success :: bool
  transactionId :: string
  fee :: "number option"
  commitment_field :: "string option"
  error_field :: "string option"
  balance :: number

text \<open>A \<^verbatim>\<open>Response\<close>: \<open>resp_json = None\<close> when \<^verbatim>\<open>res.json()\<close> rejects.\<close>

record 'b Response =
  resp_ok :: bool
  resp_text :: string
  resp_json :: "'b option"

record MerkleProof =
  root :: string
  pathElements :: "string list"
  pathIndices :: "nat list"

text \<open>What leaves the process, in order.\<close>

datatype event =
    SignMessage "byte list"
  | SignTransaction Transaction
  | SendRawTransaction "byte list"
  | ConfirmTransaction string
  | GetLatestBlockhash
  | Fetch HttpRequest

text \<open>
  The collaborators, as functions on a world \<open>'w\<close> the SDK does not see into. A
  collaborator that throws returns \<open>Inl\<close> with its message. \<^verbatim>\<open>toBuffer\<close>,
  \<^verbatim>\<open>findProgramAddressSync\<close> and the \<^verbatim>\<open>PublicKey\<close> constructor are web3.js;
  \<^verbatim>\<open>toSmallestUnit\<close> is \<^verbatim>\<open>types/tokens.ts\<close>, which is not among the sources.
\<close>

record 'w env =
  randomByte :: "'w \<Rightarrow> byte \<times> 'w"
  mathRandom :: "'w \<Rightarrow> real \<times> 'w"
  dateNow :: "'w \<Rightarrow> number \<times> 'w"
  wallet_signMessage :: "byte list \<Rightarrow> 'w \<Rightarrow> (string + byte list) \<times> 'w"
  wallet_signTransaction :: "Transaction \<Rightarrow> 'w \<Rightarrow> (string + byte list) \<times> 'w"
  rpc_getLatestBlockhash :: "'w \<Rightarrow> (string + Blockhash) \<times> 'w"
  rpc_sendRawTransaction :: "byte list \<Rightarrow> 'w \<Rightarrow> (string + string) \<times> 'w"
  rpc_confirmTransaction :: "string \<Rightarrow> Blockhash \<Rightarrow> 'w \<Rightarrow> (string + unit) \<times> 'w"
  http_fetch :: "HttpRequest \<Rightarrow> 'w \<Rightarrow> (string + ApiBody Response) \<times> 'w"
  http_fetch_proof :: "HttpRequest \<Rightarrow> 'w \<Rightarrow> (string + MerkleProof Response) \<times> 'w"
  toBuffer :: "PublicKey \<Rightarrow> byte list"
  findProgramAddressSync :: "byte list list \<Rightarrow> PublicKey \<Rightarrow> PublicKey option"
  validPublicKey :: "string \<Rightarrow> bool"
  toSmallestUnit :: "number \<Rightarrow> string \<Rightarrow> sdk_error + int"

text \<open>The state every action runs on: the world and the trace of what left the process.\<close>

record 'w io =
  world :: 'w
  trace :: "event list"

definition lift_external :: "string + 'a \<Rightarrow> sdk_error + 'a" where
  "lift_external r = (case r of Inl m \<Rightarrow> Inl (External m) | Inr a \<Rightarrow> Inr a)"

definition call_world ::
  "event list \<Rightarrow> ('w \<Rightarrow> (string + 'a) \<times> 'w) \<Rightarrow> (('w, 'z) io_scheme, 'a) action" where
  "call_world evs f st =
     (case f (world st) of
        (r, w') \<Rightarrow> (lift_external r, st\<lparr>world := w', trace := trace st @ evs\<rparr>))"

definition read_world :: "('w \<Rightarrow> 'a \<times> 'w) \<Rightarrow> (('w, 'z) io_scheme, 'a) action" where
  "read_world f st = (case f (world st) of (a, w') \<Rightarrow> (Inr a, st\<lparr>world := w'\<rparr>))"

definition signMessage :: "'w env \<Rightarrow> byte list \<Rightarrow> (('w, 'z) io_scheme, byte list) action" where
  "signMessage env message = call_world [SignMessage message] (wallet_signMessage env message)"

definition signTransaction :: "'w env \<Rightarrow> Transaction \<Rightarrow> (('w, 'z) io_scheme, byte list) action" where
  "signTransaction env tx = call_world [SignTransaction tx] (wallet_signTransaction env tx)"

definition getLatestBlockhash :: "'w env \<Rightarrow> (('w, 'z) io_scheme, Blockhash) action" where
  "getLatestBlockhash env = call_world [GetLatestBlockhash] (rpc_getLatestBlockhash env)"

definition sendRawTransaction :: "'w env \<Rightarrow> byte list \<Rightarrow> (('w, 'z) io_scheme, string) action" where
  "sendRawTransaction env raw = call_world [SendRawTransaction raw] (rpc_sendRawTransaction env raw)"

definition confirmTransaction ::
  "'w env \<Rightarrow> string \<Rightarrow> Blockhash \<Rightarrow> (('w, 'z) io_scheme, unit) action" where
  "confirmTransaction env signature bh =
     call_world [ConfirmTransaction signature] (rpc_confirmTransaction env signature bh)"

definition fetch :: "'w env \<Rightarrow> HttpRequest \<Rightarrow> (('w, 'z) io_scheme, ApiBody Response) action" where
  "fetch env request = call_world [Fetch request] (http_fetch env request)"

definition fetch_proof ::
  "'w env \<Rightarrow> HttpRequest \<Rightarrow> (('w, 'z) io_scheme, MerkleProof Response) action" where
  "fetch_proof env request = call_world [Fetch request] (http_fetch_proof env request)"

text \<open>\<^verbatim>\<open>randomBytes(length)\<close>: one random byte per element.\<close>

fun randomBytes :: "'w env \<Rightarrow> nat \<Rightarrow> (('w, 'z) io_scheme, byte list) action" where
  "randomBytes env 0 = ok []"
| "randomBytes env (Suc n) =
     bind (read_world (randomByte env)) (\<lambda>b.
     bind (randomBytes env n) (\<lambda>bs. ok (b # bs)))"

definition new_PublicKey :: "'w env \<Rightarrow> string \<Rightarrow> sdk_error + PublicKey" where
  "new_PublicKey env s =
     (if validPublicKey env s then Inr (PublicKey s) else Inl (Error ''Invalid public key input''))"

definition SystemProgram_programId :: PublicKey where
  "SystemProgram_programId = PublicKey ''11111111111111111111111111111111''"

subsection \<open>Buffer writes\<close>

definition Buffer_alloc :: "nat \<Rightarrow> byte list" where
  "Buffer_alloc n = replicate n 0"

text \<open>
  \<^verbatim>\<open>source.copy(target, targetStart)\<close>: as many bytes as fit are copied, the length of the
  target stays.
\<close>

definition Buffer_copy :: "byte list \<Rightarrow> byte list \<Rightarrow> nat \<Rightarrow> byte list" where
  "Buffer_copy source target targetStart =
     take targetStart target @ take (length target - targetStart) source
       @ drop (targetStart + length source) target"

definition writeUInt8 :: "byte \<Rightarrow> nat \<Rightarrow> byte list \<Rightarrow> byte list" where
  "writeUInt8 v offset buf = buf[offset := v]"

fun le_bytes :: "nat \<Rightarrow> nat \<Rightarrow> byte list" where
  "le_bytes 0 v = []"
| "le_bytes (Suc k) v = of_nat (v mod 256) # le_bytes k (v div 256)"

text \<open>\<^verbatim>\<open>writeUInt32LE\<close> and \<^verbatim>\<open>writeBigUInt64LE\<close> throw a \<^verbatim>\<open>RangeError\<close> on a value out of range.\<close>

definition writeUInt32LE :: "nat \<Rightarrow> nat \<Rightarrow> byte list \<Rightarrow> sdk_error + byte list" where
  "writeUInt32LE v offset buf =
     (if v < 2 ^ 32 then Inr (Buffer_copy (le_bytes 4 v) buf offset) else Inl RangeError)"

definition writeBigUInt64LE :: "int \<Rightarrow> nat \<Rightarrow> byte list \<Rightarrow> sdk_error + byte list" where
  "writeBigUInt64LE v offset buf =
     (if 0 \<le> v \<and> v < 2 ^ 64 then Inr (Buffer_copy (le_bytes 8 (nat v)) buf offset)
      else Inl RangeError)"

subsection \<open>Property lookup and Map\<close>

text \<open>
  \<^verbatim>\<open>TABLE[key]\<close> on an object literal: an own property, a property inherited from
  \<^verbatim>\<open>Object.prototype\<close> (a truthy value that is no entry of the table), or \<^verbatim>\<open>undefined\<close>.
\<close>

datatype 'a property = Own 'a | Inherited | Missing

definition object_prototype_keys :: "string list" where
  "object_prototype_keys =
     [''constructor'', ''hasOwnProperty'', ''isPrototypeOf'', ''propertyIsEnumerable'',
      ''toLocaleString'', ''toString'', ''valueOf'', ''__proto__'', ''__defineGetter__'',
      ''__defineSetter__'', ''__lookupGetter__'', ''__lookupSetter__'']"

definition get_property :: "(string \<times> 'a) list \<Rightarrow> string \<Rightarrow> 'a property" where
  "get_property table k =
     (case map_of table k of
        Some v \<Rightarrow> Own v
      | None \<Rightarrow> if k \<in> set object_prototype_keys then Inherited else Missing)"

text \<open>
  Where the key was upper-cased first, no property of \<^verbatim>\<open>Object.prototype\<close> can match it,
  since each of their names has a lower-case letter (lemma \<open>get_property_toUpperCase\<close>
  below): there \<^verbatim>\<open>TABLE[key]\<close> is \<open>map_of TABLE key\<close>.
\<close>

text \<open>A \<^verbatim>\<open>Map\<close> keeps its entries in insertion order.\<close>

definition Map_set :: "'k \<Rightarrow> 'v \<Rightarrow> ('k \<times> 'v) list \<Rightarrow> ('k \<times> 'v) list" where
  "Map_set k v m =
     (if k \<in> fst ` set m then map (\<lambda>(k', v'). if k' = k then (k', v) else (k', v')) m
      else m @ [(k, v)])"

definition Map_delete :: "'k \<Rightarrow> ('k \<times> 'v) list \<Rightarrow> ('k \<times> 'v) list" where
  "Map_delete k m = filter (\<lambda>(k', v'). k' \<noteq> k) m"

definition Map_values :: "('k \<times> 'v) list \<Rightarrow> 'v list" where
  "Map_values m = map snd m"

section \<open>adapters/base.ts\<close>

text \<open>
  Modelled from the spec: \<^verbatim>\<open>adapters/base.ts\<close> is not among the sources. An adapter is
  ready after \<^verbatim>\<open>initialize\<close>, which stores the connection and the optional wallet;
  \<^verbatim>\<open>ensureReady\<close> throws \<^verbatim>\<open>ProviderNotAvailable\<close> on an adapter that is not ready,
  \<^verbatim>\<open>ensureWallet\<close> throws \<^verbatim>\<open>WalletNotConnected\<close> without a wallet and returns the wallet
  otherwise. The wallet is kept as its public key; its signing functions are in the
  environment. A ready adapter has a connection, so \<^verbatim>\<open>getConnection\<close> succeeds after
  \<^verbatim>\<open>ensureReady\<close>.
\<close>

record 'w BaseAdapter = "'w io" +
  initialized :: bool
  wallet :: "PublicKey option"

definition ensureReady :: "PrivacyProvider \<Rightarrow> (('w, 'z) BaseAdapter_scheme, unit) action" where
  "ensureReady provider st =
     (if initialized st then ok () st else throw (ProviderNotAvailableError provider) st)"

definition ensureWallet :: "(('w, 'z) BaseAdapter_scheme, PublicKey) action" where
  "ensureWallet st =
     (case wallet st of None \<Rightarrow> throw WalletNotConnectedError st | Some w \<Rightarrow> ok w st)"


definition of_result :: "sdk_error + 'a \<Rightarrow> ('s, 'a) action" where
  "of_result r s = (r, s)"

section \<open>adapters/privacycash.ts\<close>

definition PRIVACY_CASH_PROGRAM_ID :: PublicKey where
  "PRIVACY_CASH_PROGRAM_ID = PublicKey ''PrvCash1111111111111111111111111111111111111''"

record PoolConfig =
  mint :: PublicKey
  decimals :: nat
  minDeposit :: number
  maxDeposit :: number
  anonymitySet :: number

definition POOL_CONFIGS :: "(string \<times> PoolConfig) list" where
  "POOL_CONFIGS =
     [(''SOL'', \<lparr>mint = PublicKey ''So11111111111111111111111111111111111111112'', decimals = 9,
                 minDeposit = 0.1, maxDeposit = 100, anonymitySet = 500\<rparr>),
      (''USDC'', \<lparr>mint = PublicKey ''EPjFWdd5AufqSSqeM2qN1xzybapC8G4wEGGkZwyTDt1v'', decimals = 6,
                  minDeposit = 10, maxDeposit = 10000, anonymitySet = 300\<rparr>)]"

record DepositNote =
  commitment :: string
  nullifier :: string
  secret :: string
  amount :: number
  token :: string
  timestamp :: number

text \<open>
  The adapter keeps a \<^verbatim>\<open>Map\<close> from commitment to note. Its entries are the notes that
  \<^verbatim>\<open>deposit\<close> stored: notes of the declared type under a string key. \<^verbatim>\<open>importNote\<close>, which
  stores a decoded note under its commitment without any check, is not embedded.
\<close>

record 'w PrivacyCashAdapter = "'w BaseAdapter" +
  adapter_programId :: PublicKey
  depositNotes :: "(string \<times> DepositNote) list"

definition privacycash_apiBaseUrl :: string where
  "privacycash_apiBaseUrl = ''https://api.privacycash.org''"

subsection \<open>getBalance\<close>



subsection \<open>computeCommitment, hashNullifier, encodeNote, decodeNote\<close>

definition computeCommitment :: "string \<Rightarrow> string \<Rightarrow> string" where
  "computeCommitment sec nul =
     (let combined = sec @ nul;
          bytes = hexToBytes (take 64 combined)
      in bytesToHex bytes)"

definition hashNullifier :: "string \<Rightarrow> string" where
  "hashNullifier nul = (let bytes = hexToBytes nul in bytesToHex bytes)"

definition encodeNote :: "DepositNote \<Rightarrow> string" where
  "encodeNote note =
     (let obj = JObject
            [(''c'', JStr (commitment note)),
             (''n'', JStr (nullifier note)),
             (''s'', JStr (secret note)),
             (''a'', JNum (amount note)),
             (''t'', JStr (token note)),
             (''ts'', JNum (timestamp note))]
      in base64_encode (utf8_encode (JSON_stringify obj)))"

text \<open>
  \<^verbatim>\<open>data.k\<close> on a parsed value that is not \<^verbatim>\<open>null\<close>, for one of the keys \<^verbatim>\<open>c\<close>,
  \<^verbatim>\<open>n\<close>, \<^verbatim>\<open>s\<close>, \<^verbatim>\<open>a\<close>, \<^verbatim>\<open>t\<close>, \<^verbatim>\<open>ts\<close>: of a repeated key the last member counts, and
  a missing one reads as \<^verbatim>\<open>undefined\<close> (\<open>None\<close>), as does any key of a value that is no
  object (no prototype has a property of these names).
\<close>

definition member :: "json \<Rightarrow> string \<Rightarrow> json option" where
  "member j k = (case j of JObject ms \<Rightarrow> map_of (rev ms) k | _ \<Rightarrow> None)"

text \<open>
  What \<^verbatim>\<open>decodeNote\<close> returns: the six fields as they were read, with no check. The
  TypeScript type \<^verbatim>\<open>DepositNote\<close> of the result is not checked at run time: a field can
  hold any JSON value or \<^verbatim>\<open>undefined\<close>.
\<close>

record RawNote =
  raw_commitment :: "json option"
  raw_nullifier :: "json option"
  raw_secret :: "json option"
  raw_amount :: "json option"
  raw_token :: "json option"
  raw_timestamp :: "json option"

definition decodeNote :: "string \<Rightarrow> sdk_error + RawNote" where
  "decodeNote encoded =
     (case JSON_parse (utf8_decode (base64_decode encoded)) of
        None \<Rightarrow> Inl SyntaxError
      | Some JNull \<Rightarrow> Inl TypeError
      | Some parsed \<Rightarrow>
          Inr \<lparr>raw_commitment = member parsed ''c'',
               raw_nullifier = member parsed ''n'',
               raw_secret = member parsed ''s'',
               raw_amount = member parsed ''a'',
               raw_token = member parsed ''t'',
               raw_timestamp = member parsed ''ts''\<rparr>)"

text \<open>The fields of a note of the declared type, as \<^verbatim>\<open>decodeNote\<close> returns them.\<close>

definition to_RawNote :: "DepositNote \<Rightarrow> RawNote" where
  "to_RawNote note =
     \<lparr>raw_commitment = Some (JStr (commitment note)),
      raw_nullifier = Some (JStr (nullifier note)),
      raw_secret = Some (JStr (secret note)),
      raw_amount = Some (JNum (amount note)),
      raw_token = Some (JStr (token note)),
      raw_timestamp = Some (JNum (timestamp note))\<rparr>"

subsection \<open>deposit\<close>

definition createDepositInstruction ::
  "'w env \<Rightarrow> PublicKey \<Rightarrow> PublicKey \<Rightarrow> string \<Rightarrow> number \<Rightarrow> PoolConfig
     \<Rightarrow> sdk_error + TransactionInstruction" where
  "createDepositInstruction env program depositor com amt poolConfig =
     (let commitmentBytes = hexToBytes com;
          amountLamports = \<lfloor>amt * 10 ^ decimals poolConfig\<rfloor>;
          data0 = Buffer_alloc (1 + 32 + 8);
          data1 = writeUInt8 0x01 0 data0;
          data2 = Buffer_copy commitmentBytes data1 1
      in case writeBigUInt64LE amountLamports 33 data2 of
           Inl e \<Rightarrow> Inl e
         | Inr data3 \<Rightarrow>
             (case findProgramAddressSync env
                     [utf8_encode ''pool'', toBuffer env (mint poolConfig)] program of
                None \<Rightarrow> Inl (External ''findProgramAddressSync'')
              | Some poolPda \<Rightarrow>
                  Inr \<lparr>programId = program,
                       keys =
                         [\<lparr>pubkey = depositor, isSigner = True, isWritable = True\<rparr>,
                          \<lparr>pubkey = poolPda, isSigner = False, isWritable = True\<rparr>,
                          \<lparr>pubkey = mint poolConfig, isSigner = False, isWritable = False\<rparr>,
                          \<lparr>pubkey = SystemProgram_programId, isSigner = False,
                           isWritable = False\<rparr>],
                       data = data3\<rparr>))"

text \<open>The \<^verbatim>\<open>try\<close> block of \<^verbatim>\<open>deposit\<close>.\<close>

definition deposit_try ::
  "'w env \<Rightarrow> DepositRequest \<Rightarrow> string \<Rightarrow> PoolConfig \<Rightarrow> PublicKey
     \<Rightarrow> ('w PrivacyCashAdapter, DepositResult) action" where
  "deposit_try env request tok poolConfig walletKey =
     bind (randomBytes env 31) (\<lambda>b1.
     bind (randomBytes env 31) (\<lambda>b2.
       let sec = bytesToHex b1;
           nul = bytesToHex b2;
           com = computeCommitment sec nul in
     bind (\<lambda>st. of_result (createDepositInstruction env (adapter_programId st) walletKey com
                    (dreq_amount request) poolConfig) st) (\<lambda>depositInstruction.
     bind (getLatestBlockhash env) (\<lambda>bh.
       let transaction = \<lparr>instructions = [depositInstruction], recentBlockhash = blockhash bh,
                          feePayer = walletKey\<rparr> in
     bind (signTransaction env transaction) (\<lambda>signedTx.
     bind (sendRawTransaction env signedTx) (\<lambda>signature.
     bind (confirmTransaction env signature bh) (\<lambda>_.
     bind (read_world (dateNow env)) (\<lambda>now.
       let note = \<lparr>commitment = com, nullifier = nul, secret = sec,
                   amount = dreq_amount request, token = tok, timestamp = now\<rparr> in
     bind (\<lambda>st. ok () (st\<lparr>depositNotes := Map_set com note (depositNotes st)\<rparr>)) (\<lambda>_.
       ok \<lparr>dres_signature = signature, dres_provider = PRIVACY_CASH,
           dres_commitment = Some (encodeNote note),
           dres_fee = 0.005 * dreq_amount request\<rparr>)))))))))"

definition PrivacyCash_deposit ::
  "'w env \<Rightarrow> DepositRequest \<Rightarrow> ('w PrivacyCashAdapter, DepositResult) action" where
  "PrivacyCash_deposit env request =
     bind (ensureReady PRIVACY_CASH) (\<lambda>_.
     bind ensureWallet (\<lambda>walletKey.
       let tok = toUpperCase (dreq_token request) in
       (case map_of POOL_CONFIGS tok of
          None \<Rightarrow>
            throw (Error (''Token '' @ dreq_token request @ '' not supported by Privacy Cash''))
        | Some poolConfig \<Rightarrow>
            if dreq_amount request < minDeposit poolConfig then
              throw (AmountBelowMinimumError (dreq_amount request) (minDeposit poolConfig) tok
                       PRIVACY_CASH)
            else if dreq_amount request > maxDeposit poolConfig then
              throw (Error (''Amount '' @ number_to_string (dreq_amount request)
                       @ '' exceeds max deposit '' @ number_to_string (maxDeposit poolConfig)
                       @ '' for '' @ tok))
            else
              try_catch (deposit_try env request tok poolConfig walletKey)
                (\<lambda>error. throw (wrapError error ''Privacy Cash deposit failed'')))))"

subsection \<open>withdraw\<close>

fun placeholder_path ::
  "'w env \<Rightarrow> nat \<Rightarrow> (('w, 'z) io_scheme, string list \<times> nat list) action" where
  "placeholder_path env 0 = ok ([], [])"
| "placeholder_path env (Suc n) =
     bind (randomBytes env 32) (\<lambda>b.
     bind (read_world (mathRandom env)) (\<lambda>r.
     bind (placeholder_path env n) (\<lambda>(elements, indices).
       ok (bytesToHex b # elements, (if r > 0.5 then 1 else 0) # indices))))"

text \<open>
  \<open>com\<close> is the text of \<^verbatim>\<open>${commitment}\<close> in the URL, \<open>None\<close> where the conversion of the
  commitment to a string throws; the template literal stands inside the \<^verbatim>\<open>try\<close> block.
\<close>

definition getMerkleProof ::
  "'w env \<Rightarrow> string option \<Rightarrow> string \<Rightarrow> (('w, 'z) io_scheme, MerkleProof) action" where
  "getMerkleProof env com tok =
     bind (try_catch
             (bind (of_result (case com of None \<Rightarrow> Inl TypeError | Some c \<Rightarrow> Inr c)) (\<lambda>c.
              bind (fetch_proof env
                      \<lparr>http_method = ''GET'',
                       http_url = privacycash_apiBaseUrl @ ''/v1/proof/'' @ tok @ ''/'' @ c,
                       http_body = None\<rparr>) (\<lambda>response.
                if resp_ok response then
                  (case resp_json response of None \<Rightarrow> throw SyntaxError | Some p \<Rightarrow> ok (Some p))
                else ok None)))
             (\<lambda>_. ok None)) (\<lambda>fetched.
       case fetched of
         Some p \<Rightarrow> ok p
       | None \<Rightarrow>
           bind (placeholder_path env 20) (\<lambda>(elements, indices).
           bind (randomBytes env 32) (\<lambda>r.
             ok \<lparr>root = bytesToHex r, pathElements = elements, pathIndices = indices\<rparr>)))"

text \<open>
  \<^verbatim>\<open>generateWithdrawalProof\<close> first builds the proof inputs, with
  \<^verbatim>\<open>hashNullifier(note.nullifier)\<close>: \<^verbatim>\<open>hexToBytes\<close> calls \<^verbatim>\<open>startsWith\<close> on its argument,
  which throws a \<^verbatim>\<open>TypeError\<close> on anything but a string. The placeholder proof is eight
  random 32-byte values in hexadecimal, as the UTF-8 bytes of
  \<^verbatim>\<open>JSON.stringify({a: [..], b: [[..], [..]], c: [..]})\<close>.
\<close>

definition generateWithdrawalProof ::
  "'w env \<Rightarrow> RawNote \<Rightarrow> MerkleProof \<Rightarrow> PublicKey \<Rightarrow> (('w, 'z) io_scheme, byte list) action" where
  "generateWithdrawalProof env note merkleProof recipient =
     (case raw_nullifier note of
        Some (JStr nul) \<Rightarrow>
          bind (randomBytes env 32) (\<lambda>a1.
          bind (randomBytes env 32) (\<lambda>a2.
          bind (randomBytes env 32) (\<lambda>b1.
          bind (randomBytes env 32) (\<lambda>b2.
          bind (randomBytes env 32) (\<lambda>b3.
          bind (randomBytes env 32) (\<lambda>b4.
          bind (randomBytes env 32) (\<lambda>c1.
          bind (randomBytes env 32) (\<lambda>c2.
            ok (utf8_encode (JSON_stringify (JObject
                 [(''a'', JArray [JStr (bytesToHex a1), JStr (bytesToHex a2)]),
                  (''b'', JArray [JArray [JStr (bytesToHex b1), JStr (bytesToHex b2)],
                                  JArray [JStr (bytesToHex b3), JStr (bytesToHex b4)]]),
                  (''c'', JArray [JStr (bytesToHex c1), JStr (bytesToHex c2)])])))))))))))
      | _ \<Rightarrow> throw TypeError)"

text \<open>
  \<open>poolConfig = None\<close> is a value inherited from \<^verbatim>\<open>Object.prototype\<close>: its \<^verbatim>\<open>mint\<close> is
  \<^verbatim>\<open>undefined\<close>, and \<^verbatim>\<open>poolConfig.mint.toBuffer()\<close> throws a \<^verbatim>\<open>TypeError\<close>.
\<close>

definition createWithdrawInstruction ::
  "'w env \<Rightarrow> PublicKey \<Rightarrow> PublicKey \<Rightarrow> string \<Rightarrow> string \<Rightarrow> byte list \<Rightarrow> PoolConfig option
     \<Rightarrow> sdk_error + TransactionInstruction" where
  "createWithdrawInstruction env program recipient nul rt proof poolConfig =
     (let nullifierHash = hashNullifier nul;
          data0 = Buffer_alloc (1 + 32 + 32 + 4 + length proof);
          data1 = writeUInt8 0x02 0 data0;
          data2 = Buffer_copy (hexToBytes nullifierHash) data1 1;
          data3 = Buffer_copy (hexToBytes rt) data2 33
      in case writeUInt32LE (length proof) 65 data3 of
           Inl e \<Rightarrow> Inl e
         | Inr data4 \<Rightarrow>
             (let data5 = Buffer_copy proof data4 69
              in case poolConfig of
                   None \<Rightarrow> Inl TypeError
                 | Some cfg \<Rightarrow>
                     (case findProgramAddressSync env
                             [utf8_encode ''pool'', toBuffer env (mint cfg)] program of
                        None \<Rightarrow> Inl (External ''findProgramAddressSync'')
                      | Some poolPda \<Rightarrow>
                          (case findProgramAddressSync env
                                  [utf8_encode ''nullifier'', hexToBytes nullifierHash] program of
                             None \<Rightarrow> Inl (External ''findProgramAddressSync'')
                           | Some nullifierPda \<Rightarrow>
                               Inr \<lparr>programId = program,
                                    keys =
                                      [\<lparr>pubkey = recipient, isSigner = False, isWritable = True\<rparr>,
                                       \<lparr>pubkey = poolPda, isSigner = False, isWritable = True\<rparr>,
                                       \<lparr>pubkey = nullifierPda, isSigner = False, isWritable = True\<rparr>,
                                       \<lparr>pubkey = mint cfg, isSigner = False, isWritable = False\<rparr>,
                                       \<lparr>pubkey = SystemProgram_programId, isSigner = False,
                                        isWritable = False\<rparr>],
                                    data = data5\<rparr>))))"

text \<open>
  \<^verbatim>\<open>this.depositNotes.delete(note.commitment)\<close>: a \<^verbatim>\<open>Map\<close> compares keys without
  conversion, and the keys of the notes that \<^verbatim>\<open>deposit\<close> stored are strings.
\<close>

definition delete_note ::
  "json option \<Rightarrow> (string \<times> DepositNote) list \<Rightarrow> (string \<times> DepositNote) list" where
  "delete_note key m = (case key of Some (JStr c) \<Rightarrow> Map_delete c m | _ \<Rightarrow> m)"

text \<open>
  The \<^verbatim>\<open>try\<close> block of \<^verbatim>\<open>withdraw\<close>; \<open>tok\<close> is the text of \<^verbatim>\<open>note.token\<close>. The fee is
  \<^verbatim>\<open>0.005 * note.amount\<close>, computed when the result is built.
\<close>

definition withdraw_try ::
  "'w env \<Rightarrow> RawNote \<Rightarrow> string \<Rightarrow> PoolConfig option \<Rightarrow> PublicKey \<Rightarrow> PublicKey
     \<Rightarrow> ('w PrivacyCashAdapter, WithdrawResult) action" where
  "withdraw_try env note tok poolConfig recipient walletKey =
     bind (getMerkleProof env (js_string (raw_commitment note)) tok) (\<lambda>merkleProof.
     bind (generateWithdrawalProof env note merkleProof recipient) (\<lambda>zkProof.
     bind (\<lambda>st. of_result
                  (case raw_nullifier note of
                     Some (JStr nul) \<Rightarrow>
                       createWithdrawInstruction env (adapter_programId st) recipient nul
                         (root merkleProof) zkProof poolConfig
                   | _ \<Rightarrow> Inl TypeError) st) (\<lambda>withdrawInstruction.
     bind (getLatestBlockhash env) (\<lambda>bh.
       let transaction = \<lparr>instructions = [withdrawInstruction], recentBlockhash = blockhash bh,
                          feePayer = walletKey\<rparr> in
     bind (signTransaction env transaction) (\<lambda>signedTx.
     bind (sendRawTransaction env signedTx) (\<lambda>signature.
     bind (confirmTransaction env signature bh) (\<lambda>_.
     bind (\<lambda>st. ok () (st\<lparr>depositNotes := delete_note (raw_commitment note) (depositNotes st)\<rparr>)) (\<lambda>_.
       of_result
         (case js_number (raw_amount note) of
            None \<Rightarrow> Inl TypeError
          | Some a \<Rightarrow>
              Inr \<lparr>wres_signature = signature, wres_provider = PRIVACY_CASH,
                   wres_fee = js_times (Finite 0.005) a\<rparr>)))))))))"

definition to_PublicKey :: "'w env \<Rightarrow> address \<Rightarrow> sdk_error + PublicKey" where
  "to_PublicKey env a = (case a of AddressString s \<Rightarrow> new_PublicKey env s | AddressKey k \<Rightarrow> Inr k)"

text \<open>
  Before the \<^verbatim>\<open>try\<close> block, \<^verbatim>\<open>withdraw\<close> uses \<^verbatim>\<open>note.token\<close> as a property key of
  \<^verbatim>\<open>POOL_CONFIGS\<close>, and puts \<^verbatim>\<open>note.amount\<close> and \<^verbatim>\<open>note.token\<close> into the text of a log
  line: a conversion that throws ends \<^verbatim>\<open>withdraw\<close> with the \<^verbatim>\<open>TypeError\<close>.
\<close>

definition PrivacyCash_withdraw ::
  "'w env \<Rightarrow> WithdrawRequest \<Rightarrow> ('w PrivacyCashAdapter, WithdrawResult) action" where
  "PrivacyCash_withdraw env request =
     bind (ensureReady PRIVACY_CASH) (\<lambda>_.
     bind ensureWallet (\<lambda>walletKey.
       if wreq_commitment request = None \<or> wreq_commitment request = Some [] then
         throw (Error ''Deposit note (commitment) required for withdrawal'')
       else
         (case decodeNote (the (wreq_commitment request)) of
            Inl e \<Rightarrow> throw (Error ''Invalid deposit note format'')
          | Inr note \<Rightarrow>
              (case js_string (raw_token note) of
                 None \<Rightarrow> throw TypeError
               | Some tok \<Rightarrow>
                   (case get_property POOL_CONFIGS tok of
                      Missing \<Rightarrow> throw (Error (''Token '' @ tok @ '' not supported''))
                    | found \<Rightarrow>
                        bind (of_result (to_PublicKey env (wreq_recipient request))) (\<lambda>recipient.
                        bind (of_result (case js_string (raw_amount note) of
                                           None \<Rightarrow> Inl TypeError
                                         | Some a \<Rightarrow> Inr a)) (\<lambda>_.
                          try_catch
                            (withdraw_try env note tok
                               (case found of Own cfg \<Rightarrow> Some cfg | _ \<Rightarrow> None) recipient walletKey)
                            (\<lambda>error. throw (wrapError error ''Privacy Cash withdrawal failed'')))))))))"

subsection \<open>transfer, estimate, exportNotes\<close>

definition PrivacyCash_transfer ::
  "'w env \<Rightarrow> TransferRequest \<Rightarrow> ('w PrivacyCashAdapter, TransferResult) action" where
  "PrivacyCash_transfer env request =
     bind (ensureReady PRIVACY_CASH) (\<lambda>_.
     bind (PrivacyCash_deposit env
             \<lparr>dreq_amount = req_amount request, dreq_token = req_token request\<rparr>) (\<lambda>depositResult.
     bind (PrivacyCash_withdraw env
             \<lparr>wreq_amount = req_amount request, wreq_token = req_token request,
              wreq_recipient = req_recipient request,
              wreq_commitment = dres_commitment depositResult\<rparr>) (\<lambda>withdrawResult.
       ok \<lparr>res_signature = wres_signature withdrawResult,
           res_provider = PRIVACY_CASH,
           res_privacyLevel = COMPLIANT_POOL,
           res_fee = js_plus (Finite (dres_fee depositResult)) (wres_fee withdrawResult),
           res_anonymitySet =
             map_option anonymitySet (map_of POOL_CONFIGS (toUpperCase (req_token request)))\<rparr>)))"

text \<open>\<^verbatim>\<open>request.token || 'SOL'\<close> and \<^verbatim>\<open>request.amount || 0\<close>.\<close>

definition token_or_SOL :: "string option \<Rightarrow> string" where
  "token_or_SOL t = (case t of None \<Rightarrow> ''SOL'' | Some s \<Rightarrow> if s = [] then ''SOL'' else s)"

definition amount_or_0 :: "number option \<Rightarrow> number" where
  "amount_or_0 a = (case a of None \<Rightarrow> 0 | Some x \<Rightarrow> x)"

definition PrivacyCash_estimate :: "EstimateRequest \<Rightarrow> EstimateResult" where
  "PrivacyCash_estimate request =
     (let tok = toUpperCase (token_or_SOL (ereq_token request)) in
      case map_of POOL_CONFIGS tok of
        None \<Rightarrow>
          \<lparr>est_fee = 0, est_tokenFee = None, est_provider = PRIVACY_CASH, est_latencyMs = 0,
           est_anonymitySet = None,
           est_warnings = [''Token '' @ tok @ '' not supported by Privacy Cash'']\<rparr>
      | Some poolConfig \<Rightarrow>
          (let amt = amount_or_0 (ereq_amount request);
               feePercent = 0.005;
               fee0 = amt * feePercent;
               fee1 = (if ereq_operation request = Op_transfer then fee0 * 2 else fee0);
               warnings =
                 (if amt > 0 \<and> amt < minDeposit poolConfig
                  then [''Amount below minimum '' @ number_to_string (minDeposit poolConfig)
                          @ '' '' @ tok]
                  else [])
                 @ (if amt > maxDeposit poolConfig
                    then [''Amount exceeds maximum '' @ number_to_string (maxDeposit poolConfig)
                            @ '' '' @ tok]
                    else [])
           in \<lparr>est_fee = fee1, est_tokenFee = Some fee1, est_provider = PRIVACY_CASH,
               est_latencyMs = (if ereq_operation request = Op_transfer then 15000 else 8000),
               est_anonymitySet = Some (anonymitySet poolConfig),
               est_warnings = warnings\<rparr>))"

definition PrivacyCash_exportNotes :: "'w PrivacyCashAdapter \<Rightarrow> string list" where
  "PrivacyCash_exportNotes st = map encodeNote (Map_values (depositNotes st))"


section \<open>adapters/shadowwire.ts\<close>

record ShadowWireToken =
  token_decimals :: nat
  token_fee :: number
  minAmount :: number

definition SHADOWWIRE_TOKENS :: "(string \<times> ShadowWireToken) list" where
  "SHADOWWIRE_TOKENS =
     [(''SOL'', \<lparr>token_decimals = 9, token_fee = 0.005, minAmount = 0.01\<rparr>),
      (''RADR'', \<lparr>token_decimals = 9, token_fee = 0.003, minAmount = 0.1\<rparr>),
      (''USDC'', \<lparr>token_decimals = 6, token_fee = 0.01, minAmount = 1\<rparr>),
      (''ORE'', \<lparr>token_decimals = 11, token_fee = 0.003, minAmount = 0.001\<rparr>),
      (''BONK'', \<lparr>token_decimals = 5, token_fee = 0.01, minAmount = 100000\<rparr>),
      (''JIM'', \<lparr>token_decimals = 9, token_fee = 0.01, minAmount = 1\<rparr>),
      (''GODL'', \<lparr>token_decimals = 11, token_fee = 0.01, minAmount = 0.001\<rparr>),
      (''HUSTLE'', \<lparr>token_decimals = 9, token_fee = 0.003, minAmount = 0.1\<rparr>),
      (''ZEC'', \<lparr>token_decimals = 9, token_fee = 0.01, minAmount = 0.01\<rparr>),
      (''CRT'', \<lparr>token_decimals = 9, token_fee = 0.01, minAmount = 1\<rparr>),
      (''BLACKCOIN'', \<lparr>token_decimals = 6, token_fee = 0.01, minAmount = 1\<rparr>),
      (''GIL'', \<lparr>token_decimals = 6, token_fee = 0.01, minAmount = 1\<rparr>),
      (''ANON'', \<lparr>token_decimals = 9, token_fee = 0.01, minAmount = 1\<rparr>),
      (''WLFI'', \<lparr>token_decimals = 6, token_fee = 0.01, minAmount = 1\<rparr>),
      (''USD1'', \<lparr>token_decimals = 6, token_fee = 0.01, minAmount = 1\<rparr>),
      (''AOL'', \<lparr>token_decimals = 6, token_fee = 0.01, minAmount = 1\<rparr>),
      (''IQLABS'', \<lparr>token_decimals = 9, token_fee = 0.005, minAmount = 0.1\<rparr>),
      (''SANA'', \<lparr>token_decimals = 6, token_fee = 0.01, minAmount = 1\<rparr>),
      (''POKI'', \<lparr>token_decimals = 9, token_fee = 0.01, minAmount = 1\<rparr>),
      (''RAIN'', \<lparr>token_decimals = 6, token_fee = 0.02, minAmount = 1\<rparr>),
      (''HOSICO'', \<lparr>token_decimals = 9, token_fee = 0.01, minAmount = 1\<rparr>),
      (''SKR'', \<lparr>token_decimals = 6, token_fee = 0.005, minAmount = 1\<rparr>)]"

record 'w ShadowWireAdapter = "'w BaseAdapter" +
  apiBaseUrl :: string

text \<open>
  \<^verbatim>\<open>await retry(fn, options)\<close> inside an adapter: the value \<^verbatim>\<open>retry\<close> throws is the
  error of an attempt, or \<^verbatim>\<open>undefined\<close>.
\<close>

definition retry_action :: "sdk_error retry_options \<Rightarrow> ('s, 'a) action \<Rightarrow> ('s, 'a) action" where
  "retry_action opts fn s =
     (case retry opts fn s of
        (Inl None, s', tr) \<Rightarrow> (Inl Undefined, s')
      | (Inl (Some e), s', tr) \<Rightarrow> (Inl e, s')
      | (Inr v, s', tr) \<Rightarrow> (Inr v, s'))"

text \<open>\<^verbatim>\<open>x || d\<close> on an optional string, and \<^verbatim>\<open>x?.includes(s)\<close>.\<close>

definition string_or :: "string option \<Rightarrow> string \<Rightarrow> string" where
  "string_or x d = (case x of None \<Rightarrow> d | Some s \<Rightarrow> if s = [] then d else s)"

definition error_includes :: "string option \<Rightarrow> string \<Rightarrow> bool" where
  "error_includes x needle = (case x of None \<Rightarrow> False | Some m \<Rightarrow> str_includes m needle)"

text \<open>\<^verbatim>\<open>(await res.json().catch(() => ({ error: 'Unknown error' }))).error\<close>.\<close>

definition errorData_error :: "ApiBody Response \<Rightarrow> string option" where
  "errorData_error res =
     (case resp_json res of None \<Rightarrow> Some ''Unknown error'' | Some b \<Rightarrow> error_field b)"

definition int_to_string :: "int \<Rightarrow> string" where
  "int_to_string i = (if i < 0 then CHR ''-'' # nat_to_string (nat (- i)) else nat_to_string (nat i))"

definition address_string :: "address \<Rightarrow> string" where
  "address_string a = (case a of AddressString s \<Rightarrow> s | AddressKey k \<Rightarrow> toBase58 k)"

subsection \<open>getBalance\<close>

text \<open>The function passed to \<^verbatim>\<open>retry\<close> by \<^verbatim>\<open>getBalance\<close>.\<close>

definition balance_attempt :: "'w env \<Rightarrow> string \<Rightarrow> (('w, 'z) io_scheme, ApiBody) action" where
  "balance_attempt env url =
     bind (fetch env \<lparr>http_method = ''GET'', http_url = url, http_body = None\<rparr>) (\<lambda>res.
       if \<not> resp_ok res then throw (NetworkError (''Failed to get balance: '' @ resp_text res))
       else (case resp_json res of None \<Rightarrow> throw SyntaxError | Some b \<Rightarrow> ok b))"

definition ShadowWire_getBalance ::
  "'w env \<Rightarrow> string \<Rightarrow> string option \<Rightarrow> ('w ShadowWireAdapter, number) action" where
  "ShadowWire_getBalance env tok addr =
     bind (ensureReady SHADOWWIRE) (\<lambda>_. \<lambda>st.
       (let walletAddress =
              (if addr = None \<or> addr = Some [] then map_option toBase58 (wallet st) else addr)
        in if walletAddress = None \<or> walletAddress = Some [] then
             throw (Error ''No wallet address provided'') st
           else
             (let normalizedToken = toUpperCase tok in
              case map_of SHADOWWIRE_TOKENS normalizedToken of
                None \<Rightarrow> throw (Error (''Token '' @ tok @ '' not supported by ShadowWire'')) st
              | Some tokenConfig \<Rightarrow>
                  try_catch
                    (bind (retry_action (default_retry_options\<lparr>maxRetries := 3\<rparr>)
                             (balance_attempt env
                                (apiBaseUrl st @ ''/v1/balance/'' @ the walletAddress @ ''?token=''
                                   @ normalizedToken)))
                       (\<lambda>response. ok (balance response)))
                    (\<lambda>error. throw (wrapError error ''Failed to get ShadowWire balance'')) st)))"

subsection \<open>transfer\<close>

text \<open>The function passed to \<^verbatim>\<open>retry\<close> by \<^verbatim>\<open>transfer\<close>.\<close>

definition transfer_attempt ::
  "'w env \<Rightarrow> string \<Rightarrow> (string \<times> json) list \<Rightarrow> string \<Rightarrow> number \<Rightarrow> string
     \<Rightarrow> (('w, 'z) io_scheme, ApiBody) action" where
  "transfer_attempt env url body recipient amt tok =
     bind (fetch env \<lparr>http_method = ''POST'', http_url = url, http_body = Some body\<rparr>) (\<lambda>res.
       if \<not> resp_ok res then
         (if error_includes (errorData_error res) ''not found'' then
            throw (RecipientNotFoundError recipient)
          else if error_includes (errorData_error res) ''insufficient'' then
            throw (InsufficientBalanceError amt 0 tok)
          else throw (TransactionError (string_or (errorData_error res) ''Transfer failed'')))
       else (case resp_json res of None \<Rightarrow> throw SyntaxError | Some b \<Rightarrow> ok b))"

definition ShadowWire_transfer ::
  "'w env \<Rightarrow> TransferRequest \<Rightarrow> ('w ShadowWireAdapter, TransferResult) action" where
  "ShadowWire_transfer env request =
     bind (ensureReady SHADOWWIRE) (\<lambda>_.
     bind ensureWallet (\<lambda>walletKey.
       let tok = toUpperCase (req_token request) in
       (case map_of SHADOWWIRE_TOKENS tok of
          None \<Rightarrow> throw (Error (''Token '' @ req_token request @ '' not supported by ShadowWire''))
        | Some tokenConfig \<Rightarrow>
            if req_amount request < minAmount tokenConfig then
              throw (AmountBelowMinimumError (req_amount request) (minAmount tokenConfig) tok
                       SHADOWWIRE)
            else
              (let transferType =
                     (if req_privacy request = AMOUNT_HIDDEN then ''internal'' else ''external'');
                   recipient = address_string (req_recipient request)
               in try_catch
                    (bind (read_world (dateNow env)) (\<lambda>now.
                       let message = utf8_encode (JSON_stringify (JObject
                             [(''action'', JStr ''transfer''),
                              (''sender'', JStr (toBase58 walletKey)),
                              (''recipient'', JStr recipient),
                              (''amount'', JNum (req_amount request)),
                              (''token'', JStr tok),
                              (''type'', JStr transferType),
                              (''timestamp'', JNum now)])) in
                     bind (signMessage env message) (\<lambda>signature.
                       let body =
                             [(''sender'', JStr (toBase58 walletKey)),
                              (''recipient'', JStr recipient),
                              (''amount'', JNum (req_amount request)),
                              (''token'', JStr tok),
                              (''type'', JStr transferType),
                              (''timestamp'', JNum now),
                              (''signature'', JStr (base64_encode signature))]
                             @ (case req_customProof request of
                                  None \<Rightarrow> []
                                | Some p \<Rightarrow> [(''customProof'', JStr (base64_encode p))]) in
                     bind (\<lambda>st. retry_action (default_retry_options\<lparr>maxRetries := 2\<rparr>)
                                  (transfer_attempt env (apiBaseUrl st @ ''/v1/transfer'') body
                                     recipient (req_amount request) tok) st) (\<lambda>response.
                       if \<not> success response then
                         throw (TransactionError (string_or (error_field response) ''Transfer failed''))
                       else
                         ok \<lparr>res_signature = transactionId response,
                             res_provider = SHADOWWIRE,
                             res_privacyLevel = req_privacy request,
                             res_fee =
                               Finite
                                 (case fee response of
                                    None \<Rightarrow> req_amount request * token_fee tokenConfig
                                  | Some f \<Rightarrow>
                                      if f = 0 then req_amount request * token_fee tokenConfig
                                      else f),
                             res_anonymitySet = None\<rparr>))))
                    (\<lambda>error.
                       case error of
                         InsufficientBalanceError r a t \<Rightarrow> throw error
                       | RecipientNotFoundError r \<Rightarrow> throw error
                       | TransactionError m \<Rightarrow> throw error
                       | _ \<Rightarrow> throw (wrapError error ''ShadowWire transfer failed''))))))"

subsection \<open>deposit and withdraw\<close>

text \<open>
  The function passed to \<^verbatim>\<open>retry\<close> by \<^verbatim>\<open>deposit\<close> and by \<^verbatim>\<open>withdraw\<close>: the body is built,
  with the amount in base units, and posted.
\<close>

definition pool_attempt ::
  "'w env \<Rightarrow> string \<Rightarrow> (string \<Rightarrow> (string \<times> json) list) \<Rightarrow> number \<Rightarrow> string \<Rightarrow> string
     \<Rightarrow> (('w, 'z) io_scheme, ApiBody) action" where
  "pool_attempt env url body_with amt tok failed =
     bind (of_result (toSmallestUnit env amt tok)) (\<lambda>units.
     bind (fetch env \<lparr>http_method = ''POST'', http_url = url,
                      http_body = Some (body_with (int_to_string units))\<rparr>) (\<lambda>res.
       if \<not> resp_ok res then throw (TransactionError (string_or (errorData_error res) failed))
       else (case resp_json res of None \<Rightarrow> throw SyntaxError | Some b \<Rightarrow> ok b)))"

definition ShadowWire_deposit ::
  "'w env \<Rightarrow> DepositRequest \<Rightarrow> ('w ShadowWireAdapter, DepositResult) action" where
  "ShadowWire_deposit env request =
     bind (ensureReady SHADOWWIRE) (\<lambda>_.
     bind ensureWallet (\<lambda>walletKey.
       let tok = toUpperCase (dreq_token request) in
       (case map_of SHADOWWIRE_TOKENS tok of
          None \<Rightarrow> throw (Error (''Token '' @ dreq_token request @ '' not supported by ShadowWire''))
        | Some tokenConfig \<Rightarrow>
            if dreq_amount request < minAmount tokenConfig then
              throw (AmountBelowMinimumError (dreq_amount request) (minAmount tokenConfig) tok
                       SHADOWWIRE)
            else
              try_catch
                (bind (read_world (dateNow env)) (\<lambda>now.
                   let message = utf8_encode (JSON_stringify (JObject
                         [(''action'', JStr ''deposit''),
                          (''wallet'', JStr (toBase58 walletKey)),
                          (''amount'', JNum (dreq_amount request)),
                          (''token'', JStr tok),
                          (''timestamp'', JNum now)])) in
                 bind (signMessage env message) (\<lambda>signature.
                 bind (\<lambda>st. retry_action (default_retry_options\<lparr>maxRetries := 2\<rparr>)
                              (pool_attempt env (apiBaseUrl st @ ''/v1/deposit'')
                                 (\<lambda>units.
                                    [(''wallet'', JStr (toBase58 walletKey)),
                                     (''amount'', JStr units),
                                     (''token'', JStr tok),
                                     (''timestamp'', JNum now),
                                     (''signature'', JStr (base64_encode signature))])
                                 (dreq_amount request) tok ''Deposit failed'') st) (\<lambda>response.
                   if \<not> success response then
                     throw (TransactionError (string_or (error_field response) ''Deposit failed''))
                   else
                     ok \<lparr>dres_signature = transactionId response,
                         dres_provider = SHADOWWIRE,
                         dres_commitment = commitment_field response,
                         dres_fee = dreq_amount request * token_fee tokenConfig\<rparr>))))
                (\<lambda>error.
                   case error of
                     TransactionError m \<Rightarrow> throw error
                   | _ \<Rightarrow> throw (wrapError error ''ShadowWire deposit failed'')))))"

definition ShadowWire_withdraw ::
  "'w env \<Rightarrow> WithdrawRequest \<Rightarrow> ('w ShadowWireAdapter, WithdrawResult) action" where
  "ShadowWire_withdraw env request =
     bind (ensureReady SHADOWWIRE) (\<lambda>_.
     bind ensureWallet (\<lambda>walletKey.
       let tok = toUpperCase (wreq_token request) in
       (case map_of SHADOWWIRE_TOKENS tok of
          None \<Rightarrow> throw (Error (''Token '' @ wreq_token request @ '' not supported by ShadowWire''))
        | Some tokenConfig \<Rightarrow>
            (let recipient = address_string (wreq_recipient request)
             in try_catch
                  (bind (read_world (dateNow env)) (\<lambda>now.
                     let message = utf8_encode (JSON_stringify (JObject
                           [(''action'', JStr ''withdraw''),
                            (''wallet'', JStr (toBase58 walletKey)),
                            (''recipient'', JStr recipient),
                            (''amount'', JNum (wreq_amount request)),
                            (''token'', JStr tok),
                            (''timestamp'', JNum now)])) in
                   bind (signMessage env message) (\<lambda>signature.
                   bind (\<lambda>st. retry_action (default_retry_options\<lparr>maxRetries := 2\<rparr>)
                                (pool_attempt env (apiBaseUrl st @ ''/v1/withdraw'')
                                   (\<lambda>units.
                                      [(''wallet'', JStr (toBase58 walletKey)),
                                       (''recipient'', JStr recipient),
                                       (''amount'', JStr units),
                                       (''token'', JStr tok),
                                       (''timestamp'', JNum now),
                                       (''signature'', JStr (base64_encode signature))])
                                   (wreq_amount request) tok ''Withdrawal failed'') st) (\<lambda>response.
                     if \<not> success response then
                       throw (TransactionError (string_or (error_field response) ''Withdrawal failed''))
                     else
                       ok \<lparr>wres_signature = transactionId response,
                           wres_provider = SHADOWWIRE,
                           wres_fee = Finite (wreq_amount request * token_fee tokenConfig)\<rparr>))))
                  (\<lambda>error.
                     case error of
                       TransactionError m \<Rightarrow> throw error
                     | _ \<Rightarrow> throw (wrapError error ''ShadowWire withdrawal failed''))))))"

subsection \<open>estimate\<close>

definition ShadowWire_estimate :: "EstimateRequest \<Rightarrow> EstimateResult" where
  "ShadowWire_estimate request =
     (let tok = toUpperCase (token_or_SOL (ereq_token request)) in
      case map_of SHADOWWIRE_TOKENS tok of
        None \<Rightarrow>
          \<lparr>est_fee = 0, est_tokenFee = None, est_provider = SHADOWWIRE, est_latencyMs = 0,
           est_anonymitySet = None,
           est_warnings = [''Token '' @ tok @ '' not supported by ShadowWire'']\<rparr>
      | Some tokenConfig \<Rightarrow>
          (let amt = amount_or_0 (ereq_amount request);
               feePercent = token_fee tokenConfig;
               fee0 = amt * feePercent;
               warnings =
                 (if amt > 0 \<and> amt < minAmount tokenConfig
                  then [''Amount '' @ number_to_string amt @ '' '' @ tok @ '' is below minimum ''
                          @ number_to_string (minAmount tokenConfig)]
                  else []);
               latencyMs =
                 (if ereq_operation request = Op_transfer then
                    (if ereq_privacy request = Some AMOUNT_HIDDEN then 5000 else 3000)
                  else if ereq_operation request = Op_deposit \<or> ereq_operation request = Op_withdraw
                  then 4000
                  else 3000)
           in \<lparr>est_fee = fee0, est_tokenFee = Some fee0, est_provider = SHADOWWIRE,
               est_latencyMs = latencyMs, est_anonymitySet = Some 500,
               est_warnings = warnings\<rparr>))"

section \<open>adapters/arcium.ts\<close>

record CSPLTokenConfig =
  cspl_mint :: PublicKey
  cspl_decimals :: nat

definition CSPL_TOKENS :: "(string \<times> CSPLTokenConfig) list" where
  "CSPL_TOKENS =
     [(''SOL'', \<lparr>cspl_mint = PublicKey ''So11111111111111111111111111111111111111112'',
                 cspl_decimals = 9\<rparr>),
      (''USDC'', \<lparr>cspl_mint = PublicKey ''EPjFWdd5AufqSSqeM2qN1xzybapC8G4wEGGkZwyTDt1v'',
                  cspl_decimals = 6\<rparr>)]"

record MPCState =
  nodeId :: string
  sessionId :: string
  encryptedState :: "byte list"

record 'w ArciumAdapter = "'w BaseAdapter" +
  cspl_programId :: PublicKey
  mpcSession :: "MPCState option"

definition initMPCSession :: "'w env \<Rightarrow> ('w ArciumAdapter, MPCState) action" where
  "initMPCSession env st =
     (case mpcSession st of
        Some session \<Rightarrow> ok session st
      | None \<Rightarrow>
          bind (randomBytes env 16) (\<lambda>b.
          bind (read_world (dateNow env)) (\<lambda>now.
            let session = \<lparr>nodeId = ''arcium-node-'' @ number_to_string now,
                           sessionId = bytesToHex b, encryptedState = []\<rparr> in
            (\<lambda>st'. ok session (st'\<lparr>mpcSession := Some session\<rparr>)))) st)"

text \<open>The placeholder ciphertext: the nonce, the amount as 8 bytes, and 16 zero bytes.\<close>

definition encryptAmount ::
  "'w env \<Rightarrow> number \<Rightarrow> MPCState \<Rightarrow> (('w, 'z) io_scheme, byte list) action" where
  "encryptAmount env amt session =
     bind (of_result (writeBigUInt64LE \<lfloor>amt * 10 ^ 9\<rfloor> 0 (Buffer_alloc 8))) (\<lambda>amountBuffer.
     bind (randomBytes env 12) (\<lambda>nonce.
       let ciphertext0 = replicate (length amountBuffer + length nonce + 16) 0;
           ciphertext1 = Buffer_copy nonce ciphertext0 0;
           ciphertext2 = Buffer_copy amountBuffer ciphertext1 (length nonce)
       in ok ciphertext2))"

definition createConfidentialTransferInstruction ::
  "'w env \<Rightarrow> PublicKey \<Rightarrow> PublicKey \<Rightarrow> PublicKey \<Rightarrow> number \<Rightarrow> CSPLTokenConfig \<Rightarrow> MPCState
     \<Rightarrow> (('w, 'z) io_scheme, TransactionInstruction) action" where
  "createConfidentialTransferInstruction env program sender recipient amt tokenConfig session =
     bind (encryptAmount env amt session) (\<lambda>encryptedAmount.
       let data0 = Buffer_alloc (1 + 32 + 32 + length encryptedAmount);
           data1 = writeUInt8 0x01 0 data0;
           data2 = Buffer_copy (toBuffer env sender) data1 1;
           data3 = Buffer_copy (toBuffer env recipient) data2 33;
           data4 = Buffer_copy encryptedAmount data3 65
       in ok \<lparr>programId = program,
               keys =
                 [\<lparr>pubkey = sender, isSigner = True, isWritable = True\<rparr>,
                  \<lparr>pubkey = recipient, isSigner = False, isWritable = True\<rparr>,
                  \<lparr>pubkey = cspl_mint tokenConfig, isSigner = False, isWritable = False\<rparr>,
                  \<lparr>pubkey = SystemProgram_programId, isSigner = False, isWritable = False\<rparr>],
               data = data4\<rparr>)"

definition Arcium_transfer ::
  "'w env \<Rightarrow> TransferRequest \<Rightarrow> ('w ArciumAdapter, TransferResult) action" where
  "Arcium_transfer env request =
     bind (ensureReady ARCIUM) (\<lambda>_.
     bind ensureWallet (\<lambda>walletKey.
       let tok = toUpperCase (req_token request) in
       (case map_of CSPL_TOKENS tok of
          None \<Rightarrow> throw (Error (''Token '' @ req_token request @ '' not supported by Arcium''))
        | Some tokenConfig \<Rightarrow>
            bind (of_result (to_PublicKey env (req_recipient request))) (\<lambda>recipient.
              try_catch
                (bind (initMPCSession env) (\<lambda>session.
                 bind (\<lambda>st. createConfidentialTransferInstruction env (cspl_programId st) walletKey
                              recipient (req_amount request) tokenConfig session st) (\<lambda>instruction.
                 bind (getLatestBlockhash env) (\<lambda>bh.
                   let transaction = \<lparr>instructions = [instruction], recentBlockhash = blockhash bh,
                                      feePayer = walletKey\<rparr> in
                 bind (signTransaction env transaction) (\<lambda>signedTx.
                 bind (sendRawTransaction env signedTx) (\<lambda>signature.
                 bind (confirmTransaction env signature bh) (\<lambda>_.
                   ok \<lparr>res_signature = signature,
                       res_provider = ARCIUM,
                       res_privacyLevel = FULL_ENCRYPTED,
                       res_fee = Finite (0.002 * req_amount request),
                       res_anonymitySet = Some 1000\<rparr>)))))))
                (\<lambda>error. throw (wrapError error ''Arcium confidential transfer failed''))))))"

definition Arcium_estimate :: "EstimateRequest \<Rightarrow> EstimateResult" where
  "Arcium_estimate request =
     (let tok = toUpperCase (token_or_SOL (ereq_token request));
          amt = amount_or_0 (ereq_amount request)
      in case map_of CSPL_TOKENS tok of
           None \<Rightarrow>
             \<lparr>est_fee = 0, est_tokenFee = None, est_provider = ARCIUM, est_latencyMs = 0,
              est_anonymitySet = None,
              est_warnings = [''Token '' @ tok @ '' not supported by Arcium'']\<rparr>
         | Some tokenConfig \<Rightarrow>
             (let latencyMs =
                    (if ereq_operation request = Op_transfer then 8000
                     else if ereq_operation request = Op_deposit then 5000
                     else if ereq_operation request = Op_withdraw then 6000
                     else 3000);
                  feePercent = 0.002;
                  fee0 = amt * feePercent
              in \<lparr>est_fee = fee0, est_tokenFee = Some fee0, est_provider = ARCIUM,
                  est_latencyMs = latencyMs, est_anonymitySet = None, est_warnings = []\<rparr>))"


section \<open>Example runs\<close>

text \<open>
  A function that fails \<open>k\<close> times with a transport error and then succeeds; its state
  counts its invocations.
\<close>

definition flaky_fn :: "nat \<Rightarrow> nat \<Rightarrow> (string + string) \<times> nat" where
  "flaky_fn k n = (if n < k then Inl ''ECONNRESET'' else Inr ''ok'', Suc n)"

definition flaky_always_trace :: "(string, string) retry_event list" where
  "flaky_always_trace =
     [Attempt (Inl ''ECONNRESET''), Sleep 1000, Attempt (Inl ''ECONNRESET''), Sleep 2000,
      Attempt (Inl ''ECONNRESET''), Sleep 4000, Attempt (Inl ''ECONNRESET'')]"

definition demo_env :: "nat env" where
  "demo_env =
     \<lparr>randomByte = (\<lambda>w. (0xAB, Suc w)),
      mathRandom = (\<lambda>w. (0, Suc w)),
      dateNow = (\<lambda>w. (1700000000000, Suc w)),
      wallet_signMessage = (\<lambda>m w. (Inr [1, 2, 3], Suc w)),
      wallet_signTransaction = (\<lambda>tx w. (Inr [4, 5, 6], Suc w)),
      rpc_getLatestBlockhash = (\<lambda>w. (Inr \<lparr>blockhash = ''blockhash'', lastValidBlockHeight = 100\<rparr>, Suc w)),
      rpc_sendRawTransaction = (\<lambda>raw w. (Inr ''signature'', Suc w)),
      rpc_confirmTransaction = (\<lambda>sig bh w. (Inr (), Suc w)),
      http_fetch = (\<lambda>rq w.
         (Inr \<lparr>resp_ok = True, resp_text = [],
               resp_json = Some \<lparr>success = True, transactionId = ''tx-1'', fee = None,
                                  commitment_field = None, error_field = None, balance = 7\<rparr>\<rparr>,
          Suc w)),
      http_fetch_proof = (\<lambda>rq w.
         (Inr \<lparr>resp_ok = True, resp_text = [],
               resp_json = Some \<lparr>root = ''1111111111111111111111111111111111111111111111111111111111111111'',
                                  pathElements = [], pathIndices = []\<rparr>\<rparr>,
          Suc w)),
      toBuffer = (\<lambda>k. replicate 32 7),
      findProgramAddressSync = (\<lambda>seeds program. Some (PublicKey (''pda-'' @ utf8_decode (hd seeds)))),
      validPublicKey = (\<lambda>s. True),
      toSmallestUnit = (\<lambda>a t. Inr \<lfloor>a * 10 ^ 9\<rfloor>)\<rparr>"

definition demo_nullifier :: string where
  "demo_nullifier = ''00112233445566778899aabbccddeeff00112233445566778899aabbccddeeff''"

definition demo_root :: string where
  "demo_root = ''1111111111111111111111111111111111111111111111111111111111111111''"

definition SOL_pool :: PoolConfig where
  "SOL_pool = \<lparr>mint = PublicKey ''So11111111111111111111111111111111111111112'', decimals = 9,
                minDeposit = 0.1, maxDeposit = 100, anonymitySet = 500\<rparr>"

definition demo_secret :: string where
  "demo_secret = ''5ec7e75ec7e75ec7e75ec7e75ec7e75ec7e75ec7e75ec7e75ec7e75ec7e7ff''"

definition demo_nullifier_a :: string where
  "demo_nullifier_a = ''ab000000000000000000000000000000000000000000000000000000000001''"

definition demo_nullifier_b :: string where
  "demo_nullifier_b = ''ab000000000000000000000000000000000000000000000000000000000002''"

definition demo_notes :: "(string \<times> DepositNote) list" where
  "demo_notes =
     [(''aa'', \<lparr>commitment = ''aa'', nullifier = ''01'', secret = ''02'', amount = 1.5,
               token = ''SOL'', timestamp = 1\<rparr>),
      (''bb'', \<lparr>commitment = ''bb'', nullifier = ''03'', secret = ''04'', amount = 10,
               token = ''USDC'', timestamp = 2\<rparr>),
      (''cc'', \<lparr>commitment = ''cc'', nullifier = ''05'', secret = ''06'', amount = 2,
               token = ''SOL'', timestamp = 3\<rparr>)]"

definition demo_pool :: "nat PrivacyCashAdapter" where
  "demo_pool =
     \<lparr>world = 0, trace = [], initialized = True, wallet = Some (PublicKey ''alice''),
      adapter_programId = PRIVACY_CASH_PROGRAM_ID, depositNotes = demo_notes\<rparr>"

definition demo_estimate_request :: EstimateRequest where
  "demo_estimate_request =
     \<lparr>ereq_operation = Op_transfer, ereq_amount = Some 5, ereq_token = Some ''doge'',
      ereq_privacy = None\<rparr>"

definition demo_wire :: "nat ShadowWireAdapter" where
  "demo_wire =
     \<lparr>world = 0, trace = [], initialized = True, wallet = Some (PublicKey ''alice''),
      apiBaseUrl = ''https://api.radr.fun''\<rparr>"

definition small_withdraw :: WithdrawRequest where
  "small_withdraw =
     \<lparr>wreq_amount = 0.001, wreq_token = ''SOL'', wreq_recipient = AddressString ''bob'',
      wreq_commitment = None\<rparr>"

definition small_transfer :: TransferRequest where
  "small_transfer =
     \<lparr>req_recipient = AddressString ''bob'', req_amount = 0.001, req_token = ''sol'',
      req_privacy = AMOUNT_HIDDEN, req_customProof = None\<rparr>"

definition small_deposit :: DepositRequest where
  "small_deposit = \<lparr>dreq_amount = 0.001, dreq_token = ''sol''\<rparr>"

definition demo_note :: DepositNote where
  "demo_note =
     \<lparr>commitment = ''aa'', nullifier = ''01'', secret = ''02'', amount = 1.5, token = ''SOL'',
      timestamp = 1\<rparr>"

definition demo_recipient :: string where
  "demo_recipient = ''11111111111111111111111111111111''"


definition demo_transfer :: TransferRequest where
  "demo_transfer =
     \<lparr>req_recipient = AddressString demo_recipient, req_amount = 1.5, req_token = ''sol'',
      req_privacy = COMPLIANT_POOL, req_customProof = None\<rparr>"


section \<open>Properties of retry\<close>

declare retry_loop.simps [simp del]
declare nat_to_string.simps [simp del]

text \<open>
  A run of the loop from attempt \<open>k\<close>: what the attempts were, where the sleeps stand,
  which state is left, and how the outcome relates to the last attempt.
\<close>

definition retry_run_ok ::
  "'e retry_options \<Rightarrow> ('s \<Rightarrow> ('e + 'a) \<times> 's) \<Rightarrow> nat \<Rightarrow> 's
     \<Rightarrow> ('e option + 'a) \<Rightarrow> 's \<Rightarrow> ('e, 'a) retry_event list \<Rightarrow> bool" where
  "retry_run_ok opts fn k s r s' tr =
     (let rs = attempts tr in
      rs \<noteq> [] \<and>
      int k + int (length rs) \<le> maxRetries opts + 1 \<and>
      tr = interleaved (retry_delay opts) k rs \<and>
      fn_calls fn s (length rs) = (rs, s') \<and>
      (\<forall>x \<in> set (butlast rs). \<exists>e. x = Inl e \<and> shouldRetry opts e) \<and>
      (case last rs of
         Inr v \<Rightarrow> r = Inr v
       | Inl e \<Rightarrow> r = Inl (Some e) \<and>
           (int k + int (length rs) = maxRetries opts + 1 \<or> \<not> shouldRetry opts e)))"

lemma retry_loop_spec:
  "int k \<le> maxRetries opts \<Longrightarrow> retry_loop opts fn k le s = (r, s', tr)
     \<Longrightarrow> retry_run_ok opts fn k s r s' tr"
proof (induction opts fn k le s arbitrary: r s' tr rule: retry_loop.induct)
  case (1 opts fn attempt lastError s)
  note le = \<open>int attempt \<le> maxRetries opts\<close>
  note run = \<open>retry_loop opts fn attempt lastError s = (r, s', tr)\<close>
  obtain x s1 where fs: "fn s = (x, s1)" by (cases "fn s")
  show ?case
  proof (cases x)
    case (Inr v)
    with le fs run show ?thesis
      by (auto simp: retry_loop.simps [of opts fn attempt lastError s] retry_run_ok_def)
  next
    case (Inl e)
    show ?thesis
    proof (cases "int attempt = maxRetries opts \<or> \<not> shouldRetry opts e")
      case True
      with le fs Inl run show ?thesis
        by (auto simp: retry_loop.simps [of opts fn attempt lastError s] retry_run_ok_def)
    next
      case go: False
      then have le2: "int (Suc attempt) \<le> maxRetries opts" using le by simp
      obtain r2 s2 tr2 where rec: "retry_loop opts fn (Suc attempt) (Some e) s1 = (r2, s2, tr2)"
        by (cases "retry_loop opts fn (Suc attempt) (Some e) s1") auto
      from le fs Inl go rec run
      have eqs: "r = r2" "s' = s2" "tr = Attempt (Inl e) # Sleep (retry_delay opts attempt) # tr2"
        by (auto simp: retry_loop.simps [of opts fn attempt lastError s])
      from "1.IH" [OF le fs [symmetric] _ _ le2 rec] Inl go
      have ih: "retry_run_ok opts fn (Suc attempt) s1 r2 s2 tr2" by auto
      then obtain y ys where ne: "attempts tr2 = y # ys"
        by (cases "attempts tr2") (auto simp: retry_run_ok_def Let_def)
      obtain rs2 where rs2_def: "rs2 = attempts tr2" by simp
      have ne2: "rs2 \<noteq> []" using ne by (simp add: rs2_def)
      have a: "attempts tr = Inl e # rs2" using eqs by (simp add: rs2_def)
      from ih [unfolded retry_run_ok_def Let_def, folded rs2_def]
      have p1: "int (Suc attempt) + int (length rs2) \<le> maxRetries opts + 1"
        and p2: "tr2 = interleaved (retry_delay opts) (Suc attempt) rs2"
        and p3: "fn_calls fn s1 (length rs2) = (rs2, s2)"
        and p4: "\<forall>x \<in> set (butlast rs2). \<exists>e. x = Inl e \<and> shouldRetry opts e"
        and p5: "(case last rs2 of Inr v \<Rightarrow> r2 = Inr v
                  | Inl e \<Rightarrow> r2 = Inl (Some e) \<and>
                     (int (Suc attempt) + int (length rs2) = maxRetries opts + 1 \<or> \<not> shouldRetry opts e))"
        by blast+
      have q2: "tr = interleaved (retry_delay opts) attempt (Inl e # rs2)"
        using eqs p2 ne2 by (cases rs2) simp_all
      have q3: "fn_calls fn s (length (Inl e # rs2)) = (Inl e # rs2, s')"
        using fs Inl p3 eqs by simp
      have q4: "\<forall>x \<in> set (butlast (Inl e # rs2)). \<exists>e. x = Inl e \<and> shouldRetry opts e"
        using p4 go ne2 by simp
      have q5: "(case last (Inl e # rs2) of Inr v \<Rightarrow> r = Inr v
                  | Inl e' \<Rightarrow> r = Inl (Some e') \<and>
                     (int attempt + int (length (Inl e # rs2)) = maxRetries opts + 1 \<or> \<not> shouldRetry opts e'))"
        using p5 ne2 eqs by (simp split: sum.splits)
      have q1: "int attempt + int (length (Inl e # rs2)) \<le> maxRetries opts + 1"
        using p1 by simp
      show ?thesis
        unfolding retry_run_ok_def Let_def a using q1 q2 q3 q4 q5 by blast
    qed
  qed
qed

text \<open>With a negative \<^verbatim>\<open>maxRetries\<close> the body never runs and \<^verbatim>\<open>undefined\<close> is thrown.\<close>

lemma retry_loop_skipped:
  "\<not> int k \<le> maxRetries opts \<Longrightarrow> retry_loop opts fn k le s = (Inl le, s, [])"
  by (simp add: retry_loop.simps)

text \<open>
  C8. With the default options and any \<^verbatim>\<open>shouldRetry\<close> predicate \<open>p\<close>, \<^verbatim>\<open>retry\<close> invokes
  \<^verbatim>\<open>fn\<close> at least once and at most 4 times; the invocations are successive calls of
  \<^verbatim>\<open>fn\<close>; between consecutive invocations, and only there, it sleeps
  \<open>min (1000 * 2 ^ attempt) 10000\<close> milliseconds; every failed invocation but the last
  threw an error that \<open>p\<close> accepts; and the outcome is the value of the last invocation,
  or its error, rethrown because it was the fourth attempt or because \<open>p\<close> rejects it.
\<close>

theorem retry_default_options:
  assumes "retry (default_retry_options\<lparr>shouldRetry := p\<rparr>) fn s = (r, s', tr)"
  shows "1 \<le> length (attempts tr) \<and> length (attempts tr) \<le> 4 \<and>
         tr = interleaved (\<lambda>attempt. min (1000 * 2 ^ attempt) 10000) 0 (attempts tr) \<and>
         fn_calls fn s (length (attempts tr)) = (attempts tr, s') \<and>
         (\<forall>x \<in> set (butlast (attempts tr)). \<exists>e. x = Inl e \<and> p e) \<and>
         (case last (attempts tr) of
            Inr v \<Rightarrow> r = Inr v
          | Inl e \<Rightarrow> r = Inl (Some e) \<and> (length (attempts tr) = 4 \<or> \<not> p e))"
proof -
  let ?opts = "default_retry_options\<lparr>shouldRetry := p\<rparr> :: 'a retry_options"
  have le: "int 0 \<le> maxRetries ?opts" by (simp add: default_retry_options_def)
  have d: "retry_delay ?opts = (\<lambda>attempt. min (1000 * 2 ^ attempt) 10000)"
    by (rule ext) (simp add: retry_delay_def default_retry_options_def)
  from retry_loop_spec [OF le assms [unfolded retry_def]]
  have run: "retry_run_ok ?opts fn 0 s r s' tr" .
  then have ne: "attempts tr \<noteq> []" and len: "int (length (attempts tr)) \<le> 4"
    by (simp_all add: retry_run_ok_def Let_def default_retry_options_def)
  from ne have "1 \<le> length (attempts tr)" by (cases "attempts tr") simp_all
  moreover from len have "length (attempts tr) \<le> 4" by simp
  moreover from run have "tr = interleaved (\<lambda>attempt. min (1000 * 2 ^ attempt) 10000) 0 (attempts tr)"
    by (simp add: retry_run_ok_def Let_def d)
  moreover from run have "fn_calls fn s (length (attempts tr)) = (attempts tr, s')"
    by (simp add: retry_run_ok_def Let_def)
  moreover from run have "\<forall>x \<in> set (butlast (attempts tr)). \<exists>e. x = Inl e \<and> p e"
    by (simp add: retry_run_ok_def Let_def default_retry_options_def)
  moreover from run have "(case last (attempts tr) of
            Inr v \<Rightarrow> r = Inr v
          | Inl e \<Rightarrow> r = Inl (Some e) \<and> (length (attempts tr) = 4 \<or> \<not> p e))"
    by (auto simp: retry_run_ok_def Let_def default_retry_options_def split: sum.splits)
  ultimately show ?thesis by blast
qed

text \<open>
  Two runs: a function that fails twice and then succeeds is invoked three times, with
  sleeps of 1 s and 2 s; one that always fails with a retryable error is invoked four
  times, with sleeps of 1 s, 2 s and 4 s, and its last error is rethrown.
\<close>

lemma retry_flaky_twice:
  "retry (default_retry_options\<lparr>shouldRetry := (\<lambda>e. e = ''ECONNRESET'')\<rparr>) (flaky_fn 2) 0 =
     (Inr ''ok'', 3,
      [Attempt (Inl ''ECONNRESET''), Sleep 1000, Attempt (Inl ''ECONNRESET''), Sleep 2000,
       Attempt (Inr ''ok'')])"
  by (simp add: retry_def retry_loop.simps flaky_fn_def default_retry_options_def retry_delay_def)

lemma retry_flaky_always:
  "retry (default_retry_options\<lparr>shouldRetry := (\<lambda>e. e = ''ECONNRESET'')\<rparr>) (flaky_fn 9) 0 =
     (Inl (Some ''ECONNRESET''), 4,
      [Attempt (Inl ''ECONNRESET''), Sleep 1000, Attempt (Inl ''ECONNRESET''), Sleep 2000,
       Attempt (Inl ''ECONNRESET''), Sleep 4000, Attempt (Inl ''ECONNRESET'')])"
  by (simp add: retry_def retry_loop.simps flaky_fn_def default_retry_options_def retry_delay_def)

theorem retry_default_options_witness:
  "retry (default_retry_options\<lparr>shouldRetry := (\<lambda>e. e = ''ECONNRESET'')\<rparr>) (flaky_fn 9) 0 =
     (Inl (Some ''ECONNRESET''), 4, flaky_always_trace) \<and>
   length (attempts flaky_always_trace) \<le> 4 \<and>
   flaky_always_trace =
     interleaved (\<lambda>attempt. min (1000 * 2 ^ attempt) 10000) 0 (attempts flaky_always_trace) \<and>
   sleeps flaky_always_trace = [1000, 2000, 4000]"
proof -
  have run: "retry (default_retry_options\<lparr>shouldRetry := (\<lambda>e. e = ''ECONNRESET'')\<rparr>) (flaky_fn 9) 0 =
     (Inl (Some ''ECONNRESET''), 4, flaky_always_trace)"
    using retry_flaky_always by (simp add: flaky_always_trace_def)
  note t = retry_default_options [OF run]
  from t have a: "length (attempts flaky_always_trace) \<le> 4" by blast
  from t have b: "flaky_always_trace =
     interleaved (\<lambda>attempt. min (1000 * 2 ^ attempt) 10000) 0 (attempts flaky_always_trace)"
    by blast
  have c: "sleeps flaky_always_trace = [1000, 2000, 4000]"
    by (simp add: flaky_always_trace_def)
  from run a b c show ?thesis by blast
qed

section \<open>Properties of the hexadecimal helpers\<close>

lemma unat_byte_lt: "unat (b :: byte) < 256"
  using unsigned_less [of b, where 'a = nat] by simp

lemma lt16_cases:
  "d < 16 \<Longrightarrow> d = 0 \<or> d = 1 \<or> d = 2 \<or> d = 3 \<or> d = 4 \<or> d = 5 \<or> d = 6 \<or> d = 7 \<or> d = 8 \<or> d = 9
     \<or> d = 10 \<or> d = 11 \<or> d = 12 \<or> d = 13 \<or> d = 14 \<or> d = (15::nat)"
  by arith

lemma hex_val_hex_digit: "d < 16 \<Longrightarrow> hex_val (hex_digit d) = Some d"
  using lt16_cases [of d] by (auto simp: hex_digit_def hex_val_def)

lemma hex_digit_plain:
  "d < 16 \<Longrightarrow> \<not> is_js_whitespace (hex_digit d) \<and> hex_digit d \<noteq> CHR ''-'' \<and> hex_digit d \<noteq> CHR ''+''
     \<and> hex_digit d \<noteq> CHR ''x'' \<and> hex_digit d \<noteq> CHR ''X''"
  using lt16_cases [of d] by (auto simp: hex_digit_def is_js_whitespace_def)

lemma parseInt16_hex_digits:
  assumes "a < 16" "b < 16"
  shows "parseInt16 [hex_digit a, hex_digit b] = Some (int (16 * a + b))"
proof -
  note pa = hex_digit_plain [OF assms(1)] and pb = hex_digit_plain [OF assms(2)]
  note va = hex_val_hex_digit [OF assms(1)] and vb = hex_val_hex_digit [OF assms(2)]
  show ?thesis
    using pa pb va vb by (simp add: parseInt16_def is_hex_def)
qed

lemma byte_to_hex:
  "n < 256 \<Longrightarrow> padStart 2 (CHR ''0'') (toString16 n) = [hex_digit (n div 16), hex_digit (n mod 16)]"
  by (simp add: padStart_def toString16_def hex_digit_def)

lemma bytesToHex_Nil [simp]: "bytesToHex [] = []"
  by (simp add: bytesToHex_def)

lemma bytesToHex_Cons:
  "bytesToHex (b # bs) = hex_digit (unat b div 16) # hex_digit (unat b mod 16) # bytesToHex bs"
proof -
  have "unat b < 256" by (rule unat_byte_lt)
  then show ?thesis by (simp add: bytesToHex_def byte_to_hex)
qed

lemma bytesToHex_append: "bytesToHex (xs @ ys) = bytesToHex xs @ bytesToHex ys"
  by (simp add: bytesToHex_def)

lemma length_bytesToHex: "length (bytesToHex bs) = 2 * length bs"
  by (induction bs) (simp_all add: bytesToHex_Cons)

lemma hex_pairs_bytesToHex: "hex_pairs (bytesToHex bs) = bs"
proof (induction bs)
  case Nil
  show ?case by simp
next
  case (Cons b bs)
  have lt: "unat b < 256" by (rule unat_byte_lt)
  then have a: "unat b div 16 < 16" and m: "unat b mod 16 < 16" by simp_all
  have "16 * (unat b div 16) + unat b mod 16 = unat b" by simp
  then have "to_uint8 (parseInt16 [hex_digit (unat b div 16), hex_digit (unat b mod 16)]) = b"
    by (simp add: parseInt16_hex_digits [OF a m] to_uint8_def)
  with Cons show ?case by (simp add: bytesToHex_Cons)
qed

lemma bytesToHex_no_prefix: "take 2 (bytesToHex bs) \<noteq> ''0x''"
proof (cases bs)
  case Nil
  then show ?thesis by simp
next
  case (Cons b bs')
  have "unat b mod 16 < 16" by simp
  from hex_digit_plain [OF this] Cons show ?thesis by (simp add: bytesToHex_Cons)
qed

lemma hexToBytes_bytesToHex: "hexToBytes (bytesToHex bs) = bs"
  by (simp add: hexToBytes_def bytesToHex_no_prefix hex_pairs_bytesToHex)

lemma take_bytesToHex: "take (2 * n) (bytesToHex bs) = bytesToHex (take n bs)"
proof (induction bs arbitrary: n)
  case Nil
  show ?case by simp
next
  case (Cons b bs)
  show ?case
  proof (cases n)
    case 0
    then show ?thesis by simp
  next
    case (Suc m)
    with Cons [of m] show ?thesis by (simp add: bytesToHex_Cons)
  qed
qed

section \<open>Commitment and nullifier hash\<close>

text \<open>
  \<^verbatim>\<open>hashNullifier\<close> re-encodes the bytes of the nullifier: written into an instruction, the
  ``nullifier hash'' is the nullifier itself. \<^verbatim>\<open>computeCommitment\<close> re-encodes the first 32
  bytes of secret and nullifier: for the 31-byte secret and nullifier \<^verbatim>\<open>deposit\<close> draws,
  the commitment is the secret followed by the first byte of the nullifier.
\<close>

lemma hashNullifier_bytesToHex: "hashNullifier (bytesToHex bs) = bytesToHex bs"
  by (simp add: hashNullifier_def hexToBytes_bytesToHex)

lemma hexToBytes_hashNullifier: "hexToBytes (hashNullifier nul) = hexToBytes nul"
  by (simp add: hashNullifier_def hexToBytes_bytesToHex)

lemma computeCommitment_bytesToHex:
  assumes "length b1 = 31"
  shows "computeCommitment (bytesToHex b1) (bytesToHex b2) = bytesToHex (b1 @ take 1 b2)"
proof -
  have "take 64 (bytesToHex b1 @ bytesToHex b2) = bytesToHex b1 @ take (2 * 1) (bytesToHex b2)"
    using assms by (simp add: length_bytesToHex)
  also have "\<dots> = bytesToHex (b1 @ take 1 b2)"
    by (simp only: take_bytesToHex bytesToHex_append)
  finally show ?thesis
    by (simp add: computeCommitment_def hexToBytes_bytesToHex)
qed

section \<open>The withdraw instruction\<close>

lemma Buffer_copy_segment:
  "length a = off \<Longrightarrow> length src \<le> length b
     \<Longrightarrow> Buffer_copy src (a @ b @ c) off = a @ src @ drop (length src) b @ c"
  by (simp add: Buffer_copy_def)

lemma length_le_bytes [simp]: "length (le_bytes k v) = k"
  by (induction k arbitrary: v) simp_all

lemma le_bytes_value:
  "v < 256 ^ k \<Longrightarrow> (\<Sum>i<k. unat (le_bytes k v ! i) * 256 ^ i) = v"
proof (induction k arbitrary: v)
  case 0
  then show ?case by simp
next
  case (Suc k)
  have d: "v div 256 < 256 ^ k" using Suc.prems by (simp add: less_mult_imp_div_less mult.commute)
  have "(\<Sum>i<Suc k. unat (le_bytes (Suc k) v ! i) * 256 ^ i)
      = unat (le_bytes (Suc k) v ! 0) * 256 ^ 0 + (\<Sum>i<k. unat (le_bytes (Suc k) v ! Suc i) * 256 ^ Suc i)"
    by (rule sum.lessThan_Suc_shift)
  also have "\<dots> = v mod 256 + 256 * (\<Sum>i<k. unat (le_bytes k (v div 256) ! i) * 256 ^ i)"
    by (simp add: sum_distrib_left mult.assoc mult.left_commute unat_of_nat)
  also have "\<dots> = v mod 256 + 256 * (v div 256)" using Suc.IH [OF d] by simp
  also have "\<dots> = v" by simp
  finally show ?case .
qed

lemma le_bytes_4:
  "le_bytes 4 v =
     [of_nat (v mod 256), of_nat (v div 256 mod 256), of_nat (v div 65536 mod 256),
      of_nat (v div 16777216 mod 256)]"
proof -
  have a: "v div 256 div 256 = v div 65536"
    using div_mult2_eq [of v 256 256] by simp
  have b: "v div 65536 div 256 = v div 16777216"
    using div_mult2_eq [of v 65536 256] by simp
  have e4: "(4 :: nat) = Suc (Suc (Suc (Suc 0)))" by simp
  show ?thesis unfolding e4 by (simp add: a b)
qed

text \<open>
  The buffer of \<^verbatim>\<open>createWithdrawInstruction\<close> after its five writes, for a nullifier hash
  and a root of at most 32 bytes: a shorter value leaves the zero bytes of the allocation
  behind it.
\<close>

lemma withdraw_data_layout:
  assumes nh: "length nh \<le> 32" and rt: "length r \<le> 32"
  shows "Buffer_copy proof
           (Buffer_copy (le_bytes 4 n)
              (Buffer_copy r
                 (Buffer_copy nh (writeUInt8 0x02 0 (Buffer_alloc (1 + 32 + 32 + 4 + length proof))) 1)
                 33) 65) 69
         = [0x02] @ (nh @ replicate (32 - length nh) 0) @ (r @ replicate (32 - length r) 0)
             @ le_bytes 4 n @ proof"
proof -
  let ?z = "replicate 32 (0 :: byte)"
  have e: "replicate (1 + 32 + 32 + 4 + length proof) (0 :: byte)
             = replicate 1 0 @ ?z @ ?z @ replicate 4 0 @ replicate (length proof) 0"
    by (simp only: replicate_add append_assoc)
  have e1: "replicate 1 (0 :: byte) = [0]" by simp
  have d1: "writeUInt8 0x02 0 (Buffer_alloc (1 + 32 + 32 + 4 + length proof))
              = [0x02] @ ?z @ (?z @ replicate 4 0 @ replicate (length proof) 0)"
    unfolding writeUInt8_def Buffer_alloc_def e e1 by simp
  have d2: "Buffer_copy nh ([0x02] @ ?z @ (?z @ replicate 4 0 @ replicate (length proof) 0)) 1
              = [0x02] @ nh @ drop (length nh) ?z @ (?z @ replicate 4 0 @ replicate (length proof) 0)"
    using nh by (intro Buffer_copy_segment) simp_all
  have d3: "Buffer_copy r (([0x02] @ nh @ drop (length nh) ?z) @ ?z @ (replicate 4 0 @ replicate (length proof) 0)) 33
              = ([0x02] @ nh @ drop (length nh) ?z) @ r @ drop (length r) ?z @ (replicate 4 0 @ replicate (length proof) 0)"
    using nh rt by (intro Buffer_copy_segment) simp_all
  have d4: "Buffer_copy (le_bytes 4 n)
              ((([0x02] @ nh @ drop (length nh) ?z) @ r @ drop (length r) ?z) @ replicate 4 0 @ replicate (length proof) 0) 65
              = (([0x02] @ nh @ drop (length nh) ?z) @ r @ drop (length r) ?z) @ le_bytes 4 n
                  @ drop (length (le_bytes 4 n)) (replicate 4 0) @ replicate (length proof) 0"
    using nh rt by (intro Buffer_copy_segment) simp_all
  have d5: "Buffer_copy proof
              (((([0x02] @ nh @ drop (length nh) ?z) @ r @ drop (length r) ?z) @ le_bytes 4 n)
                 @ replicate (length proof) 0 @ []) 69
              = ((([0x02] @ nh @ drop (length nh) ?z) @ r @ drop (length r) ?z) @ le_bytes 4 n)
                  @ proof @ drop (length proof) (replicate (length proof) 0) @ []"
    using nh rt by (intro Buffer_copy_segment) simp_all
  show ?thesis
    unfolding d1 using d2 d3 d4 d5 by simp
qed

text \<open>
  C7, as the code has it. The data of the withdraw instruction is the byte \<open>0x02\<close>, a
  field of 32 bytes for the nullifier hash, a field of 32 bytes for the Merkle root, the
  length of the proof as four little-endian bytes, and the proof. \<^verbatim>\<open>hashNullifier\<close> returns
  the bytes of the nullifier, and a value shorter than its field is followed there by zero
  bytes, which are not part of the seed: the second and third account are the addresses
  derived from the seeds \<open>[''pool'', mint]\<close> and \<open>[''nullifier'', nullifier_hash]\<close>, the
  latter with the value as \<^verbatim>\<open>hashNullifier\<close> returned it. For a nullifier that \<^verbatim>\<open>deposit\<close>
  drew, \<^verbatim>\<open>bytesToHex\<close> of 31 random bytes, that value is the 31 bytes.
\<close>

theorem withdraw_instruction_layout:
  assumes "length (hexToBytes (hashNullifier nul)) \<le> 32"
    and "length (hexToBytes rt) \<le> 32"
    and "length proof < 2 ^ 32"
    and "findProgramAddressSync env [utf8_encode ''pool'', toBuffer env (mint cfg)] program = Some poolPda"
    and "findProgramAddressSync env [utf8_encode ''nullifier'', hexToBytes (hashNullifier nul)] program
           = Some nullifierPda"
  shows "createWithdrawInstruction env program recipient nul rt proof (Some cfg) =
           Inr \<lparr>programId = program,
                keys =
                  [\<lparr>pubkey = recipient, isSigner = False, isWritable = True\<rparr>,
                   \<lparr>pubkey = poolPda, isSigner = False, isWritable = True\<rparr>,
                   \<lparr>pubkey = nullifierPda, isSigner = False, isWritable = True\<rparr>,
                   \<lparr>pubkey = mint cfg, isSigner = False, isWritable = False\<rparr>,
                   \<lparr>pubkey = SystemProgram_programId, isSigner = False, isWritable = False\<rparr>],
                data = [0x02]
                         @ (hexToBytes (hashNullifier nul)
                              @ replicate (32 - length (hexToBytes (hashNullifier nul))) 0)
                         @ (hexToBytes rt @ replicate (32 - length (hexToBytes rt)) 0)
                         @ le_bytes 4 (length proof) @ proof\<rparr>
         \<and> length (le_bytes 4 (length proof)) = 4
         \<and> (\<Sum>i<4. unat (le_bytes 4 (length proof) ! i) * 256 ^ i) = length proof
         \<and> hexToBytes (hashNullifier (bytesToHex bs)) = bs"
proof -
  have lay: "Buffer_copy proof
           (Buffer_copy (le_bytes 4 (length proof))
              (Buffer_copy (hexToBytes rt)
                 (Buffer_copy (hexToBytes (hashNullifier nul))
                    (writeUInt8 0x02 0 (Buffer_alloc (1 + 32 + 32 + 4 + length proof))) 1)
                 33) 65) 69
         = [0x02]
             @ (hexToBytes (hashNullifier nul)
                  @ replicate (32 - length (hexToBytes (hashNullifier nul))) 0)
             @ (hexToBytes rt @ replicate (32 - length (hexToBytes rt)) 0)
             @ le_bytes 4 (length proof) @ proof"
    by (rule withdraw_data_layout [OF assms(1,2)])
  have v: "(\<Sum>i<4. unat (le_bytes 4 (length proof) ! i) * 256 ^ i) = length proof"
    using assms(3) by (intro le_bytes_value) simp
  have h: "hexToBytes (hashNullifier (bytesToHex bs)) = bs"
    by (simp add: hexToBytes_hashNullifier hexToBytes_bytesToHex)
  have "createWithdrawInstruction env program recipient nul rt proof (Some cfg) =
           Inr \<lparr>programId = program,
                keys =
                  [\<lparr>pubkey = recipient, isSigner = False, isWritable = True\<rparr>,
                   \<lparr>pubkey = poolPda, isSigner = False, isWritable = True\<rparr>,
                   \<lparr>pubkey = nullifierPda, isSigner = False, isWritable = True\<rparr>,
                   \<lparr>pubkey = mint cfg, isSigner = False, isWritable = False\<rparr>,
                   \<lparr>pubkey = SystemProgram_programId, isSigner = False, isWritable = False\<rparr>],
                data = [0x02]
                         @ (hexToBytes (hashNullifier nul)
                              @ replicate (32 - length (hexToBytes (hashNullifier nul))) 0)
                         @ (hexToBytes rt @ replicate (32 - length (hexToBytes rt)) 0)
                         @ le_bytes 4 (length proof) @ proof\<rparr>"
    using assms(3,4,5) lay
    by (simp add: createWithdrawInstruction_def Let_def writeUInt32LE_def)
  with v h show ?thesis by simp
qed

lemma length_hex_pairs: "length (hex_pairs s) = length s div 2"
  by (induction s rule: hex_pairs.induct) simp_all

lemma length_hexToBytes:
  "length (hexToBytes h) = (if take 2 h = ''0x'' then (length h - 2) div 2 else length h div 2)"
  by (simp add: hexToBytes_def length_hex_pairs)

lemma utf8_decode_encode: "utf8_decode (utf8_encode s) = s"
proof (induction s)
  case Nil
  show ?case by (simp add: utf8_decode_def utf8_encode_def)
next
  case (Cons c s)
  have "(of_char c :: nat) mod 256 = of_char c" by simp
  then have "unat (of_nat (of_char c) :: byte) = of_char c" by (simp add: unat_of_nat)
  with Cons show ?case by (simp add: utf8_decode_def utf8_encode_def)
qed

lemmas hex_eval = hexToBytes_def parseInt16_def is_js_whitespace_def is_hex_def hex_val_def
  to_uint8_def bytesToHex_def padStart_def toString16_def hex_digit_def

text \<open>
  The nullifier \<open>demo_nullifier_a\<close> has 31 bytes, as the ones that \<^verbatim>\<open>deposit\<close> draws;
  \<open>demo_nullifier\<close> has 32.
\<close>

lemma demo_nullifier_a_bytes:
  "hexToBytes (hashNullifier demo_nullifier_a) =
     [0xAB, 0, 0, 0, 0, 0, 0, 0, 0, 0, 0, 0, 0, 0, 0, 0, 0, 0, 0, 0, 0, 0, 0, 0, 0, 0, 0, 0, 0,
      0, 1]"
  by (simp add: hashNullifier_def demo_nullifier_a_def hex_eval)

theorem withdraw_instruction_layout_witness:
  "createWithdrawInstruction demo_env PRIVACY_CASH_PROGRAM_ID (PublicKey ''recipient'')
     demo_nullifier_a demo_root [9, 8, 7] (Some SOL_pool) =
     Inr \<lparr>programId = PRIVACY_CASH_PROGRAM_ID,
          keys =
            [\<lparr>pubkey = PublicKey ''recipient'', isSigner = False, isWritable = True\<rparr>,
             \<lparr>pubkey = PublicKey ''pda-pool'', isSigner = False, isWritable = True\<rparr>,
             \<lparr>pubkey = PublicKey ''pda-nullifier'', isSigner = False, isWritable = True\<rparr>,
             \<lparr>pubkey = PublicKey ''So11111111111111111111111111111111111111112'', isSigner = False,
              isWritable = False\<rparr>,
             \<lparr>pubkey = SystemProgram_programId, isSigner = False, isWritable = False\<rparr>],
          data = [0x02]
                   @ [0xAB, 0, 0, 0, 0, 0, 0, 0, 0, 0, 0, 0, 0, 0, 0, 0, 0, 0, 0, 0, 0, 0, 0, 0,
                      0, 0, 0, 0, 0, 0, 1]
                   @ [0] @ hexToBytes demo_root @ [3, 0, 0, 0] @ [9, 8, 7]\<rparr>
   \<and> length (hexToBytes (hashNullifier demo_nullifier_a)) = 31
   \<and> length (hexToBytes demo_root) = 32
   \<and> createWithdrawInstruction demo_env PRIVACY_CASH_PROGRAM_ID (PublicKey ''recipient'')
       demo_nullifier demo_root [9, 8, 7] (Some SOL_pool) =
     Inr \<lparr>programId = PRIVACY_CASH_PROGRAM_ID,
          keys =
            [\<lparr>pubkey = PublicKey ''recipient'', isSigner = False, isWritable = True\<rparr>,
             \<lparr>pubkey = PublicKey ''pda-pool'', isSigner = False, isWritable = True\<rparr>,
             \<lparr>pubkey = PublicKey ''pda-nullifier'', isSigner = False, isWritable = True\<rparr>,
             \<lparr>pubkey = PublicKey ''So11111111111111111111111111111111111111112'', isSigner = False,
              isWritable = False\<rparr>,
             \<lparr>pubkey = SystemProgram_programId, isSigner = False, isWritable = False\<rparr>],
          data = [0x02] @ hexToBytes (hashNullifier demo_nullifier) @ hexToBytes demo_root
                   @ [3, 0, 0, 0] @ [9, 8, 7]\<rparr>
   \<and> length (hexToBytes (hashNullifier demo_nullifier)) = 32"
proof -
  have a1: "length (hexToBytes (hashNullifier demo_nullifier_a)) = 31"
    by (simp add: demo_nullifier_a_bytes)
  have h1: "length (hexToBytes (hashNullifier demo_nullifier)) = 32"
    by (simp add: hexToBytes_hashNullifier length_hexToBytes demo_nullifier_def)
  have h2: "length (hexToBytes demo_root) = 32"
    by (simp add: length_hexToBytes demo_root_def)
  have h3: "length [9, 8, 7 :: byte] < 2 ^ 32" by simp
  have h4: "findProgramAddressSync demo_env [utf8_encode ''pool'', toBuffer demo_env (mint SOL_pool)]
              PRIVACY_CASH_PROGRAM_ID = Some (PublicKey ''pda-pool'')"
    by (simp add: demo_env_def utf8_decode_encode)
  have h5: "findProgramAddressSync demo_env [utf8_encode ''nullifier'', seed]
              PRIVACY_CASH_PROGRAM_ID = Some (PublicKey ''pda-nullifier'')" for seed
    by (simp add: demo_env_def utf8_decode_encode)
  from a1 have a1': "length (hexToBytes (hashNullifier demo_nullifier_a)) \<le> 32" by simp
  from h1 have h1': "length (hexToBytes (hashNullifier demo_nullifier)) \<le> 32" by simp
  from h2 have h2': "length (hexToBytes demo_root) \<le> 32" by simp
  note short = withdraw_instruction_layout [OF a1' h2' h3 h4 h5, of "PublicKey ''recipient''"]
  note full = withdraw_instruction_layout [OF h1' h2' h3 h4 h5, of "PublicKey ''recipient''"]
  from short have s: "createWithdrawInstruction demo_env PRIVACY_CASH_PROGRAM_ID
      (PublicKey ''recipient'') demo_nullifier_a demo_root [9, 8, 7] (Some SOL_pool) =
     Inr \<lparr>programId = PRIVACY_CASH_PROGRAM_ID,
          keys =
            [\<lparr>pubkey = PublicKey ''recipient'', isSigner = False, isWritable = True\<rparr>,
             \<lparr>pubkey = PublicKey ''pda-pool'', isSigner = False, isWritable = True\<rparr>,
             \<lparr>pubkey = PublicKey ''pda-nullifier'', isSigner = False, isWritable = True\<rparr>,
             \<lparr>pubkey = PublicKey ''So11111111111111111111111111111111111111112'', isSigner = False,
              isWritable = False\<rparr>,
             \<lparr>pubkey = SystemProgram_programId, isSigner = False, isWritable = False\<rparr>],
          data = [0x02]
                   @ [0xAB, 0, 0, 0, 0, 0, 0, 0, 0, 0, 0, 0, 0, 0, 0, 0, 0, 0, 0, 0, 0, 0, 0, 0,
                      0, 0, 0, 0, 0, 0, 1]
                   @ [0] @ hexToBytes demo_root @ [3, 0, 0, 0] @ [9, 8, 7]\<rparr>"
    by (simp add: le_bytes_4 SOL_pool_def h2 demo_nullifier_a_bytes)
  from full have f: "createWithdrawInstruction demo_env PRIVACY_CASH_PROGRAM_ID
      (PublicKey ''recipient'') demo_nullifier demo_root [9, 8, 7] (Some SOL_pool) =
     Inr \<lparr>programId = PRIVACY_CASH_PROGRAM_ID,
          keys =
            [\<lparr>pubkey = PublicKey ''recipient'', isSigner = False, isWritable = True\<rparr>,
             \<lparr>pubkey = PublicKey ''pda-pool'', isSigner = False, isWritable = True\<rparr>,
             \<lparr>pubkey = PublicKey ''pda-nullifier'', isSigner = False, isWritable = True\<rparr>,
             \<lparr>pubkey = PublicKey ''So11111111111111111111111111111111111111112'', isSigner = False,
              isWritable = False\<rparr>,
             \<lparr>pubkey = SystemProgram_programId, isSigner = False, isWritable = False\<rparr>],
          data = [0x02] @ hexToBytes (hashNullifier demo_nullifier) @ hexToBytes demo_root
                   @ [3, 0, 0, 0] @ [9, 8, 7]\<rparr>"
    by (simp add: le_bytes_4 SOL_pool_def h1 h2)
  from s f a1 h1 h2 show ?thesis by (simp only: simp_thms)
qed

text \<open>
  C1. At a secret and two nullifiers of 31 bytes, as \<^verbatim>\<open>deposit\<close> draws them: the commitment
  is the secret followed by the first byte of the nullifier, so that two notes whose
  nullifiers differ after the first byte share it; and the nullifier hash is the nullifier,
  31 bytes long. \<^verbatim>\<open>computeCommitment\<close> and \<^verbatim>\<open>hashNullifier\<close> compute no hash.
\<close>

theorem commitment_is_prefix_of_secret_and_nullifier:
  "computeCommitment demo_secret demo_nullifier_a = demo_secret @ ''ab'' \<and>
   computeCommitment demo_secret demo_nullifier_b = demo_secret @ ''ab'' \<and>
   demo_nullifier_a \<noteq> demo_nullifier_b \<and>
   hashNullifier demo_nullifier_a = demo_nullifier_a \<and>
   length (hexToBytes (hashNullifier demo_nullifier_a)) = 31"
  by (simp add: computeCommitment_def hashNullifier_def demo_secret_def demo_nullifier_a_def
      demo_nullifier_b_def hex_eval)

section \<open>Table lookup with an upper-cased key\<close>

lemma upper_char_not_lower: "upper_char c \<notin> set ''abcdefghijklmnopqrstuvwxyz''"
proof (cases "c \<in> set ''abcdefghijklmnopqrstuvwxyz''")
  case True
  then show ?thesis by (auto simp: upper_char_def)
next
  case False
  then show ?thesis by (auto simp: upper_char_def)
qed

lemma toUpperCase_no_lower: "c \<in> set (toUpperCase s) \<Longrightarrow> c \<notin> set ''abcdefghijklmnopqrstuvwxyz''"
  using upper_char_not_lower by (auto simp: toUpperCase_def)

lemma prototype_key_has_lower:
  "k \<in> set object_prototype_keys \<Longrightarrow> CHR ''t'' \<in> set k \<or> CHR ''e'' \<in> set k"
  by (auto simp: object_prototype_keys_def)

lemma toUpperCase_not_prototype_key: "toUpperCase s \<notin> set object_prototype_keys"
proof
  assume "toUpperCase s \<in> set object_prototype_keys"
  from prototype_key_has_lower [OF this]
  have "CHR ''t'' \<in> set (toUpperCase s) \<or> CHR ''e'' \<in> set (toUpperCase s)" .
  then show False
  proof
    assume "CHR ''t'' \<in> set (toUpperCase s)"
    from toUpperCase_no_lower [OF this] show False by simp
  next
    assume "CHR ''e'' \<in> set (toUpperCase s)"
    from toUpperCase_no_lower [OF this] show False by simp
  qed
qed

lemma get_property_toUpperCase:
  "get_property table (toUpperCase s) =
     (case map_of table (toUpperCase s) of Some v \<Rightarrow> Own v | None \<Rightarrow> Missing)"
  by (simp add: get_property_def toUpperCase_not_prototype_key split: option.splits)

section \<open>getBalance of the pool adapter\<close>




section \<open>estimate on an unsupported token\<close>

text \<open>
  C10. \<^verbatim>\<open>estimate\<close> is a function without a \<^verbatim>\<open>throw\<close> and without \<^verbatim>\<open>ensureReady\<close>. When
  the upper-cased token of the request (\<^verbatim>\<open>SOL\<close> when the request names none) is no key of
  the adapter's table, the result of each of the three adapters has fee 0, latency 0 and
  one warning that names the upper-cased token.
\<close>

theorem estimate_unsupported_token:
  "(toUpperCase (token_or_SOL (ereq_token request)) \<notin> fst ` set SHADOWWIRE_TOKENS \<longrightarrow>
      ShadowWire_estimate request =
        \<lparr>est_fee = 0, est_tokenFee = None, est_provider = SHADOWWIRE, est_latencyMs = 0,
         est_anonymitySet = None,
         est_warnings = [''Token '' @ toUpperCase (token_or_SOL (ereq_token request))
                           @ '' not supported by ShadowWire'']\<rparr>) \<and>
   (toUpperCase (token_or_SOL (ereq_token request)) \<notin> fst ` set CSPL_TOKENS \<longrightarrow>
      Arcium_estimate request =
        \<lparr>est_fee = 0, est_tokenFee = None, est_provider = ARCIUM, est_latencyMs = 0,
         est_anonymitySet = None,
         est_warnings = [''Token '' @ toUpperCase (token_or_SOL (ereq_token request))
                           @ '' not supported by Arcium'']\<rparr>) \<and>
   (toUpperCase (token_or_SOL (ereq_token request)) \<notin> fst ` set POOL_CONFIGS \<longrightarrow>
      PrivacyCash_estimate request =
        \<lparr>est_fee = 0, est_tokenFee = None, est_provider = PRIVACY_CASH, est_latencyMs = 0,
         est_anonymitySet = None,
         est_warnings = [''Token '' @ toUpperCase (token_or_SOL (ereq_token request))
                           @ '' not supported by Privacy Cash'']\<rparr>)"
proof (intro conjI impI)
  assume "toUpperCase (token_or_SOL (ereq_token request)) \<notin> fst ` set SHADOWWIRE_TOKENS"
  then have "map_of SHADOWWIRE_TOKENS (toUpperCase (token_or_SOL (ereq_token request))) = None"
    by (simp add: map_of_eq_None_iff)
  then show "ShadowWire_estimate request =
        \<lparr>est_fee = 0, est_tokenFee = None, est_provider = SHADOWWIRE, est_latencyMs = 0,
         est_anonymitySet = None,
         est_warnings = [''Token '' @ toUpperCase (token_or_SOL (ereq_token request))
                           @ '' not supported by ShadowWire'']\<rparr>"
    by (simp add: ShadowWire_estimate_def Let_def)
next
  assume "toUpperCase (token_or_SOL (ereq_token request)) \<notin> fst ` set CSPL_TOKENS"
  then have "map_of CSPL_TOKENS (toUpperCase (token_or_SOL (ereq_token request))) = None"
    by (simp add: map_of_eq_None_iff)
  then show "Arcium_estimate request =
        \<lparr>est_fee = 0, est_tokenFee = None, est_provider = ARCIUM, est_latencyMs = 0,
         est_anonymitySet = None,
         est_warnings = [''Token '' @ toUpperCase (token_or_SOL (ereq_token request))
                           @ '' not supported by Arcium'']\<rparr>"
    by (simp add: Arcium_estimate_def Let_def)
next
  assume "toUpperCase (token_or_SOL (ereq_token request)) \<notin> fst ` set POOL_CONFIGS"
  then have "map_of POOL_CONFIGS (toUpperCase (token_or_SOL (ereq_token request))) = None"
    by (simp add: map_of_eq_None_iff)
  then show "PrivacyCash_estimate request =
        \<lparr>est_fee = 0, est_tokenFee = None, est_provider = PRIVACY_CASH, est_latencyMs = 0,
         est_anonymitySet = None,
         est_warnings = [''Token '' @ toUpperCase (token_or_SOL (ereq_token request))
                           @ '' not supported by Privacy Cash'']\<rparr>"
    by (simp add: PrivacyCash_estimate_def Let_def)
qed

theorem estimate_unsupported_token_witness:
  "ShadowWire_estimate demo_estimate_request =
     \<lparr>est_fee = 0, est_tokenFee = None, est_provider = SHADOWWIRE, est_latencyMs = 0,
      est_anonymitySet = None, est_warnings = [''Token DOGE not supported by ShadowWire'']\<rparr> \<and>
   Arcium_estimate demo_estimate_request =
     \<lparr>est_fee = 0, est_tokenFee = None, est_provider = ARCIUM, est_latencyMs = 0,
      est_anonymitySet = None, est_warnings = [''Token DOGE not supported by Arcium'']\<rparr> \<and>
   PrivacyCash_estimate demo_estimate_request =
     \<lparr>est_fee = 0, est_tokenFee = None, est_provider = PRIVACY_CASH, est_latencyMs = 0,
      est_anonymitySet = None, est_warnings = [''Token DOGE not supported by Privacy Cash'']\<rparr>"
proof -
  have u: "toUpperCase (token_or_SOL (ereq_token demo_estimate_request)) = ''DOGE''"
    by (simp add: demo_estimate_request_def token_or_SOL_def toUpperCase_def upper_char_def)
  have a: "''DOGE'' \<notin> fst ` set SHADOWWIRE_TOKENS" by (simp add: SHADOWWIRE_TOKENS_def)
  have b: "''DOGE'' \<notin> fst ` set CSPL_TOKENS" by (simp add: CSPL_TOKENS_def)
  have c: "''DOGE'' \<notin> fst ` set POOL_CONFIGS" by (simp add: POOL_CONFIGS_def)
  from estimate_unsupported_token [of demo_estimate_request] a b c
  show ?thesis by (simp add: u)
qed

section \<open>Minimum amounts\<close>

lemma ensureReady_ready: "initialized st \<Longrightarrow> bind (ensureReady p) f st = f () st"
  by (simp add: ensureReady_def bind_def ok_def)

lemma ensureWallet_connected: "wallet st = Some w \<Longrightarrow> bind ensureWallet f st = f w st"
  by (simp add: ensureWallet_def bind_def ok_def)

lemma bind_throw: "bind (throw e) f st = (Inl e, st)"
  by (simp add: bind_def throw_def)

lemma bind_ok: "bind (ok a) f st = f a st"
  by (simp add: bind_def ok_def)

lemma bind_failed: "m st = (Inl e, st') \<Longrightarrow> bind m f st = (Inl e, st')"
  by (simp add: bind_def)

lemma bind_returned: "m st = (Inr a, st') \<Longrightarrow> bind m f st = f a st'"
  by (simp add: bind_def)

lemma ShadowWire_transfer_below_minimum:
  assumes "initialized st" and "wallet st = Some w"
    and "map_of SHADOWWIRE_TOKENS (toUpperCase (req_token request)) = Some cfg"
    and "req_amount request < minAmount cfg"
  shows "ShadowWire_transfer env request st =
           (Inl (AmountBelowMinimumError (req_amount request) (minAmount cfg)
                   (toUpperCase (req_token request)) SHADOWWIRE), st)"
  using assms
  by (simp add: ShadowWire_transfer_def ensureReady_ready ensureWallet_connected Let_def throw_def)

lemma ShadowWire_deposit_below_minimum:
  assumes "initialized st" and "wallet st = Some w"
    and "map_of SHADOWWIRE_TOKENS (toUpperCase (dreq_token request)) = Some cfg"
    and "dreq_amount request < minAmount cfg"
  shows "ShadowWire_deposit env request st =
           (Inl (AmountBelowMinimumError (dreq_amount request) (minAmount cfg)
                   (toUpperCase (dreq_token request)) SHADOWWIRE), st)"
  using assms
  by (simp add: ShadowWire_deposit_def ensureReady_ready ensureWallet_connected Let_def throw_def)

lemma PrivacyCash_deposit_below_minimum:
  assumes "initialized st" and "wallet st = Some w"
    and "map_of POOL_CONFIGS (toUpperCase (dreq_token request)) = Some pool"
    and "dreq_amount request < minDeposit pool"
  shows "PrivacyCash_deposit env request st =
           (Inl (AmountBelowMinimumError (dreq_amount request) (minDeposit pool)
                   (toUpperCase (dreq_token request)) PRIVACY_CASH), st)"
  using assms
  by (simp add: PrivacyCash_deposit_def ensureReady_ready ensureWallet_connected Let_def throw_def)

lemma PrivacyCash_transfer_below_minimum:
  assumes "initialized st" and "wallet st = Some w"
    and "map_of POOL_CONFIGS (toUpperCase (req_token request)) = Some pool"
    and "req_amount request < minDeposit pool"
  shows "PrivacyCash_transfer env request st =
           (Inl (AmountBelowMinimumError (req_amount request) (minDeposit pool)
                   (toUpperCase (req_token request)) PRIVACY_CASH), st)"
proof -
  have "PrivacyCash_deposit env
          \<lparr>dreq_amount = req_amount request, dreq_token = req_token request\<rparr> st =
        (Inl (AmountBelowMinimumError (req_amount request) (minDeposit pool)
                (toUpperCase (req_token request)) PRIVACY_CASH), st)"
    using PrivacyCash_deposit_below_minimum [of st w
        "\<lparr>dreq_amount = req_amount request, dreq_token = req_token request\<rparr>" pool env] assms
    by simp
  then show ?thesis
    using assms(1) by (simp add: PrivacyCash_transfer_def ensureReady_ready bind_failed)
qed

lemma toUpperCase_sol: "toUpperCase ''sol'' = ''SOL''" "toUpperCase ''SOL'' = ''SOL''"
  by (simp_all add: toUpperCase_def upper_char_def)

text \<open>
  The operations that compare the amount with the minimum of the token. A transfer or a
  deposit of the ShadowWire adapter, and a deposit or a transfer of the Privacy Cash
  adapter, on a ready adapter with a wallet and a supported token, with an amount strictly
  below the minimum of the token, throws \<^verbatim>\<open>AmountBelowMinimumError\<close> with the amount, the
  minimum and the upper-cased token, and leaves the state as it was: nothing was signed,
  nothing was sent.
\<close>

lemma below_minimum_fails_before_signing:
  fixes sw :: "'w ShadowWireAdapter" and pc :: "'w PrivacyCashAdapter"
  shows
    "(initialized sw \<and> wallet sw = Some w
        \<and> map_of SHADOWWIRE_TOKENS (toUpperCase (req_token transfer_request)) = Some cfg
        \<and> req_amount transfer_request < minAmount cfg
      \<longrightarrow> ShadowWire_transfer env transfer_request sw =
            (Inl (AmountBelowMinimumError (req_amount transfer_request) (minAmount cfg)
                    (toUpperCase (req_token transfer_request)) SHADOWWIRE), sw))
     \<and> (initialized sw \<and> wallet sw = Some w
        \<and> map_of SHADOWWIRE_TOKENS (toUpperCase (dreq_token deposit_request)) = Some cfg'
        \<and> dreq_amount deposit_request < minAmount cfg'
      \<longrightarrow> ShadowWire_deposit env deposit_request sw =
            (Inl (AmountBelowMinimumError (dreq_amount deposit_request) (minAmount cfg')
                    (toUpperCase (dreq_token deposit_request)) SHADOWWIRE), sw))
     \<and> (initialized pc \<and> wallet pc = Some w'
        \<and> map_of POOL_CONFIGS (toUpperCase (dreq_token deposit_request)) = Some pool
        \<and> dreq_amount deposit_request < minDeposit pool
      \<longrightarrow> PrivacyCash_deposit env deposit_request pc =
            (Inl (AmountBelowMinimumError (dreq_amount deposit_request) (minDeposit pool)
                    (toUpperCase (dreq_token deposit_request)) PRIVACY_CASH), pc))
     \<and> (initialized pc \<and> wallet pc = Some w'
        \<and> map_of POOL_CONFIGS (toUpperCase (req_token transfer_request)) = Some pool'
        \<and> req_amount transfer_request < minDeposit pool'
      \<longrightarrow> PrivacyCash_transfer env transfer_request pc =
            (Inl (AmountBelowMinimumError (req_amount transfer_request) (minDeposit pool')
                    (toUpperCase (req_token transfer_request)) PRIVACY_CASH), pc))"
  using ShadowWire_transfer_below_minimum [of sw w transfer_request cfg env]
    ShadowWire_deposit_below_minimum [of sw w deposit_request cfg' env]
    PrivacyCash_deposit_below_minimum [of pc w' deposit_request pool env]
    PrivacyCash_transfer_below_minimum [of pc w' transfer_request pool' env]
  by blast

text \<open>
  C3. \<^verbatim>\<open>ShadowWireAdapter.withdraw\<close> does not compare the amount with the minimum of the
  token, where \<^verbatim>\<open>transfer\<close> and \<^verbatim>\<open>deposit\<close> of the same adapter do. On the same ready
  adapter, with 0.001 SOL, below the minimum of 0.01 SOL: the transfer and the deposit
  throw \<^verbatim>\<open>AmountBelowMinimumError\<close> and leave the state as it was, and the withdrawal signs
  its message, posts the request and returns.
\<close>

theorem withdraw_below_minimum_is_signed:
  "map_of SHADOWWIRE_TOKENS (toUpperCase (wreq_token small_withdraw)) =
     Some \<lparr>token_decimals = 9, token_fee = 0.005, minAmount = 0.01\<rparr>
   \<and> wreq_amount small_withdraw < 0.01
   \<and> ShadowWire_transfer demo_env small_transfer demo_wire =
       (Inl (AmountBelowMinimumError 0.001 0.01 ''SOL'' SHADOWWIRE), demo_wire)
   \<and> ShadowWire_deposit demo_env small_deposit demo_wire =
       (Inl (AmountBelowMinimumError 0.001 0.01 ''SOL'' SHADOWWIRE), demo_wire)
   \<and> fst (ShadowWire_withdraw demo_env small_withdraw demo_wire) =
       Inr \<lparr>wres_signature = ''tx-1'', wres_provider = SHADOWWIRE,
            wres_fee = Finite (0.001 * 0.005)\<rparr>
   \<and> trace (snd (ShadowWire_withdraw demo_env small_withdraw demo_wire)) =
       [SignMessage (utf8_encode (JSON_stringify (JObject
          [(''action'', JStr ''withdraw''), (''wallet'', JStr ''alice''),
           (''recipient'', JStr ''bob''), (''amount'', JNum 0.001), (''token'', JStr ''SOL''),
           (''timestamp'', JNum 1700000000000)]))),
        Fetch \<lparr>http_method = ''POST'', http_url = ''https://api.radr.fun/v1/withdraw'',
               http_body = Some
                 [(''wallet'', JStr ''alice''), (''recipient'', JStr ''bob''),
                  (''amount'', JStr (int_to_string 1000000)), (''token'', JStr ''SOL''),
                  (''timestamp'', JNum 1700000000000),
                  (''signature'', JStr (base64_encode [1, 2, 3]))]\<rparr>]"
proof -
  have cfg: "map_of SHADOWWIRE_TOKENS (toUpperCase ''sol'') =
               Some \<lparr>token_decimals = 9, token_fee = 0.005, minAmount = 0.01\<rparr>"
    by (simp add: toUpperCase_sol SHADOWWIRE_TOKENS_def)
  have t: "ShadowWire_transfer demo_env small_transfer demo_wire =
       (Inl (AmountBelowMinimumError 0.001 0.01 ''SOL'' SHADOWWIRE), demo_wire)"
    using ShadowWire_transfer_below_minimum
      [of demo_wire "PublicKey ''alice''" small_transfer
        "\<lparr>token_decimals = 9, token_fee = 0.005, minAmount = 0.01\<rparr>" demo_env] cfg
    by (simp add: demo_wire_def small_transfer_def toUpperCase_sol)
  have d: "ShadowWire_deposit demo_env small_deposit demo_wire =
       (Inl (AmountBelowMinimumError 0.001 0.01 ''SOL'' SHADOWWIRE), demo_wire)"
    using ShadowWire_deposit_below_minimum
      [of demo_wire "PublicKey ''alice''" small_deposit
        "\<lparr>token_decimals = 9, token_fee = 0.005, minAmount = 0.01\<rparr>" demo_env] cfg
    by (simp add: demo_wire_def small_deposit_def toUpperCase_sol)
  have w: "map_of SHADOWWIRE_TOKENS (toUpperCase (wreq_token small_withdraw)) =
     Some \<lparr>token_decimals = 9, token_fee = 0.005, minAmount = 0.01\<rparr>
   \<and> wreq_amount small_withdraw < 0.01
   \<and> fst (ShadowWire_withdraw demo_env small_withdraw demo_wire) =
       Inr \<lparr>wres_signature = ''tx-1'', wres_provider = SHADOWWIRE,
            wres_fee = Finite (0.001 * 0.005)\<rparr>
   \<and> trace (snd (ShadowWire_withdraw demo_env small_withdraw demo_wire)) =
       [SignMessage (utf8_encode (JSON_stringify (JObject
          [(''action'', JStr ''withdraw''), (''wallet'', JStr ''alice''),
           (''recipient'', JStr ''bob''), (''amount'', JNum 0.001), (''token'', JStr ''SOL''),
           (''timestamp'', JNum 1700000000000)]))),
        Fetch \<lparr>http_method = ''POST'', http_url = ''https://api.radr.fun/v1/withdraw'',
               http_body = Some
                 [(''wallet'', JStr ''alice''), (''recipient'', JStr ''bob''),
                  (''amount'', JStr (int_to_string 1000000)), (''token'', JStr ''SOL''),
                  (''timestamp'', JNum 1700000000000),
                  (''signature'', JStr (base64_encode [1, 2, 3]))]\<rparr>]"
  by (simp add: ShadowWire_withdraw_def small_withdraw_def demo_wire_def demo_env_def
      toUpperCase_sol SHADOWWIRE_TOKENS_def ensureReady_def ensureWallet_def bind_def ok_def
      throw_def try_catch_def read_world_def signMessage_def call_world_def lift_external_def
      retry_action_def retry_def retry_loop.simps default_retry_options_def pool_attempt_def
      of_result_def fetch_def address_string_def Let_def)
  from t d w show ?thesis by (simp only: simp_thms)
qed

section \<open>Withdraw and the local notes\<close>

text \<open>
  The local state of the Privacy Cash adapter: everything but the world and the trace.
\<close>

definition local_state ::
  "'w PrivacyCashAdapter \<Rightarrow> bool \<times> PublicKey option \<times> PublicKey \<times> (string \<times> DepositNote) list" where
  "local_state st = (initialized st, wallet st, adapter_programId st, depositNotes st)"

text \<open>An action that leaves the local state alone and only adds to the trace.\<close>

definition keeps_local :: "('w PrivacyCashAdapter, 'a) action \<Rightarrow> bool" where
  "keeps_local m =
     (\<forall>st r st'. m st = (r, st')
        \<longrightarrow> local_state st' = local_state st \<and> (\<exists>evs. trace st' = trace st @ evs))"

lemma keeps_localD:
  "keeps_local m \<Longrightarrow> m st = (r, st')
     \<Longrightarrow> local_state st' = local_state st \<and> (\<exists>evs. trace st' = trace st @ evs)"
  unfolding keeps_local_def by blast

lemma bind_Inr_E:
  "bind m f st = (Inr b, st') \<Longrightarrow> \<exists>a st1. m st = (Inr a, st1) \<and> f a st1 = (Inr b, st')"
  by (auto simp: bind_def split: prod.splits sum.splits)


lemma keeps_ok [simp]: "keeps_local (ok a)"
  by (simp add: keeps_local_def ok_def)

lemma keeps_throw [simp]: "keeps_local (throw e)"
  by (simp add: keeps_local_def throw_def)

lemma keeps_of_result [simp]: "keeps_local (of_result r)"
  by (simp add: keeps_local_def of_result_def)

lemma keeps_call_world [simp]: "keeps_local (call_world evs f)"
  by (auto simp: keeps_local_def call_world_def local_state_def split: prod.splits)

lemma keeps_read_world [simp]: "keeps_local (read_world f)"
  by (auto simp: keeps_local_def read_world_def local_state_def split: prod.splits)

lemma keeps_bind:
  assumes m: "keeps_local m" and f: "\<And>a. keeps_local (f a)"
  shows "keeps_local (bind m f)"
  unfolding keeps_local_def
proof (intro allI impI)
  fix st r st'
  assume run: "bind m f st = (r, st')"
  obtain r1 s1 where m1: "m st = (r1, s1)" by (cases "m st")
  from keeps_localD [OF m m1] obtain evs
    where l1: "local_state s1 = local_state st" and t1: "trace s1 = trace st @ evs" by blast
  show "local_state st' = local_state st \<and> (\<exists>evs. trace st' = trace st @ evs)"
  proof (cases r1)
    case (Inl e)
    with run m1 have "st' = s1" by (simp add: bind_def)
    with l1 t1 show ?thesis by blast
  next
    case (Inr a)
    with run m1 have "f a s1 = (r, st')" by (simp add: bind_def)
    from keeps_localD [OF f this] obtain evs'
      where "local_state st' = local_state s1" and "trace st' = trace s1 @ evs'" by blast
    with l1 t1 show ?thesis by simp
  qed
qed

lemma keeps_try_catch:
  assumes m: "keeps_local m" and h: "\<And>e. keeps_local (h e)"
  shows "keeps_local (try_catch m h)"
  unfolding keeps_local_def
proof (intro allI impI)
  fix st r st'
  assume run: "try_catch m h st = (r, st')"
  obtain r1 s1 where m1: "m st = (r1, s1)" by (cases "m st")
  from keeps_localD [OF m m1] obtain evs
    where l1: "local_state s1 = local_state st" and t1: "trace s1 = trace st @ evs" by blast
  show "local_state st' = local_state st \<and> (\<exists>evs. trace st' = trace st @ evs)"
  proof (cases r1)
    case (Inr a)
    with run m1 have "st' = s1" by (simp add: try_catch_def)
    with l1 t1 show ?thesis by blast
  next
    case (Inl e)
    with run m1 have "h e s1 = (r, st')" by (simp add: try_catch_def)
    from keeps_localD [OF h this] obtain evs'
      where "local_state st' = local_state s1" and "trace st' = trace s1 @ evs'" by blast
    with l1 t1 show ?thesis by simp
  qed
qed

lemma keeps_randomBytes [simp]: "keeps_local (randomBytes env n)"
  by (induction n) (auto intro!: keeps_bind)

lemma keeps_placeholder_path [simp]: "keeps_local (placeholder_path env n)"
  by (induction n) (auto intro!: keeps_bind split: prod.splits)

lemma keeps_getMerkleProof [simp]: "keeps_local (getMerkleProof env com tok)"
  unfolding getMerkleProof_def fetch_proof_def
  by (auto intro!: keeps_bind keeps_try_catch split: option.splits prod.splits)


lemma keeps_chain [simp]:
  "keeps_local (getLatestBlockhash env)" "keeps_local (signTransaction env tx)"
  "keeps_local (sendRawTransaction env raw)" "keeps_local (confirmTransaction env sig bh)"
  by (simp_all add: getLatestBlockhash_def signTransaction_def sendRawTransaction_def
      confirmTransaction_def)


text \<open>The Merkle proof is always obtained: a fetch that fails is replaced.\<close>

lemma read_world_returns: "\<exists>a st'. read_world f st = (Inr a, st')"
  by (simp add: read_world_def split: prod.splits)

lemma randomBytes_returns: "\<exists>bs st'. randomBytes env n st = (Inr bs, st')"
proof (induction n arbitrary: st)
  case 0
  show ?case by (simp add: ok_def)
next
  case (Suc n)
  obtain b s1 where b: "read_world (randomByte env) st = (Inr b, s1)"
    using read_world_returns [of "randomByte env" st] by blast
  from Suc [of s1] obtain bs s2 where "randomBytes env n s1 = (Inr bs, s2)" by blast
  with b show ?case by (simp add: bind_def ok_def)
qed

lemma placeholder_path_returns: "\<exists>p st'. placeholder_path env n st = (Inr p, st')"
proof (induction n arbitrary: st)
  case 0
  show ?case by (simp add: ok_def)
next
  case (Suc n)
  obtain b s1 where b: "randomBytes env 32 st = (Inr b, s1)"
    using randomBytes_returns [of env 32 st] by blast
  obtain r s2 where r: "read_world (mathRandom env) s1 = (Inr r, s2)"
    using read_world_returns [of "mathRandom env" s1] by blast
  from Suc [of s2] obtain p s3 where "placeholder_path env n s2 = (Inr p, s3)" by blast
  with b r show ?case by (cases p) (simp add: bind_def ok_def)
qed

lemma getMerkleProof_returns: "\<exists>merkleProof st'. getMerkleProof env com tok st = (Inr merkleProof, st')"
proof -
  let ?attempt = "try_catch
             (bind (of_result (case com of None \<Rightarrow> Inl TypeError | Some c \<Rightarrow> Inr c)) (\<lambda>c.
              bind (fetch_proof env
                      \<lparr>http_method = ''GET'',
                       http_url = privacycash_apiBaseUrl @ ''/v1/proof/'' @ tok @ ''/'' @ c,
                       http_body = None\<rparr>) (\<lambda>response.
                if resp_ok response then
                  (case resp_json response of None \<Rightarrow> throw SyntaxError | Some p \<Rightarrow> ok (Some p))
                else ok None)))
             (\<lambda>_. ok None)"
  have "\<exists>fetched s1. ?attempt st = (Inr fetched, s1)"
    by (auto simp: try_catch_def ok_def split: prod.splits sum.splits)
  then obtain fetched s1 where f: "?attempt st = (Inr fetched, s1)" by blast
  show ?thesis
  proof (cases fetched)
    case (Some p)
    with f show ?thesis by (simp add: getMerkleProof_def bind_def ok_def)
  next
    case None
    obtain p s2 where p: "placeholder_path env 20 s1 = (Inr p, s2)"
      using placeholder_path_returns [of env 20 s1] by blast
    obtain r s3 where r: "randomBytes env 32 s2 = (Inr r, s3)"
      using randomBytes_returns [of env 32 s2] by blast
    from f None p r show ?thesis
      by (cases p) (simp add: getMerkleProof_def bind_def ok_def)
  qed
qed






lemma of_result_Inr_ok: "of_result (Inr x) = ok x"
  by (rule ext) (simp add: of_result_def ok_def)

lemma withdraw_try_with_fee:
  assumes "js_number (raw_amount note) = Some a"
  shows "withdraw_try env note tok poolConfig recipient walletKey =
     bind (getMerkleProof env (js_string (raw_commitment note)) tok) (\<lambda>merkleProof.
     bind (generateWithdrawalProof env note merkleProof recipient) (\<lambda>zkProof.
     bind (\<lambda>st. of_result
                  (case raw_nullifier note of
                     Some (JStr nul) \<Rightarrow>
                       createWithdrawInstruction env (adapter_programId st) recipient nul
                         (root merkleProof) zkProof poolConfig
                   | _ \<Rightarrow> Inl TypeError) st) (\<lambda>withdrawInstruction.
     bind (getLatestBlockhash env) (\<lambda>bh.
     bind (signTransaction env \<lparr>instructions = [withdrawInstruction],
                                recentBlockhash = blockhash bh, feePayer = walletKey\<rparr>) (\<lambda>signedTx.
     bind (sendRawTransaction env signedTx) (\<lambda>signature.
     bind (confirmTransaction env signature bh) (\<lambda>_.
     bind (\<lambda>st. ok () (st\<lparr>depositNotes := delete_note (raw_commitment note) (depositNotes st)\<rparr>)) (\<lambda>_.
       ok \<lparr>wres_signature = signature, wres_provider = PRIVACY_CASH,
           wres_fee = js_times (Finite 0.005) a\<rparr>))))))))"
  by (simp add: withdraw_try_def Let_def assms of_result_Inr_ok)









lemma ensureReady_Inr: "ensureReady p st = (Inr a, st') \<Longrightarrow> st' = st \<and> initialized st"
  by (auto simp: ensureReady_def ok_def throw_def split: if_splits)

lemma ensureWallet_Inr: "ensureWallet st = (Inr w, st') \<Longrightarrow> st' = st \<and> wallet st = Some w"
  by (auto simp: ensureWallet_def ok_def throw_def split: option.splits)

lemma try_catch_rethrow_Inr:
  "try_catch m (\<lambda>e. throw (g e)) st = (Inr a, st') \<Longrightarrow> m st = (Inr a, st')"
  by (auto simp: try_catch_def throw_def split: prod.splits sum.splits)







section \<open>The encoded note\<close>

subsection \<open>base64\<close>

lemma lt64_cases:
  "d < 64 \<Longrightarrow> d = 0 \<or> d = 1 \<or> d = 2 \<or> d = 3 \<or> d = 4 \<or> d = 5 \<or> d = 6 \<or> d = 7
     \<or> d = 8 \<or> d = 9 \<or> d = 10 \<or> d = 11 \<or> d = 12 \<or> d = 13 \<or> d = 14
     \<or> d = 15 \<or> d = 16 \<or> d = 17 \<or> d = 18 \<or> d = 19 \<or> d = 20 \<or> d = 21
     \<or> d = 22 \<or> d = 23 \<or> d = 24 \<or> d = 25 \<or> d = 26 \<or> d = 27 \<or> d = 28
     \<or> d = 29 \<or> d = 30 \<or> d = 31 \<or> d = 32 \<or> d = 33 \<or> d = 34 \<or> d = 35
     \<or> d = 36 \<or> d = 37 \<or> d = 38 \<or> d = 39 \<or> d = 40 \<or> d = 41 \<or> d = 42
     \<or> d = 43 \<or> d = 44 \<or> d = 45 \<or> d = 46 \<or> d = 47 \<or> d = 48 \<or> d = 49
     \<or> d = 50 \<or> d = 51 \<or> d = 52 \<or> d = 53 \<or> d = 54 \<or> d = 55 \<or> d = 56
     \<or> d = 57 \<or> d = 58 \<or> d = 59 \<or> d = 60 \<or> d = 61 \<or> d = 62 \<or> d =
     (63::nat)"
  by arith

lemma unbase64_sextet:
  assumes "n < 64"
  shows "unbase64 (base64_char n) = Some n" and "base64_char n \<noteq> CHR ''=''"
  using lt64_cases [OF assms]
  by (auto simp: base64_char_def base64_alphabet_def unbase64_def)

lemma sextet_bounds:
  fixes x y z :: nat
  assumes "x < 256" "y < 256" "z < 256"
  shows "x div 4 < 64" "x mod 4 * 16 + y div 16 < 64" "y mod 16 * 4 + z div 64 < 64"
    "z mod 64 < 64" "x mod 4 * 16 < 64" "y mod 16 * 4 < 64"
  using assms by auto

lemma sextet_values:
  fixes x y z :: nat
  assumes "x < 256" "y < 256" "z < 256"
  shows "x div 4 * 4 + (x mod 4 * 16 + y div 16) div 16 = x"
    "(x mod 4 * 16 + y div 16) mod 16 * 16 + (y mod 16 * 4 + z div 64) div 4 = y"
    "(y mod 16 * 4 + z div 64) mod 4 * 64 + z mod 64 = z"
    "x div 4 * 4 + (x mod 4 * 16) div 16 = x"
    "(x mod 4 * 16 + y div 16) mod 16 * 16 + (y mod 16 * 4) div 4 = y"
proof -
  from assms have y16: "y div 16 < 16" and z64: "z div 64 < 4" by auto
  show "x div 4 * 4 + (x mod 4 * 16 + y div 16) div 16 = x" using y16 by simp
  show "(x mod 4 * 16 + y div 16) mod 16 * 16 + (y mod 16 * 4 + z div 64) div 4 = y"
    using y16 z64 by simp
  show "(y mod 16 * 4 + z div 64) mod 4 * 64 + z mod 64 = z" using z64 by simp
  show "x div 4 * 4 + (x mod 4 * 16) div 16 = x" by simp
  show "(x mod 4 * 16 + y div 16) mod 16 * 16 + (y mod 16 * 4) div 4 = y" using y16 by simp
qed

text \<open>The sextets that the decoder reads from the characters of the encoder.\<close>

definition sextets :: "string \<Rightarrow> nat list" where
  "sextets s = List.map_filter unbase64 (takeWhile (\<lambda>c. c \<noteq> CHR ''='') s)"

lemma sextets_Cons: "n < 64 \<Longrightarrow> sextets (base64_char n # s) = n # sextets s"
  by (simp add: sextets_def List.map_filter_simps unbase64_sextet)

lemma sextets_padding [simp]: "sextets (CHR ''='' # s) = []" "sextets [] = []"
  by (simp_all add: sextets_def List.map_filter_simps)

lemma of_nat_unat_byte: "of_nat (unat (a :: byte)) = a"
  by simp

lemma base64_decode_encode: "base64_decode (base64_encode bs) = bs"
proof -
  have "decode_sextets (sextets (base64_encode bs)) = bs"
  proof (induction bs rule: base64_encode.induct)
    case 1
    show ?case by simp
  next
    case (2 a)
    note bd = sextet_bounds [OF unat_byte_lt [of a] unat_byte_lt [of a] unat_byte_lt [of a]]
    note v = sextet_values [OF unat_byte_lt [of a] unat_byte_lt [of a] unat_byte_lt [of a]]
    have "sextets (base64_encode [a]) = [unat a div 4, unat a mod 4 * 16]"
      by (simp add: sextets_Cons bd)
    then show ?case
      by (simp only: decode_sextets.simps v of_nat_unat_byte)
  next
    case (3 a b)
    note bd = sextet_bounds [OF unat_byte_lt [of a] unat_byte_lt [of b] unat_byte_lt [of b]]
    note v = sextet_values [OF unat_byte_lt [of a] unat_byte_lt [of b] unat_byte_lt [of b]]
    have "sextets (base64_encode [a, b]) =
            [unat a div 4, unat a mod 4 * 16 + unat b div 16, unat b mod 16 * 4]"
      by (simp add: sextets_Cons bd)
    then show ?case
      by (simp only: decode_sextets.simps v of_nat_unat_byte)
  next
    case (4 a b c rest)
    note bd = sextet_bounds [OF unat_byte_lt [of a] unat_byte_lt [of b] unat_byte_lt [of c]]
    note v = sextet_values [OF unat_byte_lt [of a] unat_byte_lt [of b] unat_byte_lt [of c]]
    have "sextets (base64_encode (a # b # c # rest)) =
            unat a div 4 # (unat a mod 4 * 16 + unat b div 16)
              # (unat b mod 16 * 4 + unat c div 64) # unat c mod 64
              # sextets (base64_encode rest)"
      by (simp add: sextets_Cons bd)
    then show ?case
      by (simp only: decode_sextets.simps v of_nat_unat_byte 4 append_Cons append_Nil)
  qed
  then show ?thesis by (simp add: base64_decode_def sextets_def)
qed

subsection \<open>JSON: strings\<close>

lemma char_eq_code: "c = d \<longleftrightarrow> (of_char c :: nat) = of_char d"
  by (simp add: of_char_eq_iff)

lemma lex_silent: "lex_step m c = Some ([], m') \<Longrightarrow> lex m (c # cs) = lex m' cs"
  by (cases "lex m' cs") simp_all

lemma lex_emit:
  "lex_step m c = Some ([t], m') \<Longrightarrow> lex m (c # cs) = map_option ((#) t) (lex m' cs)"
  by (cases "lex m' cs") simp_all

text \<open>The lexer, inside a string, reads the escape of a character as that character.\<close>

lemma lex_step_control:
  assumes "n < 32"
  shows "lex (InString acc) ([backslash, CHR ''u'', CHR ''0'', CHR ''0'', hex_digit (n div 16),
            hex_digit (n mod 16)] @ rest) = lex (InString (acc @ [char_of n])) rest"
proof -
  from assms have d: "n div 16 < 16" "n mod 16 < 16" by simp_all
  have h: "is_hex (hex_digit (n div 16))" "is_hex (hex_digit (n mod 16))"
    by (simp_all add: is_hex_def hex_val_hex_digit d)
  have "hex_val CHR ''0'' = Some 0" by (simp add: hex_val_def)
  then have v: "hex_value 0 [CHR ''0'', CHR ''0'', hex_digit (n div 16), hex_digit (n mod 16)] = n"
    by (simp add: hex_val_hex_digit d)
  have z: "is_hex CHR ''0''" by (simp add: is_hex_def hex_val_def)
  have "lex (InString acc) ([backslash, CHR ''u'', CHR ''0'', CHR ''0'', hex_digit (n div 16),
            hex_digit (n mod 16)] @ rest) =
        lex (InEscape acc) ([CHR ''u'', CHR ''0'', CHR ''0'', hex_digit (n div 16),
            hex_digit (n mod 16)] @ rest)"
    by (simp add: lex_silent backslash_def dquote_def del: lex.simps)
  also have "\<dots> = lex (InUnicode acc []) ([CHR ''0'', CHR ''0'', hex_digit (n div 16),
            hex_digit (n mod 16)] @ rest)"
    by (simp add: lex_silent del: lex.simps)
  also have "\<dots> = lex (InUnicode acc ''00'') ([hex_digit (n div 16), hex_digit (n mod 16)] @ rest)"
    by (simp add: lex_silent z del: lex.simps)
  also have "\<dots> = lex (InUnicode acc [CHR ''0'', CHR ''0'', hex_digit (n div 16)])
                     (hex_digit (n mod 16) # rest)"
    by (simp add: lex_silent h del: lex.simps)
  also have "\<dots> = lex (InString (acc @ [char_of n])) rest"
  proof (rule lex_silent)
    from assms v h
    show "lex_step (InUnicode acc [CHR ''0'', CHR ''0'', hex_digit (n div 16)])
            (hex_digit (n mod 16)) = Some ([], InString (acc @ [char_of n]))"
      by (simp del: hex_value.simps)
  qed
  finally show ?thesis .
qed

lemma lex_json_escape:
  "lex (InString acc) (json_escape c @ rest) = lex (InString (acc @ [c])) rest"
proof -
  let ?n = "of_char c :: nat"
  have c: "char_of ?n = c" by simp
  consider (special) "?n \<in> {0x22, 0x5C, 8, 12, 10, 13, 9}"
    | (control) "?n \<notin> {0x22, 0x5C, 8, 12, 10, 13, 9}" "?n < 32"
    | (plain) "?n \<notin> {0x22, 0x5C, 8, 12, 10, 13, 9}" "\<not> ?n < 32"
    by blast
  then show ?thesis
  proof cases
    case special
    then have "c \<in> {CHR 0x22, CHR 0x5C, CHR 0x08, CHR 0x0C, CHR 0x0A, CHR 0x0D, CHR 0x09}"
      by (auto simp: char_eq_code)
    then show ?thesis
      by (auto simp: json_escape_def backslash_def dquote_def unescape_def Let_def lex_silent
          simp del: lex.simps)
  next
    case control
    then have "json_escape c = [backslash, CHR ''u'', CHR ''0'', CHR ''0'', hex_digit (?n div 16),
            hex_digit (?n mod 16)]"
      by (simp add: json_escape_def Let_def)
    with lex_step_control [OF control(2), of acc rest] c show ?thesis by simp
  next
    case plain
    then have e: "json_escape c = [c]" by (simp add: json_escape_def Let_def)
    from plain have "c \<noteq> dquote" "c \<noteq> backslash"
      by (auto simp: dquote_def backslash_def)
    with plain e show ?thesis by (simp add: lex_silent del: lex.simps)
  qed
qed

lemma lex_string_body:
  "lex (InString acc) (concat (map json_escape s) @ dquote # rest) =
     map_option ((#) (TString (acc @ s))) (lex Idle rest)"
proof (induction s arbitrary: acc)
  case Nil
  show ?case by (simp add: lex_emit del: lex.simps)
next
  case (Cons c s)
  have "lex (InString acc) (concat (map json_escape (c # s)) @ dquote # rest) =
        lex (InString acc) (json_escape c @ (concat (map json_escape s) @ dquote # rest))"
    by simp
  also have "\<dots> = lex (InString (acc @ [c])) (concat (map json_escape s) @ dquote # rest)"
    by (rule lex_json_escape)
  also have "\<dots> = map_option ((#) (TString ((acc @ [c]) @ s))) (lex Idle rest)"
    by (rule Cons.IH)
  finally show ?case by simp
qed

lemma lex_json_quote:
  "lex Idle (json_quote s @ rest) = map_option ((#) (TString s)) (lex Idle rest)"
proof -
  have "lex Idle (json_quote s @ rest) =
        lex (InString []) (concat (map json_escape s) @ dquote # rest)"
    by (simp add: json_quote_def idle_step_def is_json_whitespace_def dquote_def lex_silent
        del: lex.simps)
  then show ?thesis by (simp add: lex_string_body)
qed

lemma lex_punct:
  "c \<in> {CHR ''{'', CHR ''}'', CHR '':'', CHR '',''}
     \<Longrightarrow> lex Idle (c # rest) = map_option ((#) (TPunct c)) (lex Idle rest)"
  by (rule lex_emit) (auto simp: idle_step_def is_json_whitespace_def)

subsection \<open>JSON: numbers\<close>

lemma lt10_cases:
  "d < 10 \<Longrightarrow> d = 0 \<or> d = 1 \<or> d = 2 \<or> d = 3 \<or> d = 4 \<or> d = 5 \<or> d = 6 \<or> d = 7 \<or> d = 8
     \<or> d = (9::nat)"
  by arith

lemma digit_char_digit:
  assumes "d < 10"
  shows "is_digit (digit_char d)" and "digit_val (digit_char d) = d"
  using lt10_cases [OF assms] by (auto simp: digit_char_def is_digit_def digit_val_def)

lemma digit_char_zero: "d < 10 \<Longrightarrow> digit_char d = CHR ''0'' \<longleftrightarrow> d = 0"
  using lt10_cases [of d] by (auto simp: digit_char_def)

lemma nat_to_string_digits: "list_all is_digit (nat_to_string n) \<and> nat_to_string n \<noteq> []"
proof (induction n rule: nat_to_string.induct)
  case (1 n)
  show ?case
  proof (cases "n < 10")
    case True
    then show ?thesis by (simp add: nat_to_string.simps [of n] digit_char_digit)
  next
    case False
    with 1 show ?thesis by (simp add: nat_to_string.simps [of n] digit_char_digit)
  qed
qed

lemma frac_digits_digits: "0 \<le> f \<Longrightarrow> f < 1 \<Longrightarrow> list_all is_digit (frac_digits k f)"
proof (induction k arbitrary: f)
  case 0
  show ?case by simp
next
  case (Suc k)
  let ?d = "\<lfloor>f * 10\<rfloor>"
  from Suc.prems have d0: "0 \<le> ?d" by simp
  from floor_less_iff [of "f * 10" 10] Suc.prems have d10: "?d < 10" by simp
  have r: "0 \<le> f * 10 - of_int ?d" "f * 10 - of_int ?d < 1" by linarith+
  from d0 d10 have "nat ?d < 10" by linarith
  with Suc.IH [OF r] show ?case by (simp add: digit_char_digit)
qed

lemma is_digit_word_char: "is_digit c \<Longrightarrow> is_word_char c"
  by (simp add: is_digit_def is_word_char_def Let_def)

lemma digits_word_chars: "list_all is_digit s \<Longrightarrow> list_all is_word_char s"
  by (induction s) (simp_all add: is_digit_word_char)

lemma decimal_string_word: "list_all is_word_char (decimal_string x) \<and> decimal_string x \<noteq> []"
proof -
  have "0 \<le> x - of_int \<lfloor>x\<rfloor>" "x - of_int \<lfloor>x\<rfloor> < 1" by linarith+
  from frac_digits_digits [OF this, of 30] nat_to_string_digits [of "nat \<lfloor>x\<rfloor>"]
  show ?thesis
    by (simp add: decimal_string_def digits_word_chars) (simp add: is_word_char_def)
qed

lemma exponent_string_word: "list_all is_word_char (exponent_string x) \<and> exponent_string x \<noteq> []"
  using decimal_string_word nat_to_string_digits
  by (simp add: exponent_string_def Let_def digits_word_chars) (simp add: is_word_char_def)

lemma number_to_string_word:
  "list_all is_word_char (number_to_string x) \<and> number_to_string x \<noteq> []"
  using decimal_string_word exponent_string_word
  by (simp add: number_to_string_def positive_to_string_def) (simp add: is_word_char_def)

lemma lex_steps:
  "lex_step m c = Some (ts, m') \<Longrightarrow> lex m (c # cs) = map_option ((@) ts) (lex m' cs)"
  by (cases "lex m' cs") simp_all

lemma word_char_idle:
  "is_word_char c \<Longrightarrow> idle_step c = Some ([], InWord [c])"
  unfolding idle_step_def is_word_char_def is_json_whitespace_def dquote_def Let_def
  by (auto simp: char_eq_code)

lemma lex_in_word:
  assumes c: "c \<in> {CHR '','', CHR ''}''}"
  shows "list_all is_word_char w
     \<Longrightarrow> lex (InWord acc) (w @ c # rest) =
         map_option (\<lambda>ts. TWord (acc @ w) # TPunct c # ts) (lex Idle rest)"
proof (induction w arbitrary: acc)
  case Nil
  from c have "\<not> is_word_char c" "idle_step c = Some ([TPunct c], Idle)"
    by (auto simp: is_word_char_def idle_step_def is_json_whitespace_def)
  then have "lex_step (InWord acc) c = Some ([TWord acc, TPunct c], Idle)" by simp
  from lex_steps [OF this] show ?case by (cases "lex Idle rest") simp_all
next
  case (Cons d w)
  then have st: "lex_step (InWord acc) d = Some ([], InWord (acc @ [d]))"
    and w: "list_all is_word_char w" by simp_all
  have "lex (InWord acc) ((d # w) @ c # rest) = lex (InWord (acc @ [d])) (w @ c # rest)"
    using lex_silent [OF st] by (simp del: lex.simps)
  also have "\<dots> = map_option (\<lambda>ts. TWord ((acc @ [d]) @ w) # TPunct c # ts) (lex Idle rest)"
    by (rule Cons.IH [OF w])
  finally show ?case by simp
qed

lemma lex_word:
  assumes "c \<in> {CHR '','', CHR ''}''}" and "list_all is_word_char w" and "w \<noteq> []"
  shows "lex Idle (w @ c # rest) =
           map_option (\<lambda>ts. TWord w # TPunct c # ts) (lex Idle rest)"
proof -
  from assms obtain d w' where w: "w = d # w'" by (cases w) auto
  with assms have d: "is_word_char d" and w': "list_all is_word_char w'" by simp_all
  from word_char_idle [OF d] have "lex_step Idle d = Some ([], InWord [d])" by simp
  from lex_silent [OF this] have "lex Idle (w @ c # rest) = lex (InWord [d]) (w' @ c # rest)"
    by (simp add: w del: lex.simps)
  with lex_in_word [OF assms(1) w', of "[d]" rest] show ?thesis by (simp add: w)
qed

text \<open>A number that \<^verbatim>\<open>JSON.parse\<close> reads back from what \<^verbatim>\<open>JSON.stringify\<close> prints for it.\<close>

definition prints_exactly :: "number \<Rightarrow> bool" where
  "prints_exactly x = (parse_number (number_to_string x) = Some x)"

lemma word_to_json_number:
  assumes "prints_exactly x"
  shows "word_to_json (number_to_string x) = Some (JNum x)"
proof -
  have "parse_number ''null'' = None" "parse_number ''true'' = None"
    "parse_number ''false'' = None"
    by (simp_all add: parse_number_def is_digit_def)
  with assms have "number_to_string x \<noteq> ''null''" "number_to_string x \<noteq> ''true''"
    "number_to_string x \<noteq> ''false''"
    unfolding prints_exactly_def by auto
  with assms show ?thesis by (simp add: word_to_json_def prints_exactly_def)
qed

lemma lex_number:
  assumes "c \<in> {CHR '','', CHR ''}''}"
  shows "lex Idle (number_to_string x @ c # rest) =
           map_option (\<lambda>ts. TWord (number_to_string x) # TPunct c # ts) (lex Idle rest)"
  using lex_word [OF assms] number_to_string_word [of x] by simp

subsection \<open>JSON: the object of a note\<close>

lemma lex_note:
  "lex Idle (JSON_stringify (JObject
      [(''c'', JStr c), (''n'', JStr n), (''s'', JStr s), (''a'', JNum a), (''t'', JStr t),
       (''ts'', JNum ts)])) =
   Some [TPunct CHR ''{'',
         TString ''c'', TPunct CHR '':'', TString c, TPunct CHR '','',
         TString ''n'', TPunct CHR '':'', TString n, TPunct CHR '','',
         TString ''s'', TPunct CHR '':'', TString s, TPunct CHR '','',
         TString ''a'', TPunct CHR '':'', TWord (number_to_string a), TPunct CHR '','',
         TString ''t'', TPunct CHR '':'', TString t, TPunct CHR '','',
         TString ''ts'', TPunct CHR '':'', TWord (number_to_string ts), TPunct CHR ''}'']"
  by (simp add: lex_json_quote lex_punct lex_number del: lex.simps(2))

lemma JSON_parse_note:
  assumes "prints_exactly a" and "prints_exactly ts"
  shows "JSON_parse (JSON_stringify (JObject
      [(''c'', JStr c), (''n'', JStr n), (''s'', JStr s), (''a'', JNum a), (''t'', JStr t),
       (''ts'', JNum ts)])) =
    Some (JObject
      [(''c'', JStr c), (''n'', JStr n), (''s'', JStr s), (''a'', JNum a), (''t'', JStr t),
       (''ts'', JNum ts)])"
  unfolding JSON_parse_def lex_note
  by (simp add: parse_tokens_def word_to_json_number [OF assms(1)]
      word_to_json_number [OF assms(2)])

lemma decodeNote_encodeNote:
  assumes "prints_exactly (amount dn)" and "prints_exactly (timestamp dn)"
  shows "decodeNote (encodeNote dn) = Inr (to_RawNote dn)"
  unfolding decodeNote_def encodeNote_def Let_def base64_decode_encode utf8_decode_encode
    JSON_parse_note [OF assms]
  by (simp add: member_def to_RawNote_def)


subsection \<open>Numbers that are printed exactly\<close>

lemma digits_value_snoc: "digits_value acc (s @ [c]) = 10 * digits_value acc s + digit_val c"
  by (induction s arbitrary: acc) simp_all

lemma digits_value_nat_to_string: "digits_value 0 (nat_to_string n) = n"
proof (induction n rule: nat_to_string.induct)
  case (1 n)
  show ?case
  proof (cases "n < 10")
    case True
    then show ?thesis by (simp add: nat_to_string.simps [of n] digit_char_digit)
  next
    case False
    with 1 show ?thesis
      by (simp add: nat_to_string.simps [of n] digits_value_snoc digit_char_digit)
  qed
qed

lemma nat_to_string_no_leading_zero:
  "1 < length (nat_to_string n) \<Longrightarrow> hd (nat_to_string n) \<noteq> CHR ''0''"
proof (induction n rule: nat_to_string.induct)
  case (1 n)
  show ?case
  proof (cases "n < 10")
    case True
    with 1(2) show ?thesis by (simp add: nat_to_string.simps [of n])
  next
    case False
    let ?m = "n div 10"
    from False have m: "0 < ?m" by simp
    have ne: "nat_to_string ?m \<noteq> []" using nat_to_string_digits by simp
    have "hd (nat_to_string ?m) \<noteq> CHR ''0''"
    proof (cases "?m < 10")
      case True
      with m show ?thesis by (simp add: nat_to_string.simps [of ?m] digit_char_zero)
    next
      case False
      then have "1 < length (nat_to_string ?m)"
        using nat_to_string_digits [of "?m div 10"]
        by (simp add: nat_to_string.simps [of ?m] Suc_lessI)
      with 1(1) \<open>\<not> n < 10\<close> show ?thesis by simp
    qed
    with False ne show ?thesis by (simp add: nat_to_string.simps [of n])
  qed
qed

lemma frac_value_frac_digits:
  "0 \<le> f \<Longrightarrow> f < 1 \<Longrightarrow> f * 10 ^ k \<in> \<int> \<Longrightarrow> frac_value (frac_digits k f) = f"
proof (induction k arbitrary: f)
  case 0
  then have "f \<in> \<int>" by simp
  then obtain z where z: "f = of_int z" by (auto elim: Ints_cases)
  with 0 have "0 \<le> z" "z < 1" by simp_all
  then have "z = 0" by simp
  with z show ?case by simp
next
  case (Suc k)
  let ?d = "\<lfloor>f * 10\<rfloor>"
  show ?case
  proof (cases "f = 0")
    case True
    then show ?thesis by simp
  next
    case False
    from Suc.prems have d0: "0 \<le> ?d" by simp
    have r: "0 \<le> f * 10 - of_int ?d" "f * 10 - of_int ?d < 1" by linarith+
    have "(f * 10 - of_int ?d) * 10 ^ k = f * 10 ^ Suc k - of_int (?d * 10 ^ k)"
      by (simp add: algebra_simps)
    with Suc.prems(3) have "(f * 10 - of_int ?d) * 10 ^ k \<in> \<int>"
      by (metis Ints_diff Ints_of_int)
    moreover from floor_less_iff [of "f * 10" 10] Suc.prems have "?d < 10" by simp
    with d0 have "nat ?d < 10" by linarith
    then have "real (digit_val (digit_char (nat ?d))) = of_int ?d"
      using d0 by (simp add: digit_char_digit)
    ultimately show ?thesis using Suc.IH [OF r] False by simp
  qed
qed

lemma frac_digits_nonempty: "f \<noteq> 0 \<Longrightarrow> frac_digits (Suc k) f \<noteq> []"
  by simp

lemma parse_number_plain:
  assumes ip: "list_all is_digit ip" "ip \<noteq> []" "\<not> (1 < length ip \<and> hd ip = CHR ''0'')"
    and fp: "list_all is_digit fp"
  shows "parse_number ip = Some (real (digits_value 0 ip))"
    and "fp \<noteq> [] \<Longrightarrow>
           parse_number (ip @ CHR ''.'' # fp) = Some (real (digits_value 0 ip) + frac_value fp)"
proof -
  from ip obtain d ds where d: "ip = d # ds" "is_digit d" by (cases ip) auto
  then have minus: "d \<noteq> CHR ''-''" by (auto simp: is_digit_def)
  have dot: "\<not> is_digit CHR ''.''" by (simp add: is_digit_def)
  from ip(1) have ti: "\<And>ys. takeWhile is_digit (ip @ ys) = ip @ takeWhile is_digit ys"
    and di: "\<And>ys. dropWhile is_digit (ip @ ys) = dropWhile is_digit ys"
    by (simp_all add: list_all_iff)
  from ti [of "[]"] di [of "[]"]
  have ti0: "takeWhile is_digit ip = ip" and di0: "dropWhile is_digit ip = []" by simp_all
  from fp have tf: "takeWhile is_digit fp = fp" and df: "dropWhile is_digit fp = []"
    by (simp_all add: list_all_iff)
  have m: "take 1 ip \<noteq> ''-''" "\<And>ys. take 1 (ip @ ys) \<noteq> ''-''"
    using d minus by simp_all
  show "parse_number ip = Some (real (digits_value 0 ip))"
    unfolding parse_number_def Let_def using ip(2,3) m
    by (simp add: ti0 di0 parse_exponent_def scale10_def)
  assume "fp \<noteq> []"
  then show "parse_number (ip @ CHR ''.'' # fp) =
         Some (real (digits_value 0 ip) + frac_value fp)"
    unfolding parse_number_def Let_def using ip(2,3) m
    by (simp add: ti di dot tf df parse_exponent_def scale10_def)
qed

lemma parse_number_decimal_string:
  assumes "0 \<le> x" and "x * 10 ^ 30 \<in> \<int>"
  shows "parse_number (decimal_string x) = Some x"
proof -
  let ?N = "nat \<lfloor>x\<rfloor>" and ?f = "x - of_int \<lfloor>x\<rfloor>"
  have f: "0 \<le> ?f" "?f < 1" by linarith+
  have "?f * 10 ^ 30 = x * 10 ^ 30 - of_int (\<lfloor>x\<rfloor> * 10 ^ 30)" by (simp add: algebra_simps)
  with assms(2) have fi: "?f * 10 ^ 30 \<in> \<int>" by (metis Ints_diff Ints_of_int)
  from assms(1) have N: "real ?N = of_int \<lfloor>x\<rfloor>" by simp
  note p = parse_number_plain [of "nat_to_string ?N" "frac_digits 30 ?f",
      OF conjunct1 [OF nat_to_string_digits] conjunct2 [OF nat_to_string_digits] _
        frac_digits_digits [OF f], unfolded digits_value_nat_to_string
        frac_value_frac_digits [OF f fi]]
  have z: "\<not> (1 < length (nat_to_string ?N) \<and> hd (nat_to_string ?N) = CHR ''0'')"
    using nat_to_string_no_leading_zero by blast
  show ?thesis
  proof (cases "x = of_int \<lfloor>x\<rfloor>")
    case True
    with p(1) [OF z] N show ?thesis by (simp add: decimal_string_def)
  next
    case False
    then have "frac_digits 30 ?f \<noteq> []"
      using frac_digits_nonempty [of ?f 29] by simp
    from p(2) [OF z this] False N show ?thesis by (simp add: decimal_string_def)
  qed
qed

text \<open>
  A number from 0 up to \<open>10\<^sup>2\<^sup>1\<close>, not below \<open>10\<^sup>-\<^sup>6\<close> unless it is 0, with at most 30
  digits after the decimal point, is printed exactly.
\<close>

lemma prints_exactly_decimal:
  assumes "0 \<le> x" and "x < 10 ^ 21" and "x = 0 \<or> 1 / 10 ^ 6 \<le> x" and "x * 10 ^ 30 \<in> \<int>"
  shows "prints_exactly x"
  using assms parse_number_decimal_string [OF assms(1,4)]
  by (auto simp: prints_exactly_def number_to_string_def positive_to_string_def)

lemma prints_exactly_nat: "n < 10 ^ 21 \<Longrightarrow> prints_exactly (real n)"
proof (rule prints_exactly_decimal)
  assume "n < 10 ^ 21"
  then have "real n < real (10 ^ 21)" by (simp only: of_nat_less_iff)
  then show "real n < 10 ^ 21" by simp
  show "real n = 0 \<or> 1 / 10 ^ 6 \<le> real n" by (cases n) (simp_all add: field_simps)
  have "real n * 10 ^ 30 = of_int (int n * 10 ^ 30)" by simp
  then show "real n * 10 ^ 30 \<in> \<int>" by (metis Ints_of_int)
qed simp

subsection \<open>The format of the encoded note\<close>

lemma encodeNote_text:
  "encodeNote dn =
     base64_encode (utf8_encode
       (''{'' @ json_quote ''c'' @ '':'' @ json_quote (commitment dn) @ '',''
          @ json_quote ''n'' @ '':'' @ json_quote (nullifier dn) @ '',''
          @ json_quote ''s'' @ '':'' @ json_quote (secret dn) @ '',''
          @ json_quote ''a'' @ '':'' @ number_to_string (amount dn) @ '',''
          @ json_quote ''t'' @ '':'' @ json_quote (token dn) @ '',''
          @ json_quote ''ts'' @ '':'' @ number_to_string (timestamp dn) @ ''}''))"
  by (simp add: encodeNote_def)

lemma encodeNote_start: "take 8 (encodeNote dn) = ''eyJjIjoi''"
  unfolding encodeNote_text
  by (simp add: json_quote_def json_escape_def dquote_def utf8_encode_def base64_char_def
      base64_alphabet_def)





lemma demo_note_prints_exactly:
  "prints_exactly (amount demo_note)" "prints_exactly (timestamp demo_note)"
proof -
  have "(3 / 2 :: real) * 10 ^ 30 = of_int (15 * 10 ^ 29)" by simp
  then have "(3 / 2 :: real) * 10 ^ 30 \<in> \<int>" by (metis Ints_of_int)
  then show "prints_exactly (amount demo_note)"
    by (intro prints_exactly_decimal) (simp_all add: demo_note_def)
  have "prints_exactly (real 1)" by (rule prints_exactly_nat) simp
  then show "prints_exactly (timestamp demo_note)" by (simp add: demo_note_def)
qed






section \<open>Transfer through the pool\<close>

text \<open>
  An action that, when it returns, has stored a new note of the given amount and token
  under its commitment, and returns the encoded note and the deposit fee.
\<close>

definition stores_note ::
  "number \<Rightarrow> string \<Rightarrow> ('w PrivacyCashAdapter, DepositResult) action \<Rightarrow> bool" where
  "stores_note amt tok m =
     (\<forall>st d st'. m st = (Inr d, st')
        \<longrightarrow> (\<exists>dn. dres_commitment d = Some (encodeNote dn)
                  \<and> amount dn = amt \<and> token dn = tok
                  \<and> commitment dn = computeCommitment (secret dn) (nullifier dn)
                  \<and> dres_fee d = 0.005 * amt
                  \<and> depositNotes st' = Map_set (commitment dn) dn (depositNotes st)))"

lemma stores_noteD:
  "stores_note amt tok m \<Longrightarrow> m st = (Inr d, st')
     \<Longrightarrow> \<exists>dn. dres_commitment d = Some (encodeNote dn)
               \<and> amount dn = amt \<and> token dn = tok
               \<and> commitment dn = computeCommitment (secret dn) (nullifier dn)
               \<and> dres_fee d = 0.005 * amt
               \<and> depositNotes st' = Map_set (commitment dn) dn (depositNotes st)"
  unfolding stores_note_def by blast

lemma stores_note_bind:
  assumes m: "keeps_local m" and f: "\<And>a. stores_note amt tok (f a)"
  shows "stores_note amt tok (bind m f)"
  unfolding stores_note_def
proof (intro allI impI)
  fix st d st'
  assume "bind m f st = (Inr d, st')"
  from bind_Inr_E [OF this] obtain a st1
    where m1: "m st = (Inr a, st1)" and f1: "f a st1 = (Inr d, st')" by blast
  from keeps_localD [OF m m1] have "depositNotes st1 = depositNotes st"
    by (simp add: local_state_def)
  with stores_noteD [OF f f1]
  show "\<exists>dn. dres_commitment d = Some (encodeNote dn)
               \<and> amount dn = amt \<and> token dn = tok
               \<and> commitment dn = computeCommitment (secret dn) (nullifier dn)
               \<and> dres_fee d = 0.005 * amt
               \<and> depositNotes st' = Map_set (commitment dn) dn (depositNotes st)"
    by simp
qed

lemma stores_note_last_steps:
  "stores_note amt tok
     (bind (read_world f) (\<lambda>now.
      bind (\<lambda>st. ok () (st\<lparr>depositNotes :=
                Map_set (computeCommitment sec nul)
                  \<lparr>commitment = computeCommitment sec nul, nullifier = nul, secret = sec,
                   amount = amt, token = tok, timestamp = now\<rparr> (depositNotes st)\<rparr>)) (\<lambda>_.
        ok \<lparr>dres_signature = sg, dres_provider = p,
            dres_commitment = Some (encodeNote
              \<lparr>commitment = computeCommitment sec nul, nullifier = nul, secret = sec,
               amount = amt, token = tok, timestamp = now\<rparr>),
            dres_fee = 0.005 * amt\<rparr>)))"
  unfolding stores_note_def
proof (intro allI impI)
  fix st d st'
  assume run: "bind (read_world f) (\<lambda>now.
      bind (\<lambda>st. ok () (st\<lparr>depositNotes :=
                Map_set (computeCommitment sec nul)
                  \<lparr>commitment = computeCommitment sec nul, nullifier = nul, secret = sec,
                   amount = amt, token = tok, timestamp = now\<rparr> (depositNotes st)\<rparr>)) (\<lambda>_.
        ok \<lparr>dres_signature = sg, dres_provider = p,
            dres_commitment = Some (encodeNote
              \<lparr>commitment = computeCommitment sec nul, nullifier = nul, secret = sec,
               amount = amt, token = tok, timestamp = now\<rparr>),
            dres_fee = 0.005 * amt\<rparr>)) st = (Inr d, st')"
  obtain now w' where f: "f (world st) = (now, w')" by (cases "f (world st)")
  let ?dn = "\<lparr>commitment = computeCommitment sec nul, nullifier = nul, secret = sec,
               amount = amt, token = tok, timestamp = now\<rparr>"
  from run f have "dres_commitment d = Some (encodeNote ?dn)" "dres_fee d = 0.005 * amt"
    "depositNotes st' = Map_set (commitment ?dn) ?dn (depositNotes st)"
    by (auto simp: bind_def read_world_def ok_def)
  then show "\<exists>dn. dres_commitment d = Some (encodeNote dn)
               \<and> amount dn = amt \<and> token dn = tok
               \<and> commitment dn = computeCommitment (secret dn) (nullifier dn)
               \<and> dres_fee d = 0.005 * amt
               \<and> depositNotes st' = Map_set (commitment dn) dn (depositNotes st)"
    by (intro exI [of _ ?dn]) simp
qed

lemma keeps_createDepositInstruction [simp]:
  "keeps_local (\<lambda>st. of_result (createDepositInstruction env (adapter_programId st) walletKey
                    com amt poolConfig) st)"
  by (simp add: keeps_local_def of_result_def)

lemma deposit_try_stores_note:
  "stores_note (dreq_amount request) tok (deposit_try env request tok poolConfig walletKey)"
  unfolding deposit_try_def Let_def
  by (intro stores_note_bind stores_note_last_steps keeps_randomBytes
      keeps_createDepositInstruction keeps_chain)

lemma PrivacyCash_deposit_returns:
  assumes run: "PrivacyCash_deposit env request st = (Inr d, st')"
  shows "\<exists>dn. dres_commitment d = Some (encodeNote dn)
               \<and> amount dn = dreq_amount request \<and> token dn = toUpperCase (dreq_token request)
               \<and> commitment dn = computeCommitment (secret dn) (nullifier dn)
               \<and> dres_fee d = 0.005 * dreq_amount request
               \<and> depositNotes st' = Map_set (commitment dn) dn (depositNotes st)"
proof -
  from run [unfolded PrivacyCash_deposit_def] obtain u s1
    where r1: "ensureReady PRIVACY_CASH st = (Inr u, s1)"
      and run1: "bind ensureWallet (\<lambda>walletKey.
       let tok = toUpperCase (dreq_token request) in
       (case map_of POOL_CONFIGS tok of
          None \<Rightarrow>
            throw (Error (''Token '' @ dreq_token request @ '' not supported by Privacy Cash''))
        | Some poolConfig \<Rightarrow>
            if dreq_amount request < minDeposit poolConfig then
              throw (AmountBelowMinimumError (dreq_amount request) (minDeposit poolConfig) tok
                       PRIVACY_CASH)
            else if dreq_amount request > maxDeposit poolConfig then
              throw (Error (''Amount '' @ number_to_string (dreq_amount request)
                       @ '' exceeds max deposit '' @ number_to_string (maxDeposit poolConfig)
                       @ '' for '' @ tok))
            else
              try_catch (deposit_try env request tok poolConfig walletKey)
                (\<lambda>error. throw (wrapError error ''Privacy Cash deposit failed'')))) s1
        = (Inr d, st')"
    using bind_Inr_E by fastforce
  from ensureReady_Inr [OF r1] have s1: "s1 = st" by simp
  from bind_Inr_E [OF run1] obtain walletKey s2
    where r2: "ensureWallet s1 = (Inr walletKey, s2)"
      and run2: "(let tok = toUpperCase (dreq_token request) in
       (case map_of POOL_CONFIGS tok of
          None \<Rightarrow>
            throw (Error (''Token '' @ dreq_token request @ '' not supported by Privacy Cash''))
        | Some poolConfig \<Rightarrow>
            if dreq_amount request < minDeposit poolConfig then
              throw (AmountBelowMinimumError (dreq_amount request) (minDeposit poolConfig) tok
                       PRIVACY_CASH)
            else if dreq_amount request > maxDeposit poolConfig then
              throw (Error (''Amount '' @ number_to_string (dreq_amount request)
                       @ '' exceeds max deposit '' @ number_to_string (maxDeposit poolConfig)
                       @ '' for '' @ tok))
            else
              try_catch (deposit_try env request tok poolConfig walletKey)
                (\<lambda>error. throw (wrapError error ''Privacy Cash deposit failed'')))) s2
        = (Inr d, st')"
    by blast
  from ensureWallet_Inr [OF r2] s1 have s2: "s2 = st" by simp
  from run2 obtain poolConfig
    where "map_of POOL_CONFIGS (toUpperCase (dreq_token request)) = Some poolConfig"
    by (cases "map_of POOL_CONFIGS (toUpperCase (dreq_token request))")
      (auto simp: throw_def Let_def)
  with run2 s2
  have "try_catch (deposit_try env request (toUpperCase (dreq_token request)) poolConfig
                     walletKey)
          (\<lambda>error. throw (wrapError error ''Privacy Cash deposit failed'')) st = (Inr d, st')"
    by (auto simp: throw_def Let_def split: if_splits)
  from try_catch_rethrow_Inr [OF this]
  have "deposit_try env request (toUpperCase (dreq_token request)) poolConfig walletKey st
          = (Inr d, st')" .
  from stores_noteD [OF deposit_try_stores_note this] show ?thesis .
qed

text \<open>
  C6. A \<^verbatim>\<open>transfer\<close> of the Privacy Cash adapter is a \<^verbatim>\<open>deposit\<close> of the requested amount
  and token followed by a \<^verbatim>\<open>withdraw\<close> to the recipient of the note that the deposit
  returned. When the deposit throws, the transfer throws the same error and nothing is
  withdrawn; when the deposit returns, it returns the encoded note of the requested amount
  and its fee is 0.5% of the amount; when the withdrawal then throws, the transfer throws
  the same error; and when it returns, the transfer returns the signature of the withdrawal
  and, as its fee, the fee of the deposit plus the fee of the withdrawal.
\<close>

theorem transfer_is_deposit_then_withdraw:
  "case PrivacyCash_deposit env
          \<lparr>dreq_amount = req_amount request, dreq_token = req_token request\<rparr> st of
     (Inl e, st1) \<Rightarrow> PrivacyCash_transfer env request st = (Inl e, st1)
   | (Inr d, st1) \<Rightarrow>
       dres_fee d = 0.005 * req_amount request
       \<and> (\<exists>dn. dres_commitment d = Some (encodeNote dn) \<and> amount dn = req_amount request
                \<and> token dn = toUpperCase (req_token request))
       \<and> (case PrivacyCash_withdraw env
                  \<lparr>wreq_amount = req_amount request, wreq_token = req_token request,
                   wreq_recipient = req_recipient request,
                   wreq_commitment = dres_commitment d\<rparr> st1 of
             (Inl e, st2) \<Rightarrow> PrivacyCash_transfer env request st = (Inl e, st2)
           | (Inr wd, st2) \<Rightarrow>
               PrivacyCash_transfer env request st =
                 (Inr \<lparr>res_signature = wres_signature wd, res_provider = PRIVACY_CASH,
                       res_privacyLevel = COMPLIANT_POOL,
                       res_fee = js_plus (Finite (dres_fee d)) (wres_fee wd),
                       res_anonymitySet =
                         map_option anonymitySet
                           (map_of POOL_CONFIGS (toUpperCase (req_token request)))\<rparr>, st2))"
proof -
  let ?D = "PrivacyCash_deposit env
          \<lparr>dreq_amount = req_amount request, dreq_token = req_token request\<rparr>"
  obtain r1 st1 where dep: "?D st = (r1, st1)" by (cases "?D st")
  show ?thesis
  proof (cases r1)
    case (Inl e)
    have "PrivacyCash_transfer env request st = (Inl e, st1)"
    proof (cases "initialized st")
      case True
      with dep Inl show ?thesis
        by (simp add: PrivacyCash_transfer_def ensureReady_ready bind_failed)
    next
      case False
      with dep Inl show ?thesis
        by (simp add: PrivacyCash_transfer_def PrivacyCash_deposit_def ensureReady_def
            bind_def throw_def)
    qed
    with dep Inl show ?thesis by simp
  next
    case (Inr d)
    with dep have run: "?D st = (Inr d, st1)" by simp
    from PrivacyCash_deposit_returns [OF run]
    have fee: "dres_fee d = 0.005 * req_amount request"
      and enc: "\<exists>dn. dres_commitment d = Some (encodeNote dn) \<and> amount dn = req_amount request
                \<and> token dn = toUpperCase (req_token request)"
      by auto
    from run have ready: "initialized st"
      by (auto simp: PrivacyCash_deposit_def ensureReady_def bind_def throw_def
          split: if_splits)
    let ?W = "PrivacyCash_withdraw env
                  \<lparr>wreq_amount = req_amount request, wreq_token = req_token request,
                   wreq_recipient = req_recipient request,
                   wreq_commitment = dres_commitment d\<rparr>"
    obtain r2 st2 where wd: "?W st1 = (r2, st2)" by (cases "?W st1")
    from ready run wd
    have "(case r2 of
             Inl e \<Rightarrow> PrivacyCash_transfer env request st = (Inl e, st2)
           | Inr wd \<Rightarrow>
               PrivacyCash_transfer env request st =
                 (Inr \<lparr>res_signature = wres_signature wd, res_provider = PRIVACY_CASH,
                       res_privacyLevel = COMPLIANT_POOL,
                       res_fee = js_plus (Finite (dres_fee d)) (wres_fee wd),
                       res_anonymitySet =
                         map_option anonymitySet
                           (map_of POOL_CONFIGS (toUpperCase (req_token request)))\<rparr>, st2))"
      by (cases r2)
        (simp_all add: PrivacyCash_transfer_def ensureReady_ready bind_returned bind_failed
          ok_def)
    with run wd fee enc show ?thesis by simp
  qed
qed

section \<open>A run of the pool adapter that returns\<close>

text \<open>An adapter that is initialised, with the wallet \<open>w\<close> connected.\<close>

definition ready :: "PublicKey \<Rightarrow> ('w, 'z) BaseAdapter_scheme \<Rightarrow> bool" where
  "ready w st = (initialized st \<and> wallet st = Some w)"

text \<open>
  From every state that satisfies \<open>I\<close> the action returns, with a value that satisfies
  \<open>Q\<close>, in a state that satisfies \<open>I\<close>.
\<close>

definition returns :: "('s \<Rightarrow> bool) \<Rightarrow> ('s, 'a) action \<Rightarrow> ('a \<Rightarrow> bool) \<Rightarrow> bool" where
  "returns I m Q = (\<forall>st. I st \<longrightarrow> (\<exists>a st'. m st = (Inr a, st') \<and> Q a \<and> I st'))"

lemma returnsD: "returns I m Q \<Longrightarrow> I st \<Longrightarrow> \<exists>a st'. m st = (Inr a, st') \<and> Q a \<and> I st'"
  unfolding returns_def by blast

lemma returns_bind:
  assumes m: "returns I m Q" and f: "\<And>a. Q a \<Longrightarrow> returns I (f a) R"
  shows "returns I (bind m f) R"
  unfolding returns_def
proof (intro allI impI)
  fix st
  assume "I st"
  from returnsD [OF m this] obtain a st1
    where m1: "m st = (Inr a, st1)" and q: "Q a" and i1: "I st1" by blast
  from returnsD [OF f [OF q] i1] obtain b st2
    where "f a st1 = (Inr b, st2)" and "R b" and "I st2" by blast
  with m1 show "\<exists>b st'. bind m f st = (Inr b, st') \<and> R b \<and> I st'"
    by (simp add: bind_def)
qed

lemma returns_ok: "Q a \<Longrightarrow> returns I (ok a) Q"
  by (simp add: returns_def ok_def)

lemma returns_randomBytes: "returns (ready w) (randomBytes env n) (\<lambda>bs. length bs = n)"
proof (induction n)
  case 0
  show ?case by (simp add: returns_ok)
next
  case (Suc n)
  have one: "returns (ready w) (read_world (randomByte env)) (\<lambda>_. True)"
    by (auto simp: returns_def read_world_def ready_def split: prod.splits)
  show ?case
    unfolding randomBytes.simps
    by (rule returns_bind [OF one], rule returns_bind [OF Suc], rule returns_ok) simp
qed
text \<open>
  The example collaborators, with any behaviour \<open>f\<close> of the HTTP endpoint that serves the
  Merkle proofs.
\<close>

lemma demo_steps:
  "returns (ready w) (getLatestBlockhash (demo_env\<lparr>http_fetch_proof := f\<rparr>)) (\<lambda>_. True)"
  "returns (ready w) (signTransaction (demo_env\<lparr>http_fetch_proof := f\<rparr>) tx) (\<lambda>_. True)"
  "returns (ready w) (sendRawTransaction (demo_env\<lparr>http_fetch_proof := f\<rparr>) raw)
     (\<lambda>s. s = ''signature'')"
  "returns (ready w) (confirmTransaction (demo_env\<lparr>http_fetch_proof := f\<rparr>) sg bh) (\<lambda>_. True)"
  "returns (ready w) (read_world (dateNow (demo_env\<lparr>http_fetch_proof := f\<rparr>)))
     (\<lambda>t. t = 1700000000000)"
  by (simp_all add: returns_def ready_def getLatestBlockhash_def signTransaction_def
      sendRawTransaction_def confirmTransaction_def call_world_def read_world_def demo_env_def
      lift_external_def)

lemma returns_getMerkleProof:
  "returns (ready w) (getMerkleProof env com tok :: ('w PrivacyCashAdapter, MerkleProof) action)
     (\<lambda>_. True)"
  unfolding returns_def
proof (intro allI impI)
  fix st :: "'w PrivacyCashAdapter"
  assume r: "ready w st"
  from getMerkleProof_returns [of env com tok st] obtain merkleProof st'
    where run: "getMerkleProof env com tok st = (Inr merkleProof, st')" by blast
  from keeps_localD [OF keeps_getMerkleProof run] r have "ready w st'"
    by (simp add: local_state_def ready_def)
  with run show "\<exists>a st'. getMerkleProof env com tok st = (Inr a, st') \<and> True \<and> ready w st'"
    by blast
qed

lemma length_json_escape: "length (json_escape c) \<le> 6"
  by (simp add: json_escape_def Let_def)

lemma length_json_quote: "length (json_quote s) \<le> 6 * length s + 2"
proof -
  have "length (concat (map json_escape s)) \<le> 6 * length s"
  proof (induction s)
    case Nil
    show ?case by simp
  next
    case (Cons c s)
    with length_json_escape [of c] show ?case by simp
  qed
  then show ?thesis by (simp add: json_quote_def)
qed

lemma length_quoted_hex:
  "length bs = 32 \<Longrightarrow> length (json_quote (bytesToHex bs)) \<le> 386"
  using length_json_quote [of "bytesToHex bs"] by (simp add: length_bytesToHex)


lemma returns_generateWithdrawalProof:
  assumes "raw_nullifier dn = Some (JStr nul)"
  shows "returns (ready w) (generateWithdrawalProof env dn merkleProof recipient)
     (\<lambda>zkProof. length zkProof < 2 ^ 32)"
  unfolding generateWithdrawalProof_def assms option.case json.case
proof (intro returns_bind [OF returns_randomBytes] returns_ok)
  fix a1 a2 b1 b2 b3 b4 c1 c2 :: "byte list"
  assume l: "length a1 = 32" "length a2 = 32" "length b1 = 32" "length b2 = 32"
    "length b3 = 32" "length b4 = 32" "length c1 = 32" "length c2 = 32"
  note q = l [THEN length_quoted_hex]
  have k: "length (json_quote ''a'') \<le> 8" "length (json_quote ''b'') \<le> 8"
    "length (json_quote ''c'') \<le> 8"
    using length_json_quote [of "''a''"] length_json_quote [of "''b''"]
      length_json_quote [of "''c''"] by simp_all
  have "length (utf8_encode (JSON_stringify (JObject
                 [(''a'', JArray [JStr (bytesToHex a1), JStr (bytesToHex a2)]),
                  (''b'', JArray [JArray [JStr (bytesToHex b1), JStr (bytesToHex b2)],
                                  JArray [JStr (bytesToHex b3), JStr (bytesToHex b4)]]),
                  (''c'', JArray [JStr (bytesToHex c1), JStr (bytesToHex c2)])]))) \<le> 4000"
    using q k by (simp add: utf8_encode_def)
  then show "length (utf8_encode (JSON_stringify (JObject
                 [(''a'', JArray [JStr (bytesToHex a1), JStr (bytesToHex a2)]),
                  (''b'', JArray [JArray [JStr (bytesToHex b1), JStr (bytesToHex b2)],
                                  JArray [JStr (bytesToHex b3), JStr (bytesToHex b4)]]),
                  (''c'', JArray [JStr (bytesToHex c1), JStr (bytesToHex c2)])]))) < 2 ^ 32"
    by simp
qed

lemma demo_createWithdrawInstruction:
  assumes "raw_nullifier dn = Some (JStr nul)" and "length zkProof < 2 ^ 32"
  shows "returns (ready w)
           (\<lambda>st. of_result
                  (case raw_nullifier dn of
                     Some (JStr nul) \<Rightarrow>
                       createWithdrawInstruction (demo_env\<lparr>http_fetch_proof := f\<rparr>)
                         (adapter_programId st) recipient nul rt zkProof (Some cfg)
                   | _ \<Rightarrow> Inl TypeError) st) (\<lambda>_. True)"
  using assms
  by (simp add: returns_def of_result_def createWithdrawInstruction_def writeUInt32LE_def
      demo_env_def Let_def)

text \<open>
  With these collaborators the \<^verbatim>\<open>try\<close> block of \<^verbatim>\<open>withdraw\<close> returns on every note
  whose nullifier is a string and whose amount is a number, whatever the proof endpoint
  answers.
\<close>

lemma demo_withdraw_try:
  assumes n: "raw_nullifier dn = Some (JStr nul)" and a: "raw_amount dn = Some (JNum x)"
  shows "returns (ready w)
     (withdraw_try (demo_env\<lparr>http_fetch_proof := f\<rparr>) dn tok (Some cfg) recipient walletKey)
     (\<lambda>res. res = \<lparr>wres_signature = ''signature'', wres_provider = PRIVACY_CASH,
                    wres_fee = Finite (0.005 * x)\<rparr>)"
proof -
  from a have "js_number (raw_amount dn) = Some (Finite x)" by (simp add: js_number_def)
  note unfolded = withdraw_try_with_fee [OF this]
  show ?thesis
    unfolding unfolded
    apply (rule returns_bind [OF returns_getMerkleProof])
    apply (rule returns_bind [OF returns_generateWithdrawalProof [OF n]])
    apply (rule returns_bind [OF demo_createWithdrawInstruction [OF n]], assumption)
    apply (rule returns_bind [OF demo_steps(1)])
    apply (rule returns_bind [OF demo_steps(2)])
    apply (rule returns_bind [OF demo_steps(3)])
    apply (rule returns_bind [OF demo_steps(4)])
    apply (simp add: returns_def bind_def ok_def ready_def)
    done
qed

lemma encodeNote_nonempty: "encodeNote dn \<noteq> []"
  using encodeNote_start [of dn] by auto

lemma try_catch_returned: "m st = (Inr a, st') \<Longrightarrow> try_catch m h st = (Inr a, st')"
  by (simp add: try_catch_def)

lemma demo_PrivacyCash_withdraw:
  assumes st: "ready w st"
    and a: "prints_exactly (amount dn)" and t: "prints_exactly (timestamp dn)"
    and cfg: "map_of POOL_CONFIGS (token dn) = Some cfg"
  shows "\<exists>st'. PrivacyCash_withdraw (demo_env\<lparr>http_fetch_proof := f\<rparr>)
                 \<lparr>wreq_amount = amt, wreq_token = tok, wreq_recipient = AddressString r,
                  wreq_commitment = Some (encodeNote dn)\<rparr> st =
               (Inr \<lparr>wres_signature = ''signature'', wres_provider = PRIVACY_CASH,
                     wres_fee = Finite (0.005 * amount dn)\<rparr>, st') \<and> ready w st'"
proof -
  let ?env = "demo_env\<lparr>http_fetch_proof := f\<rparr>"
  have n: "raw_nullifier (to_RawNote dn) = Some (JStr (nullifier dn))"
    and x: "raw_amount (to_RawNote dn) = Some (JNum (amount dn))"
    by (simp_all add: to_RawNote_def)
  from returnsD [OF demo_withdraw_try [OF n x] st, of f "token dn" cfg "PublicKey r" w]
  obtain st'
    where run: "withdraw_try ?env (to_RawNote dn) (token dn) (Some cfg) (PublicKey r) w st =
                  (Inr \<lparr>wres_signature = ''signature'', wres_provider = PRIVACY_CASH,
                        wres_fee = Finite (0.005 * amount dn)\<rparr>, st')"
      and st': "ready w st'"
    by blast
  from cfg have p: "get_property POOL_CONFIGS (token dn) = Own cfg"
    by (simp add: get_property_def)
  have pk: "to_PublicKey ?env (AddressString r) = Inr (PublicKey r)"
    by (simp add: to_PublicKey_def new_PublicKey_def demo_env_def)
  have tk: "js_string (raw_token (to_RawNote dn)) = Some (token dn)"
    and am: "js_string (raw_amount (to_RawNote dn)) = Some (number_to_string (amount dn))"
    by (simp_all add: to_RawNote_def js_string_def)
  from st have "PrivacyCash_withdraw ?env
                 \<lparr>wreq_amount = amt, wreq_token = tok, wreq_recipient = AddressString r,
                  wreq_commitment = Some (encodeNote dn)\<rparr> st =
               (Inr \<lparr>wres_signature = ''signature'', wres_provider = PRIVACY_CASH,
                     wres_fee = Finite (0.005 * amount dn)\<rparr>, st')"
    unfolding PrivacyCash_withdraw_def ready_def
    by (simp add: ensureReady_ready ensureWallet_connected encodeNote_nonempty
        decodeNote_encodeNote [OF a t] tk am p pk
        bind_returned [of "of_result (Inr x)" st x st for x] of_result_def
        try_catch_returned
          [of "withdraw_try ?env (to_RawNote dn) (token dn) (Some cfg) (PublicKey r) w" st _ st',
           OF run])
  with st' show ?thesis by blast
qed

lemma demo_createDepositInstruction:
  assumes "0 \<le> amt" and "amt * 10 ^ decimals cfg < 2 ^ 64"
  shows "returns (ready w)
           (\<lambda>st. of_result (createDepositInstruction (demo_env\<lparr>http_fetch_proof := f\<rparr>) (adapter_programId st) walletKey
                    com amt cfg) st) (\<lambda>_. True)"
proof -
  from assms(1) have "0 \<le> \<lfloor>amt * 10 ^ decimals cfg\<rfloor>" by simp
  moreover from floor_less_iff [of "amt * 10 ^ decimals cfg" "2 ^ 64"] assms(2)
  have "\<lfloor>amt * 10 ^ decimals cfg\<rfloor> < 2 ^ 64" by simp
  ultimately show ?thesis
    by (simp add: returns_def of_result_def createDepositInstruction_def
        writeBigUInt64LE_def demo_env_def Let_def)
qed

lemma demo_deposit_try:
  assumes "0 \<le> dreq_amount request" and "dreq_amount request * 10 ^ decimals cfg < 2 ^ 64"
  shows "returns (ready w) (deposit_try (demo_env\<lparr>http_fetch_proof := f\<rparr>) request tok cfg walletKey)
     (\<lambda>d. \<exists>dn. d = \<lparr>dres_signature = ''signature'', dres_provider = PRIVACY_CASH,
                      dres_commitment = Some (encodeNote dn),
                      dres_fee = 0.005 * dreq_amount request\<rparr>
                \<and> amount dn = dreq_amount request \<and> token dn = tok
                \<and> timestamp dn = 1700000000000)"
  unfolding deposit_try_def Let_def
  apply (rule returns_bind [OF returns_randomBytes])
  apply (rule returns_bind [OF returns_randomBytes])
  apply (rule returns_bind [OF demo_createDepositInstruction [OF assms]])
  apply (rule returns_bind [OF demo_steps(1)])
  apply (rule returns_bind [OF demo_steps(2)])
  apply (rule returns_bind [OF demo_steps(3)])
  apply (rule returns_bind [OF demo_steps(4)])
  apply (rule returns_bind [OF demo_steps(5)])
  apply (clarsimp simp: returns_def bind_def ok_def ready_def)
  apply (rule exI, rule conjI, rule refl, simp)
  done

lemma demo_PrivacyCash_deposit:
  assumes st: "ready w st"
    and cfg: "map_of POOL_CONFIGS (toUpperCase tok) = Some cfg"
    and range: "minDeposit cfg \<le> amt" "amt \<le> maxDeposit cfg"
    and units: "0 \<le> amt" "amt * 10 ^ decimals cfg < 2 ^ 64"
  shows "\<exists>dn st'. PrivacyCash_deposit (demo_env\<lparr>http_fetch_proof := f\<rparr>) \<lparr>dreq_amount = amt, dreq_token = tok\<rparr> st =
               (Inr \<lparr>dres_signature = ''signature'', dres_provider = PRIVACY_CASH,
                     dres_commitment = Some (encodeNote dn), dres_fee = 0.005 * amt\<rparr>, st')
             \<and> amount dn = amt \<and> token dn = toUpperCase tok \<and> timestamp dn = 1700000000000
             \<and> ready w st'"
proof -
  let ?request = "\<lparr>dreq_amount = amt, dreq_token = tok\<rparr>"
  from units have u: "0 \<le> dreq_amount ?request"
    "dreq_amount ?request * 10 ^ decimals cfg < 2 ^ 64" by simp_all
  from returnsD [OF demo_deposit_try
      [OF u, where tok = "toUpperCase tok" and w = w and walletKey = w and f = f] st]
  obtain dn st'
    where run: "deposit_try (demo_env\<lparr>http_fetch_proof := f\<rparr>) ?request (toUpperCase tok) cfg w st =
                  (Inr \<lparr>dres_signature = ''signature'', dres_provider = PRIVACY_CASH,
                        dres_commitment = Some (encodeNote dn), dres_fee = 0.005 * amt\<rparr>, st')"
      and dn: "amount dn = amt" "token dn = toUpperCase tok" "timestamp dn = 1700000000000"
      and st': "ready w st'"
    by auto
  from st cfg range
  have "PrivacyCash_deposit (demo_env\<lparr>http_fetch_proof := f\<rparr>) ?request st =
               (Inr \<lparr>dres_signature = ''signature'', dres_provider = PRIVACY_CASH,
                     dres_commitment = Some (encodeNote dn), dres_fee = 0.005 * amt\<rparr>, st')"
    unfolding PrivacyCash_deposit_def ready_def
    by (simp add: ensureReady_ready ensureWallet_connected Let_def
        try_catch_returned [of "deposit_try (demo_env\<lparr>http_fetch_proof := f\<rparr>) ?request (toUpperCase tok) cfg w" st _ st',
          OF run])
  with dn st' show ?thesis by blast
qed

lemma demo_pool_ready: "ready (PublicKey ''alice'') demo_pool"
  by (simp add: ready_def demo_pool_def)



theorem transfer_is_deposit_then_withdraw_witness:
  "fst (PrivacyCash_transfer demo_env demo_transfer demo_pool) =
     Inr \<lparr>res_signature = ''signature'', res_provider = PRIVACY_CASH,
          res_privacyLevel = COMPLIANT_POOL, res_fee = Finite (0.005 * 1.5 + 0.005 * 1.5),
          res_anonymitySet = Some 500\<rparr>"
proof -
  have env: "demo_env\<lparr>http_fetch_proof := http_fetch_proof demo_env\<rparr> = demo_env" by simp
  have cfg: "map_of POOL_CONFIGS (toUpperCase ''sol'') = Some SOL_pool"
    by (simp add: POOL_CONFIGS_def toUpperCase_sol SOL_pool_def)
  have range: "minDeposit SOL_pool \<le> 1.5" "1.5 \<le> maxDeposit SOL_pool" "(0::real) \<le> 1.5"
    "1.5 * 10 ^ decimals SOL_pool < (2 ^ 64 :: real)"
    by (simp_all add: SOL_pool_def)
  from demo_PrivacyCash_deposit [OF demo_pool_ready cfg range, of "http_fetch_proof demo_env"]
  obtain dn st1 where dep: "PrivacyCash_deposit demo_env
               \<lparr>dreq_amount = 1.5, dreq_token = ''sol''\<rparr> demo_pool =
               (Inr \<lparr>dres_signature = ''signature'', dres_provider = PRIVACY_CASH,
                     dres_commitment = Some (encodeNote dn), dres_fee = 0.005 * 1.5\<rparr>, st1)"
    and dn: "amount dn = 1.5" "token dn = toUpperCase ''sol''" "timestamp dn = 1700000000000"
    and st1: "ready (PublicKey ''alice'') st1"
    unfolding env by blast
  have pa: "prints_exactly (amount dn)"
    unfolding dn(1) using demo_note_prints_exactly(1) by (simp add: demo_note_def)
  have "prints_exactly (real 1700000000000)" by (rule prints_exactly_nat) simp
  then have pt: "prints_exactly (timestamp dn)" unfolding dn(3) by simp
  from cfg dn(2) have cfg': "map_of POOL_CONFIGS (token dn) = Some SOL_pool" by simp
  from demo_PrivacyCash_withdraw [OF st1 pa pt cfg',
      of "http_fetch_proof demo_env" "1.5" "''sol''" demo_recipient]
  obtain st2 where wd: "PrivacyCash_withdraw demo_env
                 \<lparr>wreq_amount = 1.5, wreq_token = ''sol'',
                  wreq_recipient = AddressString demo_recipient,
                  wreq_commitment = Some (encodeNote dn)\<rparr> st1 =
               (Inr \<lparr>wres_signature = ''signature'', wres_provider = PRIVACY_CASH,
                     wres_fee = Finite (0.005 * amount dn)\<rparr>, st2)"
    unfolding env by blast
  from transfer_is_deposit_then_withdraw [of demo_env demo_transfer demo_pool] dep wd dn(1) cfg
  have "PrivacyCash_transfer demo_env demo_transfer demo_pool =
          (Inr \<lparr>res_signature = ''signature'', res_provider = PRIVACY_CASH,
                res_privacyLevel = COMPLIANT_POOL,
                res_fee = Finite (0.005 * 1.5 + 0.005 * 1.5),
                res_anonymitySet = Some 500\<rparr>, st2)"
    by (simp add: demo_transfer_def SOL_pool_def)
  then show ?thesis by simp
qed

end
